(* ===== verification/Prelude.thy ===== *)
theory Prelude
  imports Complex_Main "HOL-Library.Sublist"
begin

text \<open>
  Shared vocabulary of the development: how the JavaScript values that
  \<^verbatim>\<open>src/server.js\<close> reads from the upstream JSON are represented, and the
  small JavaScript built-ins the synthesiser calls (\<^verbatim>\<open>x || 0\<close>,
  \<^verbatim>\<open>s || 'Unknown'\<close>, \<^verbatim>\<open>String.prototype.includes\<close>,
  \<^verbatim>\<open>toLowerCase\<close>, \<^verbatim>\<open>Array.prototype.join\<close>, \<^verbatim>\<open>Math.round\<close>,
  \<^verbatim>\<open>parseFloat(x.toFixed(2))\<close>), with the lemmas the component theories share.

  JavaScript numbers are modelled as exact \<^typ>\<open>real\<close>s: the development does
  not model binary floating-point rounding (see the header of the root theory).
  A JSON field that may be absent, \<^verbatim>\<open>null\<close> or \<^verbatim>\<open>undefined\<close> is an
  \<^typ>\<open>'a option\<close>.
\<close>

named_theorems js_simps "evaluation rules of the JavaScript built-ins"

section \<open>Optional JSON fields\<close>

text \<open>\<^verbatim>\<open>v || 0\<close> on an optional numeric field: absent is falsy, and so is
  \<open>0\<close> (which yields \<open>0\<close> again).\<close>

definition num_or0 :: "real option \<Rightarrow> real" where
  "num_or0 v = (case v of None \<Rightarrow> 0 | Some x \<Rightarrow> x)"

text \<open>\<^verbatim>\<open>s || d\<close> on an optional string: absent and the empty string are
  falsy.\<close>

definition str_or :: "string \<Rightarrow> string option \<Rightarrow> string" where
  "str_or d v = (case v of None \<Rightarrow> d | Some s \<Rightarrow> if s = [] then d else s)"

section \<open>Strings\<close>

text \<open>\<^verbatim>\<open>String.prototype.toLowerCase\<close> on the ASCII letters; characters are
  bytes of the UTF-8 text, and non-ASCII letters are left as they are.\<close>

definition js_lower_char :: "char \<Rightarrow> char" where
  "js_lower_char c =
     (let n = (of_char c :: nat) in if 65 \<le> n \<and> n \<le> 90 then char_of (n + 32) else c)"

definition js_lower :: "string \<Rightarrow> string" where
  "js_lower s = map js_lower_char s"

text \<open>\<^verbatim>\<open>s.includes(kw)\<close>: \<open>kw\<close> occurs in \<open>s\<close> as a contiguous
  substring. The executable recursion tries every start position.\<close>

fun js_includes :: "string \<Rightarrow> string \<Rightarrow> bool" where
  "js_includes [] kw = (kw = [])"
| "js_includes (c # s) kw = (prefix kw (c # s) \<or> js_includes s kw)"

text \<open>\<^verbatim>\<open>xs.join(sep)\<close>.\<close>

fun js_join :: "string \<Rightarrow> string list \<Rightarrow> string" where
  "js_join sep [] = []"
| "js_join sep [x] = x"
| "js_join sep (x # y # zs) = x @ sep @ js_join sep (y # zs)"

section \<open>Numbers\<close>

text \<open>\<^verbatim>\<open>Math.round\<close>: the nearest integer, ties towards \<open>+\<infinity>\<close>.\<close>

definition js_round :: "real \<Rightarrow> int" where
  "js_round x = \<lfloor>x + 1 / 2\<rfloor>"

text \<open>\<^verbatim>\<open>parseFloat(x.toFixed(2))\<close>: \<^verbatim>\<open>toFixed\<close> picks the integer
  \<open>n\<close> with \<open>n / 100\<close> nearest to \<open>|x|\<close> (the larger one on a tie) and
  puts the sign back.\<close>

definition to_fixed2 :: "real \<Rightarrow> real" where
  "to_fixed2 x =
     (if x < 0 then - (real_of_int \<lfloor>(- x) * 100 + 1 / 2\<rfloor> / 100)
      else real_of_int \<lfloor>x * 100 + 1 / 2\<rfloor> / 100)"

text \<open>The arithmetic mean as the source computes it: a sum divided by the
  length (callers check that the list is not empty).\<close>

definition mean :: "real list \<Rightarrow> real" where
  "mean xs = sum_list xs / real (length xs)"

section \<open>Reference selections\<close>

text \<open>The first element of a list whose key is minimal: a later element
  replaces an earlier one only when its key is strictly smaller. This is the
  specification that the \<^verbatim>\<open>for ... if (distance < minDistance)\<close> loops are
  proved against.\<close>

fun first_min :: "('a \<Rightarrow> 'b::linorder) \<Rightarrow> 'a list \<Rightarrow> 'a option" where
  "first_min k [] = None"
| "first_min k (x # xs) =
     (case first_min k xs of None \<Rightarrow> Some x | Some y \<Rightarrow> if k y < k x then Some y else Some x)"

text \<open>\<^verbatim>\<open>!s\<close> for an optional string: \<^verbatim>\<open>undefined\<close> and \<^verbatim>\<open>''\<close>
  are falsy.\<close>

definition js_falsy_str :: "string option \<Rightarrow> bool" where
  "js_falsy_str v = (v = None \<or> v = Some [])"

section \<open>Exceptions\<close>

text \<open>Code that may throw returns \<open>'e + 'a\<close>, \<^const>\<open>Inl\<close> the exception.
  \<open>sbind\<close> runs a second computation after a first that did not throw;
  \<open>map_all\<close> is \<^verbatim>\<open>xs.map(f)\<close> (or a \<^verbatim>\<open>forEach\<close> collecting its
  effects) when \<open>f\<close> may throw: it stops at the first exception.\<close>

definition sbind :: "'e + 'a \<Rightarrow> ('a \<Rightarrow> 'e + 'b) \<Rightarrow> 'e + 'b" where
  "sbind r f = (case r of Inl e \<Rightarrow> Inl e | Inr a \<Rightarrow> f a)"

fun map_all :: "('a \<Rightarrow> 'e + 'b) \<Rightarrow> 'a list \<Rightarrow> 'e + 'b list" where
  "map_all f [] = Inr []"
| "map_all f (x # xs) = sbind (f x) (\<lambda>y. sbind (map_all f xs) (\<lambda>ys. Inr (y # ys)))"

section \<open>Shared lemmas\<close>

lemma num_or0_simps [simp, js_simps]:
  "num_or0 None = 0" "num_or0 (Some x) = x"
  by (simp_all add: num_or0_def)

lemma str_or_simps [simp, js_simps]:
  "str_or d None = d" "str_or d (Some []) = d" "str_or d (Some (c # s)) = c # s"
  by (simp_all add: str_or_def)

lemma str_or_nonempty: "d \<noteq> [] \<Longrightarrow> str_or d v \<noteq> []"
  by (auto simp: str_or_def split: option.splits)

lemma js_includes_iff_sublist: "js_includes s kw \<longleftrightarrow> sublist kw s"
  by (induction s) (auto simp: sublist_Cons_right)

lemma js_includes_self [simp]: "js_includes s s"
  by (simp add: js_includes_iff_sublist)

lemma js_includes_append:
  assumes "js_includes t kw"
  shows "js_includes (p @ t @ q) kw"
proof -
  from assms obtain ps ss where "t = ps @ kw @ ss"
    by (auto simp: js_includes_iff_sublist sublist_def)
  then have "p @ t @ q = (p @ ps) @ kw @ (ss @ q)" by simp
  then show ?thesis
    unfolding js_includes_iff_sublist by (metis sublist_appendI)
qed

lemma length_js_lower [simp]: "length (js_lower s) = length s"
  by (simp add: js_lower_def)

lemma js_lower_append [simp]: "js_lower (s @ t) = js_lower s @ js_lower t"
  by (simp add: js_lower_def)

lemma js_round_int_div:
  assumes "0 < d"
  shows "js_round (real_of_int n / real_of_int d) = (2 * n + d) div (2 * d)"
proof -
  have eq: "real_of_int n / real_of_int d + 1 / 2 = real_of_int (2 * n + d) / real_of_int (2 * d)"
    using assms by (simp add: field_simps)
  have "js_round (real_of_int n / real_of_int d) = \<lfloor>real_of_int (2 * n + d) / real_of_int (2 * d)\<rfloor>"
    by (simp only: js_round_def eq)
  also have "\<dots> = (2 * n + d) div (2 * d)"
    by (rule floor_divide_of_int_eq)
  finally show ?thesis .
qed

lemma to_fixed2_nonneg: "0 \<le> x \<Longrightarrow> to_fixed2 x = real_of_int \<lfloor>x * 100 + 1 / 2\<rfloor> / 100"
  by (simp add: to_fixed2_def)

lemma to_fixed2_mono_nonneg:
  assumes "0 \<le> x" "x \<le> y"
  shows "to_fixed2 x \<le> to_fixed2 y"
proof -
  have "\<lfloor>x * 100 + 1 / 2\<rfloor> \<le> \<lfloor>y * 100 + 1 / 2\<rfloor>"
    using assms by (intro floor_mono) simp
  then show ?thesis
    using assms by (simp add: to_fixed2_nonneg divide_right_mono)
qed

lemma to_fixed2_of_int: "to_fixed2 (real_of_int k) = real_of_int k"
proof (cases "k < 0")
  case True
  have "\<lfloor>real_of_int (- k) * 100 + 1 / 2\<rfloor> = - k * 100"
    by linarith
  with True show ?thesis by (simp add: to_fixed2_def)
next
  case False
  have "\<lfloor>real_of_int k * 100 + 1 / 2\<rfloor> = k * 100"
    by linarith
  with False show ?thesis by (simp add: to_fixed2_def)
qed

lemma to_fixed2_range:
  assumes "0 \<le> x" "x \<le> 100"
  shows "0 \<le> to_fixed2 x \<and> to_fixed2 x \<le> 100"
proof -
  have "to_fixed2 0 \<le> to_fixed2 x" "to_fixed2 x \<le> to_fixed2 100"
    using assms by (auto intro: to_fixed2_mono_nonneg)
  moreover have "to_fixed2 0 = 0" "to_fixed2 100 = 100"
    using to_fixed2_of_int [of 0] to_fixed2_of_int [of 100] by simp_all
  ultimately show ?thesis by simp
qed
lemma to_fixed2_between:
  assumes "0 \<le> x" "x \<le> real_of_int k"
  shows "0 \<le> to_fixed2 x \<and> to_fixed2 x \<le> real_of_int k"
proof -
  have "to_fixed2 0 \<le> to_fixed2 x" "to_fixed2 x \<le> to_fixed2 (real_of_int k)"
    using assms by (auto intro: to_fixed2_mono_nonneg)
  moreover have "to_fixed2 0 = 0" using to_fixed2_of_int [of 0] by simp
  ultimately show ?thesis by (simp add: to_fixed2_of_int)
qed

lemma mean_bounds:
  assumes "xs \<noteq> []" "\<forall>x \<in> set xs. a \<le> x \<and> x \<le> b"
  shows "a \<le> mean xs \<and> mean xs \<le> b"
proof -
  have n: "0 < real (length xs)" using assms(1) by simp
  have "sum_list (map (\<lambda>_. a) xs) \<le> sum_list xs" "sum_list xs \<le> sum_list (map (\<lambda>_. b) xs)"
    using assms(2) by (auto intro: sum_list_mono [of xs "\<lambda>_. a" id, simplified]
                                   sum_list_mono [of xs id "\<lambda>_. b", simplified])
  then have "real (length xs) * a \<le> sum_list xs" "sum_list xs \<le> real (length xs) * b"
    by (simp_all add: sum_list_triv)
  with n show ?thesis
    by (simp add: mean_def pos_le_divide_eq pos_divide_le_eq mult.commute)
qed

lemma first_min_None_iff [simp]: "first_min k xs = None \<longleftrightarrow> xs = []"
  by (induction xs) (auto split: option.splits)

lemma first_min_Some:
  assumes "first_min k xs = Some y"
  shows "\<exists>i < length xs. xs ! i = y \<and> (\<forall>j < length xs. k y \<le> k (xs ! j)) \<and>
           (\<forall>j < i. k y < k (xs ! j))"
  using assms
proof (induction xs arbitrary: y)
  case Nil
  then show ?case by simp
next
  case (Cons x xs)
  show ?case
  proof (cases "first_min k xs")
    case None
    with Cons.prems show ?thesis by auto
  next
    case (Some z)
    from Cons.IH [OF Some] obtain i where
      i: "i < length xs" "xs ! i = z" "\<forall>j < length xs. k z \<le> k (xs ! j)" "\<forall>j < i. k z < k (xs ! j)"
      by blast
    show ?thesis
    proof (cases "k z < k x")
      case True
      with Cons.prems Some have "y = z" by simp
      with True i show ?thesis
        by (intro exI [of _ "Suc i"]) (auto simp: nth_Cons' less_Suc_eq_0_disj)
    next
      case False
      with Cons.prems Some have "y = x" by simp
      with False i show ?thesis
        by (intro exI [of _ 0]) (auto simp: nth_Cons' less_Suc_eq_0_disj)
    qed
  qed
qed

lemma sublist_sep:
  assumes "kw \<noteq> []" "c \<notin> set kw"
  shows "sublist kw (x @ c # rest) \<longleftrightarrow> sublist kw x \<or> sublist kw rest"
proof
  assume "sublist kw (x @ c # rest)"
  then consider "sublist kw x" | "sublist kw (c # rest)"
    | xs1 xs2 where "kw = xs1 @ xs2" "suffix xs1 x" "prefix xs2 (c # rest)"
    by (auto simp: sublist_append)
  then show "sublist kw x \<or> sublist kw rest"
  proof cases
    case 2
    then show ?thesis
      using assms by (auto simp: sublist_Cons_right prefix_Cons neq_Nil_conv)
  next
    case (3 xs1 xs2)
    show ?thesis
    proof (cases xs2)
      case Nil
      with 3 show ?thesis by (auto intro: suffix_imp_sublist)
    next
      case (Cons y ys)
      with 3 assms(2) show ?thesis by (auto simp: prefix_Cons)
    qed
  qed simp
next
  assume "sublist kw x \<or> sublist kw rest"
  then show "sublist kw (x @ c # rest)"
    by (auto simp: sublist_append sublist_Cons_right)
qed

lemma js_includes_join_space:
  assumes "kw \<noteq> []" "CHR '' '' \<notin> set kw"
  shows "js_includes (js_join '' '' xs) kw \<longleftrightarrow> list_ex (\<lambda>x. js_includes x kw) xs"
proof (induction "'' ''" xs rule: js_join.induct)
  case 1
  then show ?case using assms(1) by simp
next
  case (2 x)
  then show ?case by simp
next
  case (3 x y zs)
  then show ?case
    using sublist_sep [OF assms, of x "js_join '' '' (y # zs)"]
    by (simp add: js_includes_iff_sublist)
qed

lemma sbind_simps [simp]: "sbind (Inl e) f = Inl e" "sbind (Inr a) f = f a"
  by (simp_all add: sbind_def)

lemma sbind_eq_Inr: "sbind r f = Inr b \<longleftrightarrow> (\<exists>a. r = Inr a \<and> f a = Inr b)"
  by (cases r) simp_all

lemma map_all_isl: "isl (map_all f xs) \<longleftrightarrow> (\<exists>x\<in>set xs. isl (f x))"
  by (induction xs) (auto simp: sbind_def split: sum.splits)

lemma map_all_map: "(\<And>x. x \<in> set xs \<Longrightarrow> f x = Inr (g x)) \<Longrightarrow> map_all f xs = Inr (map g xs)"
  by (induction xs) simp_all


lemma map_all_map_comp:
  "(\<And>x. x \<in> set xs \<Longrightarrow> f (g x) = Inr (h x)) \<Longrightarrow> map_all f (map g xs) = Inr (map h xs)"
  by (induction xs) simp_all


lemma to_fixed2_gt_int:
  assumes "0 \<le> k"
  shows "real_of_int k < to_fixed2 s \<longleftrightarrow> real_of_int k + 1 / 200 \<le> s"
proof (cases "s < 0")
  case True
  have "to_fixed2 s \<le> 0"
    using True by (simp add: to_fixed2_def)
  with True assms show ?thesis by auto
next
  case False
  have "real_of_int k < to_fixed2 s \<longleftrightarrow> k * 100 < \<lfloor>s * 100 + 1 / 2\<rfloor>"
    using False by (simp add: to_fixed2_nonneg field_simps) linarith
  also have "\<dots> \<longleftrightarrow> real_of_int (k * 100 + 1) \<le> s * 100 + 1 / 2"
    by (simp add: le_floor_iff [symmetric] del: le_floor_iff) linarith
  also have "\<dots> \<longleftrightarrow> real_of_int k + 1 / 200 \<le> s"
    by simp linarith
  finally show ?thesis .
qed

end
