(* ===== verification/Confidence.thy ===== *)
theory Confidence
  imports Prelude
begin

text \<open>
  Confidence handling of \<^verbatim>\<open>src/server.js\<close>: the upstream tag record, the
  level classifier \<^verbatim>\<open>getConfidenceLevel\<close> (lines 147-153), the item that
  \<^verbatim>\<open>generateSceneContext\<close> and \<^verbatim>\<open>categorizeTags\<close> build from a tag or
  an object (the same block at lines 73-80, 82-89, 132-139 and 271-278), and
  \<^verbatim>\<open>calculateAverageConfidence\<close> (lines 396-411).
\<close>

section \<open>Data\<close>

text \<open>The level labels the code returns (\<^verbatim>\<open>'ALTO'\<close>, \<^verbatim>\<open>'MEDIO'\<close>,
  \<^verbatim>\<open>'BAJO'\<close>).\<close>

datatype level = ALTO | MEDIO | BAJO

text \<open>A tag of \<^verbatim>\<open>/v2/tags\<close> or of \<^verbatim>\<open>/v2/auto_tagging\<close>:
  \<^verbatim>\<open>{tag: {en: ...}, confidence: ...}\<close>; either field may be missing.\<close>

record tag_result =
  tr_tag_en :: "string option"
  tr_confidence :: "real option"

text \<open>The item put into \<^verbatim>\<open>all_tags\<close>, \<^verbatim>\<open>objects_detected\<close> and the
  categories (\<^verbatim>\<open>{tag|name, confidence, level}\<close>).\<close>

record conf_item =
  ci_name :: string
  ci_confidence :: real
  ci_level :: level

section \<open>Operations\<close>

definition getConfidenceLevel :: "real \<Rightarrow> level" where
  "getConfidenceLevel confidence =
     (let normalized = (if confidence > 1 then confidence / 100 else confidence)
      in if normalized \<ge> 0.8 then ALTO
         else if normalized \<ge> 0.5 then MEDIO
         else BAJO)"

text \<open>\<^verbatim>\<open>confValue > 1 ? confValue : confValue * 100\<close>.\<close>

definition conf_percent :: "real \<Rightarrow> real" where
  "conf_percent confValue = (if confValue > 1 then confValue else confValue * 100)"

definition toConfItem :: "tag_result \<Rightarrow> conf_item" where
  "toConfItem t =
     (let confValue = num_or0 (tr_confidence t);
          confPercent = conf_percent confValue
      in \<lparr>ci_name = str_or ''Unknown'' (tr_tag_en t),
          ci_confidence = to_fixed2 confPercent,
          ci_level = getConfidenceLevel (if confValue > 1 then confValue / 100 else confValue)\<rparr>)"

definition calculateAverageConfidence :: "tag_result list \<Rightarrow> real" where
  "calculateAverageConfidence tags =
     (case tags of
        [] \<Rightarrow> 0
      | t0 # _ \<Rightarrow>
          (let firstConfidence = num_or0 (tr_confidence t0);
               isDecimal = firstConfidence \<le> 1;
               sum = foldl (\<lambda>acc t. let conf = num_or0 (tr_confidence t)
                                    in acc + (if isDecimal then conf * 100 else conf)) 0 tags;
               avg = sum / real (length tags)
           in min 100 (max 0 avg)))"

section \<open>Abstract view of a level\<close>

text \<open>What a level promises, stated on the percentage the user sees: at least
  80 is \<^const>\<open>ALTO\<close>, at least 50 is \<^const>\<open>MEDIO\<close>.\<close>

definition level_of_percent :: "real \<Rightarrow> level" where
  "level_of_percent p = (if p \<ge> 80 then ALTO else if p \<ge> 50 then MEDIO else BAJO)"

text \<open>The order of the levels, for monotonicity.\<close>

fun level_rank :: "level \<Rightarrow> nat" where
  "level_rank BAJO = 0"
| "level_rank MEDIO = 1"
| "level_rank ALTO = 2"

section \<open>Lemmas\<close>

lemma getConfidenceLevel_fraction:
  "x \<le> 1 \<Longrightarrow> getConfidenceLevel x = level_of_percent (x * 100)"
  by (simp add: getConfidenceLevel_def level_of_percent_def)

lemma getConfidenceLevel_percent:
  "1 < x \<Longrightarrow> x \<le> 100 \<Longrightarrow> getConfidenceLevel x = level_of_percent x"
  by (simp add: getConfidenceLevel_def level_of_percent_def)




lemma toConfItem_confidence:
  "ci_confidence (toConfItem t) = to_fixed2 (conf_percent (num_or0 (tr_confidence t)))"
  by (simp add: toConfItem_def Let_def)

lemma toConfItem_name: "ci_name (toConfItem t) = str_or ''Unknown'' (tr_tag_en t)"
  by (simp add: toConfItem_def Let_def)

lemma level_of_percent_mono:
  "p \<le> q \<Longrightarrow> level_rank (level_of_percent p) \<le> level_rank (level_of_percent q)"
  by (simp add: level_of_percent_def)

lemma foldl_add_shift:
  "foldl (\<lambda>acc t. acc + f t) a xs = a + sum_list (map f xs)"
  by (induction xs arbitrary: a) (simp_all add: algebra_simps)

lemma calculateAverageConfidence_Nil [simp]: "calculateAverageConfidence [] = 0"
  by (simp add: calculateAverageConfidence_def)

lemma calculateAverageConfidence_Cons:
  "calculateAverageConfidence (t0 # ts) =
     (let isDecimal = num_or0 (tr_confidence t0) \<le> 1;
          scaled = map (\<lambda>t. if isDecimal then num_or0 (tr_confidence t) * 100
                           else num_or0 (tr_confidence t)) (t0 # ts)
      in min 100 (max 0 (mean scaled)))"
  by (simp add: calculateAverageConfidence_def Let_def mean_def foldl_add_shift [where a = 0, simplified]
           del: foldl_Cons)

lemma toConfItem_confidence_bounds:
  assumes "0 \<le> num_or0 (tr_confidence t)" "num_or0 (tr_confidence t) \<le> 100"
  shows "0 \<le> ci_confidence (toConfItem t) \<and> ci_confidence (toConfItem t) \<le> 100"
proof -
  have "0 \<le> conf_percent (num_or0 (tr_confidence t)) \<and> conf_percent (num_or0 (tr_confidence t)) \<le> 100"
    using assms by (auto simp: conf_percent_def)
  then show ?thesis
    by (simp add: toConfItem_confidence to_fixed2_range)
qed

lemma calculateAverageConfidence_bounds:
  "0 \<le> calculateAverageConfidence ts \<and> calculateAverageConfidence ts \<le> 100"
  by (cases ts) (simp_all add: calculateAverageConfidence_Cons Let_def)

section \<open>Properties\<close>




text \<open>C37: The unit heuristic is not monotone and does not clamp: every raw
  confidence strictly between 1 and 100 is shown below the 100 per cent a raw 1
  is shown as, and the shown confidence exceeds 100 exactly when the raw value
  is at least 100.005 (spec 4.1 says the output is clamped to [0, 100]).\<close>

lemma confidence_unit_ambiguity:
  assumes "tr_confidence t = Some c"
  shows "(1 < c \<and> c < 100 \<longrightarrow> conf_percent c < conf_percent 1) \<and>
         (100 < ci_confidence (toConfItem t) \<longleftrightarrow> 100 + 1 / 200 \<le> c)"
proof
  show "1 < c \<and> c < 100 \<longrightarrow> conf_percent c < conf_percent 1"
    by (simp add: conf_percent_def)
  show "100 < ci_confidence (toConfItem t) \<longleftrightarrow> 100 + 1 / 200 \<le> c"
  proof (cases "1 < c")
    case True
    then show ?thesis
      using assms to_fixed2_gt_int [of 100 c]
      by (simp add: toConfItem_def conf_percent_def num_or0_def)
  next
    case False
    have "to_fixed2 (c * 100) \<le> 100"
    proof (cases "0 \<le> c")
      case True
      with False show ?thesis using to_fixed2_range [of "c * 100"] by simp
    next
      case neg: False
      have "0 \<le> real_of_int \<lfloor>(- (c * 100)) * 100 + 1 / 2\<rfloor>" using neg by simp
      then have "- (real_of_int \<lfloor>(- (c * 100)) * 100 + 1 / 2\<rfloor> / 100) \<le> 100" by linarith
      with neg show ?thesis unfolding to_fixed2_def by simp
    qed
    with False show ?thesis
      using assms by (simp add: toConfItem_def conf_percent_def num_or0_def)
  qed
qed

lemma confidence_unit_ambiguity_witness:
  "conf_percent (3 / 2) < conf_percent 1 \<and>
   100 < ci_confidence (toConfItem \<lparr>tr_tag_en = Some ''x'', tr_confidence = Some 250\<rparr>)"
  using confidence_unit_ambiguity [of "\<lparr>tr_tag_en = Some ''x'', tr_confidence = Some (3 / 2)\<rparr>" "3 / 2"]
        confidence_unit_ambiguity [of "\<lparr>tr_tag_en = Some ''x'', tr_confidence = Some 250\<rparr>" 250]
  by simp

text \<open>On the fraction scale the level classifier is monotone; its thresholds 0.8 and 0.5 are inclusive.\<close>

lemma getConfidenceLevel_mono_fraction:
  "x \<le> y \<Longrightarrow> y \<le> 1 \<Longrightarrow> level_rank (getConfidenceLevel x) \<le> level_rank (getConfidenceLevel y)"
  by (simp add: getConfidenceLevel_fraction level_of_percent_mono)

lemma getConfidenceLevel_mono_fraction_witness:
  "(0.79999::real) \<le> 0.8 \<and> (0.8::real) \<le> 1 \<and>
   getConfidenceLevel 0.79999 = MEDIO \<and> getConfidenceLevel 0.8 = ALTO \<and>
   getConfidenceLevel 0.5 = MEDIO \<and> getConfidenceLevel 0.49999 = BAJO \<and>
   level_rank (getConfidenceLevel 0.79999) \<le> level_rank (getConfidenceLevel 0.8)"
  using getConfidenceLevel_mono_fraction [of "0.79999" "0.8"]
  by (simp add: getConfidenceLevel_def)

text \<open>When every tag confidence is a fraction in [0, 1], the overall confidence is the mean of the percentages, and the clamp never acts.\<close>

lemma calculateAverageConfidence_fraction:
  assumes "ts \<noteq> []" "\<forall>t \<in> set ts. 0 \<le> num_or0 (tr_confidence t) \<and> num_or0 (tr_confidence t) \<le> 1"
  shows "calculateAverageConfidence ts = mean (map (\<lambda>t. num_or0 (tr_confidence t) * 100) ts)"
proof -
  obtain t0 rest where ts: "ts = t0 # rest" using assms(1) by (cases ts) auto
  then have dec: "num_or0 (tr_confidence t0) \<le> 1" using assms(2) by simp
  have "0 \<le> mean (map (\<lambda>t. num_or0 (tr_confidence t) * 100) ts) \<and>
        mean (map (\<lambda>t. num_or0 (tr_confidence t) * 100) ts) \<le> 100"
    using assms by (intro mean_bounds) auto
  with ts dec show ?thesis
    by (simp add: calculateAverageConfidence_Cons Let_def)
qed

lemma calculateAverageConfidence_fraction_witness:
  "calculateAverageConfidence [\<lparr>tr_tag_en = Some ''a'', tr_confidence = Some 0.9\<rparr>,
                               \<lparr>tr_tag_en = Some ''b'', tr_confidence = Some 0.5\<rparr>] = 70"
  using calculateAverageConfidence_fraction
          [of "[\<lparr>tr_tag_en = Some ''a'', tr_confidence = Some 0.9\<rparr>,
                \<lparr>tr_tag_en = Some ''b'', tr_confidence = Some 0.5\<rparr>]"]
  by (simp add: mean_def)

text \<open>The unit is decided once, from the first tag: when it is a fraction, every tag is scaled by 100, whatever its own unit.\<close>

lemma calculateAverageConfidence_first_unit:
  "num_or0 (tr_confidence t0) \<le> 1 \<Longrightarrow>
   calculateAverageConfidence (t0 # ts) =
     min 100 (max 0 (mean (map (\<lambda>t. num_or0 (tr_confidence t) * 100) (t0 # ts))))"
  by (simp add: calculateAverageConfidence_Cons)

lemma calculateAverageConfidence_first_unit_witness:
  "calculateAverageConfidence [\<lparr>tr_tag_en = Some ''a'', tr_confidence = Some 0.5\<rparr>,
                               \<lparr>tr_tag_en = Some ''b'', tr_confidence = Some 80\<rparr>] = 100"
  using calculateAverageConfidence_first_unit
          [of "\<lparr>tr_tag_en = Some ''a'', tr_confidence = Some 0.5\<rparr>"
              "[\<lparr>tr_tag_en = Some ''b'', tr_confidence = Some 80\<rparr>]"]
  by (simp add: mean_def)

end
