(* ===== verification/Color.thy ===== *)
theory Color
  imports Prelude "HOL-Library.Multiset"
begin

text \<open>
  Colour analysis of \<^verbatim>\<open>src/server.js\<close>: \<^verbatim>\<open>hexToRgb\<close> (lines 177-185),
  \<^verbatim>\<open>calculateBrightness\<close> (188-192), \<^verbatim>\<open>colorNameFromHex\<close> (195-223),
  \<^verbatim>\<open>analyzeColorHarmony\<close> (226-249), \<^verbatim>\<open>calculateVibrancy\<close> (378-393)
  and \<^verbatim>\<open>analyzeColorsAdvanced\<close> (156-174). Distances use \<^const>\<open>sqrt\<close> as
  the code does; each function that compares distances gets an executable
  code equation on squared integer distances, proved equal to it.
\<close>

section \<open>Data\<close>

text \<open>\<^verbatim>\<open>{r, g, b}\<close> as \<^verbatim>\<open>hexToRgb\<close> returns it.\<close>

record rgb =
  red :: nat
  green :: nat
  blue :: nat

text \<open>A colour of \<^verbatim>\<open>/v2/colors\<close>: \<^verbatim>\<open>{hex, percentage}\<close>, either field
  possibly missing.\<close>

record color_result =
  cr_hex :: "string option"
  cr_percentage :: "real option"

text \<open>The names of the reference palette (\<^verbatim>\<open>'Negro'\<close>, \<^verbatim>\<open>'Blanco'\<close>,
  ..., \<^verbatim>\<open>'Rosa'\<close>; \<open>Purpura\<close> is the accented \<^verbatim>\<open>'Purpura'\<close> of the
  source) and \<^verbatim>\<open>'Desconocido'\<close>.\<close>

datatype color_name =
  Negro | Blanco | Rojo | Verde | Azul | Amarillo | Magenta | Cyan | Gris | Naranja
  | Purpura | Rosa | Desconocido

text \<open>\<^verbatim>\<open>'Insuficientes datos'\<close>, \<^verbatim>\<open>'Contrastado'\<close>,
  \<^verbatim>\<open>'Complementario'\<close> and the accented \<^verbatim>\<open>'Analogo'\<close>.\<close>

datatype harmony = InsuficientesDatos | Contrastado | Complementario | Analogo

text \<open>\<^verbatim>\<open>'Muy Alta'\<close>, \<^verbatim>\<open>'Alta'\<close>, \<^verbatim>\<open>'Media'\<close>, \<^verbatim>\<open>'Baja'\<close>: the scale
  of \<^verbatim>\<open>calculateVibrancy\<close> and \<^verbatim>\<open>calculateComplexity\<close>.\<close>

datatype rating = MuyAlta | Alta | Media | Baja

text \<open>An entry of \<^verbatim>\<open>analyzeColorsAdvanced(...).dominant\<close>.\<close>

record dominant_entry =
  de_hex :: "string option"
  de_rgb :: "rgb option"
  de_percentage :: real

text \<open>The object \<^verbatim>\<open>analyzeColorsAdvanced\<close> returns.\<close>

record color_summary =
  cs_dominant :: "dominant_entry list"
  cs_palette :: "string option list"
  cs_avg_brightness :: real

section \<open>Parsing hexadecimal colours\<close>

text \<open>One character of the class \<^verbatim>\<open>[a-f\d]\<close> under the flag \<^verbatim>\<open>i\<close>,
  with its value as \<^verbatim>\<open>parseInt(_, 16)\<close> reads it.\<close>

definition hex_digit_val :: "char \<Rightarrow> nat option" where
  "hex_digit_val c =
     (let n = (of_char c :: nat)
      in if 48 \<le> n \<and> n \<le> 57 then Some (n - 48)
         else if 97 \<le> n \<and> n \<le> 102 then Some (n - 87)
         else if 65 \<le> n \<and> n \<le> 70 then Some (n - 55)
         else None)"

text \<open>One group \<^verbatim>\<open>([a-f\d]{2})\<close> read by \<^verbatim>\<open>parseInt(result[i], 16)\<close>.\<close>

definition hex_pair :: "char \<Rightarrow> char \<Rightarrow> nat option" where
  "hex_pair c1 c2 =
     (case (hex_digit_val c1, hex_digit_val c2) of
        (Some h, Some l) \<Rightarrow> Some (16 * h + l)
      | _ \<Rightarrow> None)"

text \<open>The optional \<^verbatim>\<open>#?\<close>: a leading \<^verbatim>\<open>#\<close> is consumed (backtracking
  to keep it could only match if \<^verbatim>\<open>#\<close> were a hex digit).\<close>

definition strip_hash :: "string \<Rightarrow> string" where
  "strip_hash s = (case s of c # s' \<Rightarrow> if c = CHR ''#'' then s' else s | [] \<Rightarrow> [])"

text \<open>\<^verbatim>\<open>/^#?([a-f\d]{2})([a-f\d]{2})([a-f\d]{2})$/i.exec(hex)\<close>; a missing
  \<^verbatim>\<open>hex\<close> is the string \<^verbatim>\<open>"undefined"\<close>, which does not match.\<close>

definition hexToRgb :: "string option \<Rightarrow> rgb option" where
  "hexToRgb hex =
     (case hex of
        None \<Rightarrow> None
      | Some s \<Rightarrow>
          (case strip_hash s of
             [c1, c2, c3, c4, c5, c6] \<Rightarrow>
               (case (hex_pair c1 c2, hex_pair c3 c4, hex_pair c5 c6) of
                  (Some r, Some g, Some b) \<Rightarrow> Some \<lparr>red = r, green = g, blue = b\<rparr>
                | _ \<Rightarrow> None)
           | _ \<Rightarrow> None))"

section \<open>Brightness, names, harmony, vibrancy\<close>

definition calculateBrightness :: "string option \<Rightarrow> int" where
  "calculateBrightness hex =
     (case hexToRgb hex of
        None \<Rightarrow> 50
      | Some c \<Rightarrow> js_round (real (red c * 299 + green c * 587 + blue c * 114) / 1000))"

text \<open>The object literal \<^verbatim>\<open>colorNames\<close>, in its iteration order.\<close>

definition colorNames :: "(string \<times> color_name) list" where
  "colorNames =
     [(''#000000'', Negro), (''#FFFFFF'', Blanco), (''#FF0000'', Rojo), (''#00FF00'', Verde),
      (''#0000FF'', Azul), (''#FFFF00'', Amarillo), (''#FF00FF'', Magenta), (''#00FFFF'', Cyan),
      (''#808080'', Gris), (''#FFA500'', Naranja), (''#800080'', Purpura), (''#FFC0CB'', Rosa)]"

text \<open>The squared Euclidean distance of two colours, and the distance
  \<^verbatim>\<open>Math.sqrt(Math.pow(r1 - r2, 2) + ...)\<close>.\<close>

definition sq_dist :: "rgb \<Rightarrow> rgb \<Rightarrow> int" where
  "sq_dist a b =
     (int (red a) - int (red b))\<^sup>2 + (int (green a) - int (green b))\<^sup>2
     + (int (blue a) - int (blue b))\<^sup>2"

definition rgb_distance :: "rgb \<Rightarrow> rgb \<Rightarrow> real" where
  "rgb_distance a b = sqrt (real_of_int (sq_dist a b))"

text \<open>The loop \<^verbatim>\<open>for (const [hex, name] of Object.entries(colorNames))\<close>
  with its state \<^verbatim>\<open>closestColor\<close> and \<^verbatim>\<open>minDistance\<close>; \<^verbatim>\<open>Infinity\<close>
  is \<^const>\<open>None\<close>. Every palette entry parses (lemma \<open>colorNames_parse\<close>),
  so \<^verbatim>\<open>refRgb\<close> is never \<^verbatim>\<open>null\<close>.\<close>

fun nearest_color :: "rgb \<Rightarrow> (string \<times> color_name) list \<Rightarrow> color_name \<Rightarrow> real option \<Rightarrow> color_name" where
  "nearest_color c [] closestColor minDistance = closestColor"
| "nearest_color c ((h, name) # rest) closestColor minDistance =
     (let refRgb = the (hexToRgb (Some h));
          distance = rgb_distance c refRgb
      in if (case minDistance of None \<Rightarrow> True | Some m \<Rightarrow> distance < m)
         then nearest_color c rest name (Some distance)
         else nearest_color c rest closestColor minDistance)"

definition colorNameFromHex :: "string option \<Rightarrow> color_name" where
  "colorNameFromHex hex =
     (case hexToRgb hex of
        None \<Rightarrow> Desconocido
      | Some c \<Rightarrow> nearest_color c colorNames Desconocido None)"

definition analyzeColorHarmony :: "color_result list \<Rightarrow> harmony" where
  "analyzeColorHarmony colors =
     (if length colors < 2 then InsuficientesDatos
      else
        (let dominant = take 2 colors;
             hex1 = cr_hex (dominant ! 0);
             hex2 = cr_hex (dominant ! 1)
         in if js_falsy_str hex1 \<or> js_falsy_str hex2 then InsuficientesDatos
            else
              (case (hexToRgb hex1, hexToRgb hex2) of
                 (Some rgb1, Some rgb2) \<Rightarrow>
                   (let diff = rgb_distance rgb1 rgb2
                    in if diff > 200 then Contrastado
                       else if diff > 100 then Complementario
                       else Analogo)
               | _ \<Rightarrow> InsuficientesDatos)))"

text \<open>The saturation computed for one colour inside \<^verbatim>\<open>calculateVibrancy\<close>.\<close>

definition saturation :: "string option \<Rightarrow> real" where
  "saturation hex =
     (case hexToRgb hex of
        None \<Rightarrow> 0
      | Some c \<Rightarrow>
          (let mx = max (max (red c) (green c)) (blue c);
               mn = min (min (red c) (green c)) (blue c)
           in if mx = 0 then 0 else (real mx - real mn) / real mx))"

definition calculateVibrancy :: "color_result list \<Rightarrow> rating" where
  "calculateVibrancy colors =
     (if colors = [] then Baja
      else
        (let avgSaturation = mean (map (\<lambda>c. saturation (cr_hex c)) colors)
         in if avgSaturation > 0.5 then MuyAlta
            else if avgSaturation > 0.3 then Alta
            else if avgSaturation > 0.1 then Media
            else Baja))"

section \<open>The colour summary\<close>

text \<open>\<^verbatim>\<open>[...colors].sort((a, b) => (b.percentage || 0) - (a.percentage || 0))\<close>:
  \<^verbatim>\<open>Array.prototype.sort\<close> is stable, so this is a stable sort by decreasing
  percentage.\<close>

definition sortByPercentage :: "color_result list \<Rightarrow> color_result list" where
  "sortByPercentage colors = sort_key (\<lambda>c. - num_or0 (cr_percentage c)) colors"

definition analyzeColorsAdvanced :: "color_result list \<Rightarrow> color_summary" where
  "analyzeColorsAdvanced colors =
     (if colors = [] then \<lparr>cs_dominant = [], cs_palette = [], cs_avg_brightness = 50\<rparr>
      else
        (let sorted = sortByPercentage colors;
             brightness = map (\<lambda>c. real_of_int (calculateBrightness (cr_hex c))) colors;
             avgBrightness = (if brightness \<noteq> [] then mean brightness else 50)
         in \<lparr>cs_dominant = map (\<lambda>c. \<lparr>de_hex = cr_hex c, de_rgb = hexToRgb (cr_hex c),
                                       de_percentage = num_or0 (cr_percentage c)\<rparr>) (take 5 sorted),
             cs_palette = map cr_hex sorted,
             cs_avg_brightness = avgBrightness\<rparr>))"

section \<open>Executable forms and the printer\<close>

text \<open>The loop of \<^verbatim>\<open>colorNameFromHex\<close> on squared distances.\<close>

fun nearest_color_sq :: "rgb \<Rightarrow> (string \<times> color_name) list \<Rightarrow> color_name \<Rightarrow> int option \<Rightarrow> color_name" where
  "nearest_color_sq c [] closestColor minD = closestColor"
| "nearest_color_sq c ((h, name) # rest) closestColor minD =
     (let d = sq_dist c (the (hexToRgb (Some h)))
      in if (case minD of None \<Rightarrow> True | Some m \<Rightarrow> d < m)
         then nearest_color_sq c rest name (Some d)
         else nearest_color_sq c rest closestColor minD)"

text \<open>The canonical spelling of a colour, \<^verbatim>\<open>#rrggbb\<close> in lower case: the
  inverse of \<^const>\<open>hexToRgb\<close> for the round-trip lemmas.\<close>

definition hex_char :: "nat \<Rightarrow> char" where
  "hex_char n = char_of (if n < 10 then 48 + n else 87 + n)"

definition hex_byte :: "nat \<Rightarrow> string" where
  "hex_byte n = [hex_char (n div 16), hex_char (n mod 16)]"

definition rgbToHex :: "rgb \<Rightarrow> string" where
  "rgbToHex c = CHR ''#'' # hex_byte (red c) @ hex_byte (green c) @ hex_byte (blue c)"

text \<open>The distance of a colour to a palette entry, the key the loop of
  \<^verbatim>\<open>colorNameFromHex\<close> minimises.\<close>

definition palette_distance :: "rgb \<Rightarrow> string \<times> color_name \<Rightarrow> real" where
  "palette_distance c p = rgb_distance c (the (hexToRgb (Some (fst p))))"

definition rgb_valid :: "rgb \<Rightarrow> bool" where
  "rgb_valid c \<longleftrightarrow> red c < 256 \<and> green c < 256 \<and> blue c < 256"

section \<open>Lemmas\<close>


lemma hex_digit_val_hex_char: "n < 16 \<Longrightarrow> hex_digit_val (hex_char n) = Some n"
  by (simp add: hex_digit_val_def hex_char_def)

lemma hex_digit_val_bound: "hex_digit_val ch = Some d \<Longrightarrow> d < 16"
  by (auto simp: hex_digit_val_def Let_def split: if_splits)

lemma hex_char_hex_digit_val: "hex_digit_val ch = Some d \<Longrightarrow> hex_char d = js_lower_char ch"
  by (auto simp: hex_digit_val_def hex_char_def js_lower_char_def Let_def split: if_splits)

lemma hex_pair_hex_byte:
  assumes "n < 256"
  shows "hex_pair (hex_char (n div 16)) (hex_char (n mod 16)) = Some n"
proof -
  have "n div 16 < 16" using assms by simp
  then show ?thesis by (simp add: hex_pair_def hex_digit_val_hex_char)
qed

lemma hex_pair_Some:
  assumes "hex_pair c1 c2 = Some n"
  shows "n < 256 \<and> hex_byte n = [js_lower_char c1, js_lower_char c2]"
proof -
  from assms obtain h l where h: "hex_digit_val c1 = Some h" and l: "hex_digit_val c2 = Some l"
    and n: "n = 16 * h + l"
    by (auto simp: hex_pair_def split: option.splits)
  have "h < 16" "l < 16" using h l by (simp_all add: hex_digit_val_bound)
  then have "n div 16 = h" "n mod 16 = l" "n < 256" using n by simp_all
  then show ?thesis
    using h l by (simp add: hex_byte_def hex_char_hex_digit_val)
qed

lemma hexToRgb_Some:
  assumes "hexToRgb hex = Some c"
  shows "\<exists>s c1 c2 c3 c4 c5 c6. hex = Some s \<and> strip_hash s = [c1, c2, c3, c4, c5, c6] \<and>
           hex_pair c1 c2 = Some (red c) \<and> hex_pair c3 c4 = Some (green c) \<and> hex_pair c5 c6 = Some (blue c)"
  using assms
  by (auto simp: hexToRgb_def split: option.splits list.splits)

lemma hexToRgb_valid: "hexToRgb hex = Some c \<Longrightarrow> rgb_valid c"
  by (auto simp: rgb_valid_def dest!: hexToRgb_Some hex_pair_Some)

lemma calculateBrightness_int:
  "calculateBrightness hex =
     (case hexToRgb hex of None \<Rightarrow> 50
      | Some c \<Rightarrow> (int (red c * 299 + green c * 587 + blue c * 114) + 500) div 1000)"
proof (cases "hexToRgb hex")
  case None
  then show ?thesis by (simp add: calculateBrightness_def)
next
  case (Some c)
  let ?n = "int (red c * 299 + green c * 587 + blue c * 114)"
  have "js_round (real (red c * 299 + green c * 587 + blue c * 114) / 1000)
          = js_round (real_of_int ?n / real_of_int 1000)"
    by simp
  also have "\<dots> = (2 * ?n + 1000) div (2 * 1000)"
    by (rule js_round_int_div) simp
  also have "\<dots> = (?n + 500) div 1000"
    using div_mult_mult1 [of 2 "?n + 500" 1000] by (simp add: algebra_simps)
  finally show ?thesis using Some by (simp add: calculateBrightness_def)
qed

lemma colorNames_parse: "list_all (\<lambda>(h, n). hexToRgb (Some h) \<noteq> None) colorNames"
  by (simp add: colorNames_def hexToRgb_def strip_hash_def hex_pair_def hex_digit_val_def)

lemma rgb_distance_less_iff: "rgb_distance a b < rgb_distance c d \<longleftrightarrow> sq_dist a b < sq_dist c d"
  by (simp add: rgb_distance_def)

lemma nearest_color_sq_eq:
  "nearest_color c pal cl (map_option (\<lambda>d. sqrt (real_of_int d)) md) = nearest_color_sq c pal cl md"
proof (induction pal arbitrary: cl md)
  case Nil
  then show ?case by simp
next
  case (Cons p pal)
  obtain h n where p: "p = (h, n)" by (cases p)
  show ?case
    using Cons.IH [of n "Some (sq_dist c (the (hexToRgb (Some h))))"] Cons.IH [of cl md]
    by (cases md) (simp_all add: p Let_def rgb_distance_def)
qed

lemma colorNameFromHex_code [code]:
  "colorNameFromHex hex =
     (case hexToRgb hex of None \<Rightarrow> Desconocido | Some c \<Rightarrow> nearest_color_sq c colorNames Desconocido None)"
  using nearest_color_sq_eq [where md = None] by (simp add: colorNameFromHex_def split: option.splits)

lemma nearest_color_first_min:
  "nearest_color c pal cl md =
     (case first_min (palette_distance c) pal of
        None \<Rightarrow> cl
      | Some p \<Rightarrow> if (case md of None \<Rightarrow> True | Some m \<Rightarrow> palette_distance c p < m) then snd p else cl)"
proof (induction pal arbitrary: cl md)
  case Nil
  then show ?case by simp
next
  case (Cons p pal)
  obtain h n where p: "p = (h, n)" by (cases p)
  show ?case
    using Cons.IH [of n "Some (palette_distance c p)"] Cons.IH [of cl md]
    by (cases md)
       (auto simp: p Let_def palette_distance_def split: option.splits if_splits)
qed

lemma js_falsy_str_hexToRgb: "js_falsy_str h \<Longrightarrow> hexToRgb h = None"
  by (auto simp: js_falsy_str_def hexToRgb_def strip_hash_def)

lemma sqrt_gt_numeral_iff: "0 \<le> y \<Longrightarrow> y < sqrt x \<longleftrightarrow> y\<^sup>2 < x"
  by (metis real_less_rsqrt real_sqrt_less_iff real_sqrt_pow2_iff real_sqrt_abs abs_of_nonneg
        power2_eq_square real_sqrt_mult_self)

lemma analyzeColorHarmony_code [code]:
  "analyzeColorHarmony colors =
     (case colors of
        c1 # c2 # _ \<Rightarrow>
          (case (hexToRgb (cr_hex c1), hexToRgb (cr_hex c2)) of
             (Some a, Some b) \<Rightarrow>
               (if sq_dist a b > 40000 then Contrastado
                else if sq_dist a b > 10000 then Complementario else Analogo)
           | _ \<Rightarrow> InsuficientesDatos)
      | _ \<Rightarrow> InsuficientesDatos)"
proof -
  have t200: "(200 < rgb_distance a b) \<longleftrightarrow> 40000 < sq_dist a b" for a b
    using sqrt_gt_numeral_iff [of 200 "real_of_int (sq_dist a b)"] by (simp add: rgb_distance_def)
  have t100: "(100 < rgb_distance a b) \<longleftrightarrow> 10000 < sq_dist a b" for a b
    using sqrt_gt_numeral_iff [of 100 "real_of_int (sq_dist a b)"] by (simp add: rgb_distance_def)
  show ?thesis
    by (auto simp: analyzeColorHarmony_def Let_def t200 t100 js_falsy_str_hexToRgb
             split: list.splits option.splits)
qed

lemma saturation_range: "0 \<le> saturation hex \<and> saturation hex \<le> 1"
  by (auto simp: saturation_def Let_def divide_le_eq_1 split: option.splits)

lemma saturation_grey: "hexToRgb hex = Some \<lparr>red = v, green = v, blue = v\<rparr> \<Longrightarrow> saturation hex = 0"
  by (simp add: saturation_def)


lemma calculateBrightness_bounds: "0 \<le> calculateBrightness hex \<and> calculateBrightness hex \<le> 255"
proof (cases "hexToRgb hex")
  case None
  then show ?thesis by (simp add: calculateBrightness_int)
next
  case (Some c)
  then have "rgb_valid c" by (rule hexToRgb_valid)
  then have "red c * 299 + green c * 587 + blue c * 114 \<le> 255 * 1000"
    by (simp add: rgb_valid_def)
  then have "(int (red c * 299 + green c * 587 + blue c * 114) + 500) div 1000 \<le> 255500 div 1000"
    by (intro zdiv_mono1) simp_all
  with Some show ?thesis by (simp add: calculateBrightness_int)
qed

lemma analyzeColorsAdvanced_avg_bounds:
  "0 \<le> cs_avg_brightness (analyzeColorsAdvanced colors) \<and> cs_avg_brightness (analyzeColorsAdvanced colors) \<le> 255"
proof (cases "colors = []")
  case True
  then show ?thesis by (simp add: analyzeColorsAdvanced_def)
next
  case False
  have "0 \<le> mean (map (\<lambda>c. real_of_int (calculateBrightness (cr_hex c))) colors) \<and>
        mean (map (\<lambda>c. real_of_int (calculateBrightness (cr_hex c))) colors) \<le> 255"
    using False calculateBrightness_bounds by (intro mean_bounds) auto
  with False show ?thesis by (simp add: analyzeColorsAdvanced_def Let_def)
qed

section \<open>Properties\<close>

text \<open>C5: Parsing the canonical spelling \<^verbatim>\<open>#rrggbb\<close> of a colour with channels below 256 gives the colour back.\<close>

lemma hexToRgb_rgbToHex: "rgb_valid c \<Longrightarrow> hexToRgb (Some (rgbToHex c)) = Some c"
  by (simp add: rgbToHex_def hex_byte_def hexToRgb_def strip_hash_def hex_pair_hex_byte rgb_valid_def)

lemma hexToRgb_rgbToHex_witness:
  "rgb_valid \<lparr>red = 255, green = 165, blue = 0\<rparr> \<and>
   hexToRgb (Some (rgbToHex \<lparr>red = 255, green = 165, blue = 0\<rparr>)) = Some \<lparr>red = 255, green = 165, blue = 0\<rparr>"
  using hexToRgb_rgbToHex [of "\<lparr>red = 255, green = 165, blue = 0\<rparr>"] by (simp add: rgb_valid_def)

text \<open>C6: Whatever string \<^verbatim>\<open>hexToRgb\<close> accepts is the canonical spelling of its result up to the optional \<^verbatim>\<open>#\<close> and letter case: the regular expression accepts exactly six hex digits, in either case.\<close>

lemma rgbToHex_hexToRgb:
  assumes "hexToRgb (Some s) = Some c"
  shows "rgbToHex c = CHR ''#'' # js_lower (strip_hash s)"
  using hexToRgb_Some [OF assms]
  by (auto simp: rgbToHex_def js_lower_def dest!: hex_pair_Some)

lemma rgbToHex_hexToRgb_witness:
  "hexToRgb (Some ''FFa500'') = Some \<lparr>red = 255, green = 165, blue = 0\<rparr> \<and>
   rgbToHex \<lparr>red = 255, green = 165, blue = 0\<rparr> = CHR ''#'' # js_lower (strip_hash ''FFa500'')"
proof -
  have h: "hexToRgb (Some ''FFa500'') = Some \<lparr>red = 255, green = 165, blue = 0\<rparr>"
    by (simp add: hexToRgb_def strip_hash_def hex_pair_def hex_digit_val_def)
  show ?thesis using h rgbToHex_hexToRgb [OF h] by simp
qed

text \<open>The brightness of any colour string, well-formed or not, is an integer in [0, 255] (malformed strings get 50).\<close>

corollary calculateBrightness_range: "0 \<le> calculateBrightness hex \<and> calculateBrightness hex \<le> 255"
  by (rule calculateBrightness_bounds)

text \<open>Brightness of white is 255, of black 0, and of a malformed string the neutral 50.\<close>

lemma calculateBrightness_examples: "calculateBrightness (Some ''#FFFFFF'') = 255 \<and> calculateBrightness (Some ''#000000'') = 0
   \<and> calculateBrightness (Some ''zz'') = 50"
  by (simp add: calculateBrightness_int hexToRgb_def strip_hash_def hex_pair_def hex_digit_val_def)

text \<open>C4: For a well-formed colour, \<^verbatim>\<open>colorNameFromHex\<close> returns the name of a palette entry at minimal Euclidean distance, and of the first such entry in the palette order when several tie.\<close>

lemma colorNameFromHex_nearest:
  assumes "hexToRgb hex = Some c"
  shows "\<exists>i < length colorNames.
           colorNameFromHex hex = snd (colorNames ! i) \<and>
           (\<forall>j < length colorNames. palette_distance c (colorNames ! i) \<le> palette_distance c (colorNames ! j)) \<and>
           (\<forall>j < i. palette_distance c (colorNames ! i) < palette_distance c (colorNames ! j))"
proof -
  have "colorNames \<noteq> []" by (simp add: colorNames_def)
  then obtain p where fm: "first_min (palette_distance c) colorNames = Some p"
    by (cases "first_min (palette_distance c) colorNames") auto
  then have "colorNameFromHex hex = snd p"
    using assms by (simp add: colorNameFromHex_def nearest_color_first_min)
  with first_min_Some [OF fm] show ?thesis by auto
qed

lemma colorNameFromHex_nearest_witness:
  "hexToRgb (Some ''#FE0101'') = Some \<lparr>red = 254, green = 1, blue = 1\<rparr> \<and>
   (\<exists>i < length colorNames.
      colorNameFromHex (Some ''#FE0101'') = snd (colorNames ! i) \<and>
      (\<forall>j < length colorNames. palette_distance \<lparr>red = 254, green = 1, blue = 1\<rparr> (colorNames ! i)
                               \<le> palette_distance \<lparr>red = 254, green = 1, blue = 1\<rparr> (colorNames ! j)) \<and>
      (\<forall>j < i. palette_distance \<lparr>red = 254, green = 1, blue = 1\<rparr> (colorNames ! i)
                 < palette_distance \<lparr>red = 254, green = 1, blue = 1\<rparr> (colorNames ! j)))"
proof -
  have h: "hexToRgb (Some ''#FE0101'') = Some \<lparr>red = 254, green = 1, blue = 1\<rparr>"
    by (simp add: hexToRgb_def strip_hash_def hex_pair_def hex_digit_val_def)
  show ?thesis using h colorNameFromHex_nearest [OF h] by blast
qed

text \<open>Every colour of the reference palette is named by its own entry.\<close>

lemma colorNameFromHex_palette:
  "map (\<lambda>(h, n). colorNameFromHex (Some h)) colorNames = map snd colorNames"
  by code_simp

text \<open>C9: When the first two colours of the list parse, the harmony is Contrastado above distance 200, Complementario above 100 and Analogo otherwise; the thresholds are exact on the squared integer distance (40000 and 10000).\<close>

lemma analyzeColorHarmony_thresholds:
  assumes "hexToRgb (cr_hex c1) = Some a" "hexToRgb (cr_hex c2) = Some b"
  shows "analyzeColorHarmony (c1 # c2 # rest) =
           (if sq_dist a b > 40000 then Contrastado
            else if sq_dist a b > 10000 then Complementario else Analogo)"
  using assms by (simp add: analyzeColorHarmony_code)

lemma analyzeColorHarmony_thresholds_witness:
  "analyzeColorHarmony [\<lparr>cr_hex = Some ''#000000'', cr_percentage = None\<rparr>,
                        \<lparr>cr_hex = Some ''#FFFFFF'', cr_percentage = None\<rparr>] = Contrastado"
proof -
  have a: "hexToRgb (cr_hex \<lparr>cr_hex = Some ''#000000'', cr_percentage = None\<rparr>) = Some \<lparr>red = 0, green = 0, blue = 0\<rparr>"
    by (simp add: hexToRgb_def strip_hash_def hex_pair_def hex_digit_val_def)
  have b: "hexToRgb (cr_hex \<lparr>cr_hex = Some ''#FFFFFF'', cr_percentage = None\<rparr>) = Some \<lparr>red = 255, green = 255, blue = 255\<rparr>"
    by (simp add: hexToRgb_def strip_hash_def hex_pair_def hex_digit_val_def)
  show ?thesis using analyzeColorHarmony_thresholds [OF a b, of "[]"] by (simp add: sq_dist_def)
qed

text \<open>The harmony is Insuficientes datos exactly when there are fewer than two colours or one of the first two does not parse.\<close>

lemma analyzeColorHarmony_insufficient:
  "analyzeColorHarmony colors = InsuficientesDatos \<longleftrightarrow>
     length colors < 2 \<or> hexToRgb (cr_hex (colors ! 0)) = None \<or> hexToRgb (cr_hex (colors ! 1)) = None"
  by (auto simp: analyzeColorHarmony_code split: list.splits option.splits)

text \<open>C33: The harmony ignores dominance (spec 4.3: the two most dominant
  colours after the sort): it does not depend on the percentages at all, and of
  the list it reads only the first two colours in the order received.\<close>

lemma harmony_ignores_dominance:
  "analyzeColorHarmony (map (\<lambda>c. c\<lparr>cr_percentage := p c\<rparr>) cs) = analyzeColorHarmony cs \<and>
   analyzeColorHarmony (c1 # c2 # rest) = analyzeColorHarmony [c1, c2]"
  by (cases cs rule: remdups_adj.cases) (simp_all add: analyzeColorHarmony_def)

text \<open>Colours that are grey or malformed have saturation 0, so a list of them has vibrancy Baja.\<close>

lemma calculateVibrancy_greys:
  assumes "\<forall>c \<in> set colors. hexToRgb (cr_hex c) = None \<or>
             (\<exists>v. hexToRgb (cr_hex c) = Some \<lparr>red = v, green = v, blue = v\<rparr>)"
  shows "calculateVibrancy colors = Baja"
proof -
  have "\<forall>c \<in> set colors. saturation (cr_hex c) = 0"
    using assms by (auto simp: saturation_def)
  then have "sum_list (map (\<lambda>c. saturation (cr_hex c)) colors) = 0"
    by (induction colors) auto
  then show ?thesis
    by (simp add: calculateVibrancy_def mean_def Let_def)
qed

lemma calculateVibrancy_greys_witness:
  "calculateVibrancy [\<lparr>cr_hex = Some ''#808080'', cr_percentage = Some 60\<rparr>,
                      \<lparr>cr_hex = Some ''oops'', cr_percentage = Some 40\<rparr>] = Baja"
  by (rule calculateVibrancy_greys) (simp add: hexToRgb_def strip_hash_def hex_pair_def hex_digit_val_def)

text \<open>The average brightness of the colour summary lies in [0, 255], 50 for no colours.\<close>

corollary analyzeColorsAdvanced_avg_brightness:
  "0 \<le> cs_avg_brightness (analyzeColorsAdvanced colors) \<and> cs_avg_brightness (analyzeColorsAdvanced colors) \<le> 255"
  by (rule analyzeColorsAdvanced_avg_bounds)

text \<open>The palette is the list of hex strings in dominance order, and the dominant entries are its first five, each with its parsed RGB value.\<close>

lemma analyzeColorsAdvanced_palette:
  "cs_palette (analyzeColorsAdvanced colors) = map cr_hex (sortByPercentage colors) \<and>
   map de_hex (cs_dominant (analyzeColorsAdvanced colors)) = take 5 (cs_palette (analyzeColorsAdvanced colors)) \<and>
   map de_rgb (cs_dominant (analyzeColorsAdvanced colors)) = map hexToRgb (take 5 (cs_palette (analyzeColorsAdvanced colors)))"
  by (simp add: analyzeColorsAdvanced_def Let_def sortByPercentage_def take_map)
end
