(* ===== verification/Tags.thy ===== *)
theory Tags
  imports Confidence "HOL-Library.Multiset"
begin

text \<open>
  Tag categorisation, \<^verbatim>\<open>categorizeTags\<close> of \<^verbatim>\<open>src/server.js\<close>
  (lines 252-290): the keyword table, the accumulator object, and the
  \<^verbatim>\<open>forEach\<close> whose body searches the categories in table order and
  returns after the first match. The specification it is proved against,
  \<open>tag_category\<close>, names the first category with a matching keyword, and
  \<open>Concepts\<close> when none matches.
\<close>

section \<open>Data\<close>

datatype category = Entities | Attributes | Environment | Actions | Concepts

text \<open>The object literal \<^verbatim>\<open>keywords\<close> (renamed: \<open>keywords\<close> is an Isar keyword), in its iteration order.\<close>

definition tag_keywords :: "(category \<times> string list) list" where
  "tag_keywords =
     [(Entities, [''person'', ''people'', ''man'', ''woman'', ''child'', ''animal'', ''dog'', ''cat'',
                  ''bird'', ''car'', ''building'', ''tree'', ''flower'', ''plant'']),
      (Attributes, [''beautiful'', ''dark'', ''bright'', ''color'', ''colorful'', ''monochrome'',
                    ''small'', ''large'', ''old'', ''new'']),
      (Environment, [''outdoor'', ''indoor'', ''nature'', ''mountain'', ''sea'', ''beach'', ''forest'',
                     ''city'', ''street'', ''sky'', ''water'', ''ground'']),
      (Actions, [''running'', ''walking'', ''sitting'', ''standing'', ''playing'', ''sleeping'',
                 ''eating'', ''jumping'', ''flying'', ''swimming'']),
      (Concepts, [''love'', ''happy'', ''sad'', ''beautiful'', ''ugly'', ''fun'', ''serious'', ''calm'',
                  ''exciting'', ''peaceful''])]"

text \<open>The accumulator \<^verbatim>\<open>categorized\<close>.\<close>

record categorized =
  cat_entities :: "conf_item list"
  cat_attributes :: "conf_item list"
  cat_environment :: "conf_item list"
  cat_actions :: "conf_item list"
  cat_concepts :: "conf_item list"

definition empty_categorized :: categorized where
  "empty_categorized =
     \<lparr>cat_entities = [], cat_attributes = [], cat_environment = [], cat_actions = [],
      cat_concepts = []\<rparr>"

section \<open>Operations\<close>

text \<open>\<^verbatim>\<open>categorized[category]\<close>.\<close>

fun cat_list :: "categorized \<Rightarrow> category \<Rightarrow> conf_item list" where
  "cat_list acc Entities = cat_entities acc"
| "cat_list acc Attributes = cat_attributes acc"
| "cat_list acc Environment = cat_environment acc"
| "cat_list acc Actions = cat_actions acc"
| "cat_list acc Concepts = cat_concepts acc"

text \<open>\<^verbatim>\<open>categorized[category].push(item)\<close>.\<close>

fun push_item :: "category \<Rightarrow> conf_item \<Rightarrow> categorized \<Rightarrow> categorized" where
  "push_item Entities item acc = acc\<lparr>cat_entities := cat_entities acc @ [item]\<rparr>"
| "push_item Attributes item acc = acc\<lparr>cat_attributes := cat_attributes acc @ [item]\<rparr>"
| "push_item Environment item acc = acc\<lparr>cat_environment := cat_environment acc @ [item]\<rparr>"
| "push_item Actions item acc = acc\<lparr>cat_actions := cat_actions acc @ [item]\<rparr>"
| "push_item Concepts item acc = acc\<lparr>cat_concepts := cat_concepts acc @ [item]\<rparr>"

text \<open>The inner \<^verbatim>\<open>for (const [category, keywords_list] of ...)\<close> with its
  early \<^verbatim>\<open>return\<close>: the first category whose list has a keyword contained in
  the tag name.\<close>

fun find_category :: "string \<Rightarrow> (category \<times> string list) list \<Rightarrow> category option" where
  "find_category tagName [] = None"
| "find_category tagName ((category, keywords_list) # rest) =
     (if list_ex (\<lambda>kw. js_includes tagName kw) keywords_list then Some category
      else find_category tagName rest)"

text \<open>The body of \<^verbatim>\<open>tags.forEach\<close>.\<close>

definition categorize_step :: "categorized \<Rightarrow> tag_result \<Rightarrow> categorized" where
  "categorize_step categorized t =
     (let tagName = js_lower (str_or ''Unknown'' (tr_tag_en t));
          item = toConfItem t
      in case find_category tagName tag_keywords of
           Some category \<Rightarrow> push_item category item categorized
         | None \<Rightarrow> push_item Concepts item categorized)"

definition categorizeTags :: "tag_result list \<Rightarrow> categorized" where
  "categorizeTags tags = foldl categorize_step empty_categorized tags"

section \<open>Specification\<close>

text \<open>The category a tag belongs to: the first one in table order with a
  keyword contained in the lower-cased name, \<open>Concepts\<close> by default.\<close>

definition tag_category :: "tag_result \<Rightarrow> category" where
  "tag_category t =
     (case find_category (js_lower (str_or ''Unknown'' (tr_tag_en t))) tag_keywords of
        Some c \<Rightarrow> c
      | None \<Rightarrow> Concepts)"

definition all_categories :: "category list" where
  "all_categories = [Entities, Attributes, Environment, Actions, Concepts]"

section \<open>Lemmas\<close>


lemma cat_list_push_item:
  "cat_list (push_item c item acc) k = (if k = c then cat_list acc k @ [item] else cat_list acc k)"
  by (cases c; cases k) simp_all

lemma cat_list_empty [simp]: "cat_list empty_categorized k = []"
  by (cases k) (simp_all add: empty_categorized_def)

lemma categorize_step_tag_category:
  "categorize_step acc t = push_item (tag_category t) (toConfItem t) acc"
  by (simp add: categorize_step_def tag_category_def Let_def split: option.splits)

lemma find_category_in: "find_category s tbl = Some c \<Longrightarrow> c \<in> fst ` set tbl"
  by (induction s tbl rule: find_category.induct) (auto split: if_splits)

lemma tag_category_in: "tag_category t \<in> set all_categories"
  by (cases "tag_category t") (simp_all add: all_categories_def)

lemma cat_list_categorizeTags:
  "cat_list (categorizeTags tags) k = map toConfItem (filter (\<lambda>t. tag_category t = k) tags)"
proof (induction tags rule: rev_induct)
  case Nil
  then show ?case by (simp add: categorizeTags_def)
next
  case (snoc t tags)
  then show ?case
    by (cases "k = tag_category t")
       (simp_all add: categorizeTags_def categorize_step_tag_category cat_list_push_item)
qed

lemma mset_concat_filter_partition:
  assumes "distinct ks" "\<forall>x \<in> set xs. g x \<in> set ks"
  shows "mset (concat (map (\<lambda>k. filter (\<lambda>x. g x = k) xs) ks)) = mset xs"
  using assms(2)
proof (induction xs)
  case Nil
  then show ?case by (induction ks) simp_all
next
  case (Cons x xs)
  have one: "(\<Sum>k\<in>set ks. if g x = k then {#x#} else {#}) = {#x#}"
    using Cons.prems by (simp add: sum.delta)
  have step: "(\<lambda>k. mset (filter (\<lambda>y. g y = k) (x # xs)))
             = (\<lambda>k. (if g x = k then {#x#} else {#}) + mset (filter (\<lambda>y. g y = k) xs))"
    by (rule ext) (simp del: mset_filter)
  have "mset (concat (map (\<lambda>k. filter (\<lambda>y. g y = k) (x # xs)) ks))
        = (\<Sum>k\<leftarrow>ks. (if g x = k then {#x#} else {#}) + mset (filter (\<lambda>y. g y = k) xs))"
    by (simp only: mset_concat map_map comp_def step)
  also have "\<dots> = (\<Sum>k\<leftarrow>ks. if g x = k then {#x#} else {#}) + (\<Sum>k\<leftarrow>ks. mset (filter (\<lambda>y. g y = k) xs))"
    by (simp add: sum_list_addf)
  also have "(\<Sum>k\<leftarrow>ks. if g x = k then {#x#} else {#}) = {#x#}"
    using one assms(1) by (simp add: sum_list_distinct_conv_sum_set)
  also have "(\<Sum>k\<leftarrow>ks. mset (filter (\<lambda>y. g y = k) xs)) = mset xs"
  proof -
    have "\<forall>y \<in> set xs. g y \<in> set ks" using Cons.prems by simp
    from Cons.IH [OF this] show ?thesis by (simp only: mset_concat map_map comp_def)
  qed
  finally show ?case by simp
qed

section \<open>Properties\<close>

text \<open>C3: Each category of \<^verbatim>\<open>categorizeTags\<close> holds, in input order, the items of exactly the tags whose first matching category (table order, lower-cased substring match, \<open>Concepts\<close> by default) it is.\<close>

lemma categorizeTags_spec:
  "categorizeTags tags =
     \<lparr>cat_entities = map toConfItem (filter (\<lambda>t. tag_category t = Entities) tags),
      cat_attributes = map toConfItem (filter (\<lambda>t. tag_category t = Attributes) tags),
      cat_environment = map toConfItem (filter (\<lambda>t. tag_category t = Environment) tags),
      cat_actions = map toConfItem (filter (\<lambda>t. tag_category t = Actions) tags),
      cat_concepts = map toConfItem (filter (\<lambda>t. tag_category t = Concepts) tags)\<rparr>"
  using cat_list_categorizeTags [of tags Entities] cat_list_categorizeTags [of tags Attributes]
        cat_list_categorizeTags [of tags Environment] cat_list_categorizeTags [of tags Actions]
        cat_list_categorizeTags [of tags Concepts]
  by simp

text \<open>C31: The five categories partition the tags: every tag item lands in exactly one category, none is lost or duplicated.\<close>

lemma categorizeTags_partition:
  "mset (concat (map (cat_list (categorizeTags tags)) all_categories)) = mset (map toConfItem tags)"
proof -
  have "cat_list (categorizeTags tags) = (\<lambda>k. map toConfItem (filter (\<lambda>t. tag_category t = k) tags))"
    by (rule ext) (rule cat_list_categorizeTags)
  then have "concat (map (cat_list (categorizeTags tags)) all_categories)
        = map toConfItem (concat (map (\<lambda>k. filter (\<lambda>t. tag_category t = k) tags) all_categories))"
    by (simp add: map_concat comp_def)
  moreover have "mset (concat (map (\<lambda>k. filter (\<lambda>t. tag_category t = k) tags) all_categories)) = mset tags"
    by (rule mset_concat_filter_partition) (simp add: all_categories_def, simp add: tag_category_in)
  ultimately show ?thesis by (metis mset_map)
qed

text \<open>The keyword \<^verbatim>\<open>beautiful\<close> of the concepts list can never place a tag: a tag containing it is an entity or an attribute, since attributes list the same keyword earlier.\<close>

lemma categorizeTags_beautiful:
  assumes "js_includes (js_lower (str_or ''Unknown'' (tr_tag_en t))) ''beautiful''"
  shows "tag_category t \<in> {Entities, Attributes}"
  using assms by (auto simp: tag_category_def tag_keywords_def)

lemma categorizeTags_beautiful_witness:
  "tag_category \<lparr>tr_tag_en = Some ''Beautiful'', tr_confidence = Some 0.7\<rparr> \<in> {Entities, Attributes}"
  by (rule categorizeTags_beautiful) code_simp

text \<open>Matching is by substring, so unrelated words are captured by short keywords: \<^verbatim>\<open>Vacation\<close> (\<^verbatim>\<open>cat\<close>) is an entity, \<^verbatim>\<open>gold\<close> (\<^verbatim>\<open>old\<close>) an attribute and \<^verbatim>\<open>season\<close> (\<^verbatim>\<open>sea\<close>) an environment.\<close>

lemma categorizeTags_substring:
  "tag_category \<lparr>tr_tag_en = Some ''Vacation'', tr_confidence = Some 0.9\<rparr> = Entities \<and>
   tag_category \<lparr>tr_tag_en = Some ''gold'', tr_confidence = Some 0.9\<rparr> = Attributes \<and>
   tag_category \<lparr>tr_tag_en = Some ''season'', tr_confidence = Some 0.9\<rparr> = Environment"
  by code_simp

end
