(* ===== verification/Scene.thy ===== *)
theory Scene
  imports Confidence Color
begin

text \<open>
  Scene description and composition metrics of \<^verbatim>\<open>src/server.js\<close>:
  \<^verbatim>\<open>detectSceneType\<close> (lines 293-303), \<^verbatim>\<open>detectSetting\<close> (306-314),
  \<^verbatim>\<open>detectMood\<close> (317-333), \<^verbatim>\<open>findDominantTheme\<close> (336-339),
  \<^verbatim>\<open>generateDetailedSceneDescription\<close> (342-355),
  \<^verbatim>\<open>calculateSceneMetrics\<close> (358-366) and \<^verbatim>\<open>calculateComplexity\<close>
  (369-375). The keyword rules of the code are written as \<open>if\<close> chains over
  the joined tag names; the specification \<open>first_rule\<close> reads them as an
  ordered table of (keywords, label) pairs tested per tag.
\<close>

section \<open>Data\<close>

text \<open>\<^verbatim>\<open>'Retrato'\<close>, \<^verbatim>\<open>'Paisaje'\<close>, \<^verbatim>\<open>'Comida'\<close>,
  \<^verbatim>\<open>'Vida Silvestre'\<close>, \<^verbatim>\<open>'Arquitectura'\<close>, \<^verbatim>\<open>'Naturaleza'\<close>,
  \<^verbatim>\<open>'General'\<close>.\<close>

datatype scene_type = Retrato | Paisaje | Comida | VidaSilvestre | Arquitectura | Naturaleza | General

text \<open>\<^verbatim>\<open>'Interior'\<close>, \<^verbatim>\<open>'Exterior'\<close>, \<^verbatim>\<open>'Noche'\<close>, the accented
  \<^verbatim>\<open>'Dia'\<close>, \<^verbatim>\<open>'No especificado'\<close>.\<close>

datatype setting = Interior | Exterior | Noche | Dia | NoEspecificado

text \<open>\<^verbatim>\<open>'Alegre y Luminoso'\<close>, \<^verbatim>\<open>'Oscuro y Misterioso'\<close>,
  \<^verbatim>\<open>'Tranquilo y Sereno'\<close>, the accented \<^verbatim>\<open>'Dinamico y Energetico'\<close>,
  \<^verbatim>\<open>'Neutral'\<close>.\<close>

datatype mood = AlegreLuminoso | OscuroMisterioso | TranquiloSereno | DinamicoEnergetico | Neutral

text \<open>The object \<^verbatim>\<open>calculateSceneMetrics\<close> returns.\<close>

record scene_metrics =
  object_diversity :: nat
  color_diversity :: nat
  tag_diversity :: nat
  complexity :: rating
  vibrancy :: rating

section \<open>Operations\<close>

text \<open>\<^verbatim>\<open>tags.map(t => (t.tag?.en || 'Unknown').toLowerCase())\<close>, and the
  \<^verbatim>\<open>.join(' ')\<close> the three detectors search.\<close>

definition tag_names :: "tag_result list \<Rightarrow> string list" where
  "tag_names tags = map (\<lambda>t. js_lower (str_or ''Unknown'' (tr_tag_en t))) tags"

definition joinedTagNames :: "tag_result list \<Rightarrow> string" where
  "joinedTagNames tags = js_join '' '' (tag_names tags)"

text \<open>\<^verbatim>\<open>detectSceneType(tags, objects)\<close>: \<^verbatim>\<open>objects\<close> is not used.\<close>

definition detectSceneType :: "tag_result list \<Rightarrow> tag_result list \<Rightarrow> scene_type" where
  "detectSceneType tags objects =
     (let tagNames = joinedTagNames tags
      in if js_includes tagNames ''portrait'' \<or> js_includes tagNames ''person'' then Retrato
         else if js_includes tagNames ''landscape'' \<or> js_includes tagNames ''mountain'' then Paisaje
         else if js_includes tagNames ''food'' \<or> js_includes tagNames ''drink'' then Comida
         else if js_includes tagNames ''animal'' then VidaSilvestre
         else if js_includes tagNames ''building'' \<or> js_includes tagNames ''architecture'' then Arquitectura
         else if js_includes tagNames ''nature'' \<or> js_includes tagNames ''outdoor'' then Naturaleza
         else General)"

definition detectSetting :: "tag_result list \<Rightarrow> setting" where
  "detectSetting tags =
     (let tagNames = joinedTagNames tags
      in if js_includes tagNames ''indoor'' then Interior
         else if js_includes tagNames ''outdoor'' \<or> js_includes tagNames ''sky'' then Exterior
         else if js_includes tagNames ''night'' then Noche
         else if js_includes tagNames ''day'' then Dia
         else NoEspecificado)"

text \<open>The brightness of \<^verbatim>\<open>detectMood\<close>: the sum over the first three
  colours divided by 3, whatever their number.\<close>

definition mood_brightness :: "color_result list \<Rightarrow> real" where
  "mood_brightness colors =
     (if colors \<noteq> []
      then real_of_int (sum_list (map (\<lambda>c. calculateBrightness (cr_hex c)) (take 3 colors))) / 3
      else 50)"

definition detectMood :: "color_result list \<Rightarrow> tag_result list \<Rightarrow> mood" where
  "detectMood colors tags =
     (let tagNames = joinedTagNames tags;
          brightness = mood_brightness colors
      in if brightness > 70 then AlegreLuminoso
         else if brightness < 30 then OscuroMisterioso
         else if js_includes tagNames ''nature'' \<or> js_includes tagNames ''calm'' then TranquiloSereno
         else if js_includes tagNames ''action'' \<or> js_includes tagNames ''sport'' then DinamicoEnergetico
         else Neutral)"

definition findDominantTheme :: "tag_result list \<Rightarrow> string" where
  "findDominantTheme tags =
     (case tags of [] \<Rightarrow> ''Desconocido'' | t # _ \<Rightarrow> str_or ''Desconocido'' (tr_tag_en t))"

text \<open>The text the template literal writes for a colour name (UTF-8 bytes
  for the accented one).\<close>

fun color_name_text :: "color_name \<Rightarrow> string" where
  "color_name_text Negro = ''Negro''"
| "color_name_text Blanco = ''Blanco''"
| "color_name_text Rojo = ''Rojo''"
| "color_name_text Verde = ''Verde''"
| "color_name_text Azul = ''Azul''"
| "color_name_text Amarillo = ''Amarillo''"
| "color_name_text Magenta = ''Magenta''"
| "color_name_text Cyan = ''Cyan''"
| "color_name_text Gris = ''Gris''"
| "color_name_text Naranja = ''Naranja''"
| "color_name_text Purpura = ''P'' @ [CHR 0xC3, CHR 0xBA] @ ''rpura''"
| "color_name_text Rosa = ''Rosa''"
| "color_name_text Desconocido = ''Desconocido''"

definition generateDetailedSceneDescription ::
    "tag_result list \<Rightarrow> color_result list \<Rightarrow> tag_result list \<Rightarrow> string" where
  "generateDetailedSceneDescription tags colors objects =
     (let topTags = map (\<lambda>t. str_or ''Unknown'' (tr_tag_en t)) (take 6 tags);
          topColors = map (\<lambda>c. colorNameFromHex (cr_hex c)) (take 3 colors);
          topObjects = map (\<lambda>ob. str_or ''Unknown'' (tr_tag_en ob)) (take 3 objects);
          description = ''Imagen que contiene: '' @ js_join '', '' topTags @ ''. '';
          description = description @
            (if length topObjects > 0 then ''Objetos principales: '' @ js_join '', '' topObjects @ ''. ''
             else []);
          description = description @
            (if length topColors > 0
             then ''Tonalidades: '' @ js_join '', '' (map color_name_text topColors) @ ''.''
             else [])
      in description)"

definition calculateComplexity ::
    "tag_result list \<Rightarrow> color_result list \<Rightarrow> tag_result list \<Rightarrow> rating" where
  "calculateComplexity tags colors objects =
     (let score = (real (length tags) * 0.4 + real (length objects) * 0.3
                   + real (length colors) * 0.3) / 2
      in if score > 7 then MuyAlta
         else if score > 5 then Alta
         else if score > 3 then Media
         else Baja)"

definition calculateSceneMetrics ::
    "tag_result list \<Rightarrow> color_result list \<Rightarrow> tag_result list \<Rightarrow> scene_metrics" where
  "calculateSceneMetrics tags colors objects =
     \<lparr>object_diversity = min (length objects) 10,
      color_diversity = min (length colors) 10,
      tag_diversity = min (length tags) 10,
      complexity = calculateComplexity tags colors objects,
      vibrancy = calculateVibrancy colors\<rparr>"

section \<open>Specification: ordered rule tables\<close>

text \<open>First-match-wins over a table of (keywords, label) rows; a row fires when
  one of its keywords is present.\<close>

fun first_rule :: "(string \<Rightarrow> bool) \<Rightarrow> (string list \<times> 'a) list \<Rightarrow> 'a \<Rightarrow> 'a" where
  "first_rule present [] dflt = dflt"
| "first_rule present ((kws, label) # rows) dflt =
     (if list_ex present kws then label else first_rule present rows dflt)"

definition scene_type_rules :: "(string list \<times> scene_type) list" where
  "scene_type_rules =
     [([''portrait'', ''person''], Retrato), ([''landscape'', ''mountain''], Paisaje),
      ([''food'', ''drink''], Comida), ([''animal''], VidaSilvestre),
      ([''building'', ''architecture''], Arquitectura), ([''nature'', ''outdoor''], Naturaleza)]"

definition setting_rules :: "(string list \<times> setting) list" where
  "setting_rules =
     [([''indoor''], Interior), ([''outdoor'', ''sky''], Exterior), ([''night''], Noche),
      ([''day''], Dia)]"

text \<open>A keyword is present when some tag name contains it.\<close>

definition tag_has :: "tag_result list \<Rightarrow> string \<Rightarrow> bool" where
  "tag_has tags kw = list_ex (\<lambda>n. js_includes n kw) (tag_names tags)"

section \<open>Lemmas\<close>

lemma joinedTagNames_includes:
  "kw \<noteq> [] \<Longrightarrow> CHR '' '' \<notin> set kw \<Longrightarrow> js_includes (joinedTagNames tags) kw = tag_has tags kw"
  by (simp add: joinedTagNames_def tag_has_def js_includes_join_space)

section \<open>Properties\<close>

text \<open>C8: The scene type is the label of the first row of the ordered table portrait/person, landscape/mountain, food/drink, animal, building/architecture, nature/outdoor of which some tag name contains a keyword, General otherwise; searching the space-joined names is the same as searching each name.\<close>

lemma detectSceneType_rules:
  "detectSceneType tags objects = first_rule (tag_has tags) scene_type_rules General"
  by (simp add: detectSceneType_def scene_type_rules_def joinedTagNames_includes Let_def)

text \<open>The setting is the first row of the ordered table indoor, outdoor/sky, night, day that some tag name matches, No especificado otherwise.\<close>

lemma detectSetting_rules:
  "detectSetting tags = first_rule (tag_has tags) setting_rules NoEspecificado"
  by (simp add: detectSetting_def setting_rules_def joinedTagNames_includes Let_def)

text \<open>Without colours the mood brightness is the neutral 50, so the mood is never Alegre y Luminoso or Oscuro y Misterioso.\<close>

lemma detectMood_no_colors:
  "detectMood [] tags \<in> {TranquiloSereno, DinamicoEnergetico, Neutral}"
  by (simp add: detectMood_def mood_brightness_def Let_def)

text \<open>C32: The mood brightness divides the sum of the first three brightnesses
  by 3 even when fewer colours exist (spec 4.6: their average): with a single
  colour of brightness \<open>b\<close> the mood is Alegre y Luminoso exactly when
  \<open>b > 210\<close> instead of \<open>b > 70\<close>, and Oscuro y Misterioso exactly when
  \<open>b < 90\<close> instead of \<open>b < 30\<close>, whatever the tags.\<close>

lemma detectMood_divides_by_three:
  "(detectMood [c] ts = AlegreLuminoso \<longleftrightarrow> 210 < calculateBrightness (cr_hex c)) \<and>
   (detectMood [c] ts = OscuroMisterioso \<longleftrightarrow> calculateBrightness (cr_hex c) < 90)"
  by (simp add: detectMood_def mood_brightness_def Let_def)

text \<open>The complexity score compares exactly as the integer 4 tags + 3 objects + 3 colours against 140, 100 and 60.\<close>

lemma calculateComplexity_int:
  "calculateComplexity tags colors objects =
     (let n = 4 * length tags + 3 * length objects + 3 * length colors
      in if n > 140 then MuyAlta else if n > 100 then Alta else if n > 60 then Media else Baja)"
proof -
  have "(real (length tags) * 0.4 + real (length objects) * 0.3 + real (length colors) * 0.3) / 2
        = real (4 * length tags + 3 * length objects + 3 * length colors) / 20"
    by simp
  then show ?thesis
    by (simp add: calculateComplexity_def Let_def)
qed

text \<open>The three diversity metrics are at most 10.\<close>

lemma calculateSceneMetrics_bounds:
  "object_diversity (calculateSceneMetrics tags colors objects) \<le> 10 \<and>
   color_diversity (calculateSceneMetrics tags colors objects) \<le> 10 \<and>
   tag_diversity (calculateSceneMetrics tags colors objects) \<le> 10"
  by (simp add: calculateSceneMetrics_def)

end
