(* ===== verification/Context.thy ===== *)
theory Context
  imports Confidence Color Tags Scene
begin

text \<open>
  Assembly of the scene context, \<^verbatim>\<open>generateSceneContext\<close> of
  \<^verbatim>\<open>src/server.js\<close> (lines 51-144): it reads the three upstream sections,
  calls every analysis of the theories \<open>Confidence\<close>, \<open>Color\<close>,
  \<open>Tags\<close> and \<open>Scene\<close>, and truncates the lists for display. The result
  is a nest of records with the field groups of the JSON object it returns.
\<close>

section \<open>Data\<close>

text \<open>\<^verbatim>\<open>analysisData\<close> as \<^verbatim>\<open>analyzeImageFull\<close> returns it. Each section
  is the list at \<^verbatim>\<open>tags.result.tags\<close>, \<^verbatim>\<open>colors.result.colors\<close> and
  \<^verbatim>\<open>objects.result.tags\<close>; \<^const>\<open>None\<close> stands for any missing link
  of the optional chain (a failed optional call gives \<^verbatim>\<open>null\<close>).\<close>

record analysis_data =
  ad_tags :: "tag_result list option"
  ad_colors :: "color_result list option"
  ad_objects :: "tag_result list option"

record objects_detected =
  od_high_confidence :: "conf_item list"
  od_all_objects :: "conf_item list"

text \<open>An entry of \<^verbatim>\<open>color_analysis.dominant\<close>.\<close>

record dominant_color =
  dc_hex :: "string option"
  dc_rgb :: "rgb option"
  dc_percentage :: real
  dc_name :: color_name
  dc_brightness :: int

record color_analysis =
  ca_dominant :: "dominant_color list"
  ca_palette :: "string option list"
  ca_color_harmony :: harmony
  ca_avg_brightness :: real

record scene_analysis =
  sa_description :: string
  sa_type :: scene_type
  sa_setting :: setting
  sa_mood :: mood
  sa_dominant_theme :: string

record scene_context =
  sc_objects_detected :: objects_detected
  sc_color_analysis :: color_analysis
  sc_tags_by_category :: categorized
  sc_scene_analysis :: scene_analysis
  sc_composition_metrics :: scene_metrics
  sc_overall_confidence :: real
  sc_all_tags :: "conf_item list"

section \<open>Operations\<close>

text \<open>\<^verbatim>\<open>section || []\<close>.\<close>

definition section_or_empty :: "'a list option \<Rightarrow> 'a list" where
  "section_or_empty v = (case v of None \<Rightarrow> [] | Some xs \<Rightarrow> xs)"

text \<open>\<^verbatim>\<open>o.confidence >= confidenceThreshold\<close> on the raw value: a missing
  confidence compares false.\<close>

definition raw_at_least :: "real \<Rightarrow> tag_result \<Rightarrow> bool" where
  "raw_at_least threshold ob = (case tr_confidence ob of None \<Rightarrow> False | Some c \<Rightarrow> c \<ge> threshold)"

text \<open>The mapping of \<^verbatim>\<open>colorAnalysis.dominant.slice(0, 5)\<close> (lines 95-101).\<close>

definition toDominantColor :: "dominant_entry \<Rightarrow> dominant_color" where
  "toDominantColor c =
     \<lparr>dc_hex = de_hex c, dc_rgb = de_rgb c, dc_percentage = to_fixed2 (de_percentage c),
      dc_name = colorNameFromHex (de_hex c), dc_brightness = calculateBrightness (de_hex c)\<rparr>"

text \<open>\<^verbatim>\<open>categorizedTags.xxx.slice(0, 8)\<close> for the five categories.\<close>

definition truncate_categories :: "nat \<Rightarrow> categorized \<Rightarrow> categorized" where
  "truncate_categories n c =
     \<lparr>cat_entities = take n (cat_entities c), cat_attributes = take n (cat_attributes c),
      cat_environment = take n (cat_environment c), cat_actions = take n (cat_actions c),
      cat_concepts = take n (cat_concepts c)\<rparr>"

definition generateSceneContext :: "analysis_data \<Rightarrow> scene_context" where
  "generateSceneContext analysisData =
     (let tags = take 20 (section_or_empty (ad_tags analysisData));
          colors = section_or_empty (ad_colors analysisData);
          objects = section_or_empty (ad_objects analysisData);
          confidenceThreshold = 0.5;
          highConfidenceObjects = filter (raw_at_least confidenceThreshold) objects;
          allObjects = take 10 objects;
          colorAnalysis = analyzeColorsAdvanced colors;
          categorizedTags = categorizeTags tags;
          sceneMetrics = calculateSceneMetrics tags colors objects
      in \<lparr>sc_objects_detected =
            \<lparr>od_high_confidence = map toConfItem (take 5 highConfidenceObjects),
             od_all_objects = map toConfItem allObjects\<rparr>,
          sc_color_analysis =
            \<lparr>ca_dominant = map toDominantColor (take 5 (cs_dominant colorAnalysis)),
             ca_palette = take 8 (cs_palette colorAnalysis),
             ca_color_harmony = analyzeColorHarmony colors,
             ca_avg_brightness = to_fixed2 (cs_avg_brightness colorAnalysis)\<rparr>,
          sc_tags_by_category = truncate_categories 8 categorizedTags,
          sc_scene_analysis =
            \<lparr>sa_description = generateDetailedSceneDescription tags colors objects,
             sa_type = detectSceneType tags objects,
             sa_setting = detectSetting tags,
             sa_mood = detectMood colors tags,
             sa_dominant_theme = findDominantTheme tags\<rparr>,
          sc_composition_metrics = sceneMetrics,
          sc_overall_confidence = to_fixed2 (calculateAverageConfidence tags),
          sc_all_tags = map toConfItem (take 20 tags)\<rparr>)"

section \<open>Specification helpers\<close>

text \<open>Every item the context shows: all tags, both object lists and the five
  categories.\<close>

definition context_items :: "scene_context \<Rightarrow> conf_item list" where
  "context_items sc =
     sc_all_tags sc @ od_high_confidence (sc_objects_detected sc) @ od_all_objects (sc_objects_detected sc)
     @ concat (map (cat_list (sc_tags_by_category sc)) all_categories)"

text \<open>The raw confidences of a section are on one of the two scales.\<close>

definition raw_confidences_ok :: "tag_result list \<Rightarrow> bool" where
  "raw_confidences_ok ts \<longleftrightarrow>
     list_all (\<lambda>t. 0 \<le> num_or0 (tr_confidence t) \<and> num_or0 (tr_confidence t) \<le> 100) ts"

section \<open>Lemmas\<close>

lemma cat_list_truncate: "cat_list (truncate_categories n c) k = take n (cat_list c k)"
  by (cases k) (simp_all add: truncate_categories_def)

lemma raw_confidences_ok_item:
  "raw_confidences_ok ts \<Longrightarrow> t \<in> set ts \<Longrightarrow>
   0 \<le> ci_confidence (toConfItem t) \<and> ci_confidence (toConfItem t) \<le> 100"
  using toConfItem_confidence_bounds [of t] by (auto simp: raw_confidences_ok_def list_all_iff)

lemma context_items_from_input:
  "ci \<in> set (context_items (generateSceneContext a)) \<Longrightarrow>
   \<exists>t. (t \<in> set (section_or_empty (ad_tags a)) \<or> t \<in> set (section_or_empty (ad_objects a))) \<and> ci = toConfItem t"
  by (auto simp: context_items_def generateSceneContext_def Let_def cat_list_truncate cat_list_categorizeTags
           dest!: in_set_takeD)

section \<open>Properties\<close>

text \<open>C1: When every raw confidence of the tags and objects is in [0, 100] (either unit), every confidence the context shows (all tags, both object lists, all categories) is in [0, 100], the overall confidence is in [0, 100], and the average and per-colour brightness are in [0, 255].\<close>

lemma generateSceneContext_ranges:
  assumes "raw_confidences_ok (section_or_empty (ad_tags a))"
      and "raw_confidences_ok (section_or_empty (ad_objects a))"
  shows "list_all (\<lambda>ci. 0 \<le> ci_confidence ci \<and> ci_confidence ci \<le> 100) (context_items (generateSceneContext a)) \<and>
         0 \<le> sc_overall_confidence (generateSceneContext a) \<and> sc_overall_confidence (generateSceneContext a) \<le> 100 \<and>
         0 \<le> ca_avg_brightness (sc_color_analysis (generateSceneContext a)) \<and>
         ca_avg_brightness (sc_color_analysis (generateSceneContext a)) \<le> 255 \<and>
         list_all (\<lambda>d. 0 \<le> dc_brightness d \<and> dc_brightness d \<le> 255) (ca_dominant (sc_color_analysis (generateSceneContext a)))"
proof (intro conjI)
  show "list_all (\<lambda>ci. 0 \<le> ci_confidence ci \<and> ci_confidence ci \<le> 100) (context_items (generateSceneContext a))"
    unfolding list_all_iff
    using assms by (blast dest: context_items_from_input raw_confidences_ok_item)
  have o: "0 \<le> calculateAverageConfidence (take 20 (section_or_empty (ad_tags a))) \<and>
           calculateAverageConfidence (take 20 (section_or_empty (ad_tags a))) \<le> real_of_int 100"
    using calculateAverageConfidence_bounds by simp
  show "0 \<le> sc_overall_confidence (generateSceneContext a)"
       "sc_overall_confidence (generateSceneContext a) \<le> 100"
    using to_fixed2_between [of _ 100] o by (simp_all add: generateSceneContext_def Let_def)
  have b: "0 \<le> cs_avg_brightness (analyzeColorsAdvanced (section_or_empty (ad_colors a))) \<and>
           cs_avg_brightness (analyzeColorsAdvanced (section_or_empty (ad_colors a))) \<le> real_of_int 255"
    using analyzeColorsAdvanced_avg_bounds by simp
  show "0 \<le> ca_avg_brightness (sc_color_analysis (generateSceneContext a))"
       "ca_avg_brightness (sc_color_analysis (generateSceneContext a)) \<le> 255"
    using to_fixed2_between [of _ 255] b by (simp_all add: generateSceneContext_def Let_def)
  show "list_all (\<lambda>d. 0 \<le> dc_brightness d \<and> dc_brightness d \<le> 255) (ca_dominant (sc_color_analysis (generateSceneContext a)))"
    by (simp add: generateSceneContext_def Let_def list_all_iff toDominantColor_def calculateBrightness_bounds)
qed

lemma generateSceneContext_ranges_witness:
  "raw_confidences_ok (section_or_empty (ad_tags
      (\<lparr>ad_tags = Some [\<lparr>tr_tag_en = Some ''dog'', tr_confidence = Some 0.9\<rparr>], ad_colors = None,
          ad_objects = Some [\<lparr>tr_tag_en = Some ''chair'', tr_confidence = Some 30\<rparr>]\<rparr>))) \<and>
   raw_confidences_ok (section_or_empty (ad_objects
      (\<lparr>ad_tags = Some [\<lparr>tr_tag_en = Some ''dog'', tr_confidence = Some 0.9\<rparr>], ad_colors = None,
          ad_objects = Some [\<lparr>tr_tag_en = Some ''chair'', tr_confidence = Some 30\<rparr>]\<rparr>))) \<and>
   sc_overall_confidence (generateSceneContext
      (\<lparr>ad_tags = Some [\<lparr>tr_tag_en = Some ''dog'', tr_confidence = Some 0.9\<rparr>], ad_colors = None,
          ad_objects = Some [\<lparr>tr_tag_en = Some ''chair'', tr_confidence = Some 30\<rparr>]\<rparr>)) \<le> 100"
proof -
  have h1: "raw_confidences_ok (section_or_empty (ad_tags
      (\<lparr>ad_tags = Some [\<lparr>tr_tag_en = Some ''dog'', tr_confidence = Some 0.9\<rparr>], ad_colors = None,
          ad_objects = Some [\<lparr>tr_tag_en = Some ''chair'', tr_confidence = Some 30\<rparr>]\<rparr>)))"
    by (simp add: raw_confidences_ok_def section_or_empty_def)
  have h2: "raw_confidences_ok (section_or_empty (ad_objects
      (\<lparr>ad_tags = Some [\<lparr>tr_tag_en = Some ''dog'', tr_confidence = Some 0.9\<rparr>], ad_colors = None,
          ad_objects = Some [\<lparr>tr_tag_en = Some ''chair'', tr_confidence = Some 30\<rparr>]\<rparr>)))"
    by (simp add: raw_confidences_ok_def section_or_empty_def)
  show ?thesis using h1 h2 generateSceneContext_ranges [OF h1 h2] by blast
qed

text \<open>C7: With the colour and object sections missing (their upstream calls failed), the context is still built: empty object and colour lists, harmony Insuficientes datos, average brightness 50, zero diversities, vibrancy Baja, and a mood that is neither luminous nor dark.\<close>

lemma generateSceneContext_missing_sections:
  assumes "ad_colors a = None" "ad_objects a = None"
  shows "od_high_confidence (sc_objects_detected (generateSceneContext a)) = [] \<and>
         od_all_objects (sc_objects_detected (generateSceneContext a)) = [] \<and>
         ca_dominant (sc_color_analysis (generateSceneContext a)) = [] \<and>
         ca_palette (sc_color_analysis (generateSceneContext a)) = [] \<and>
         ca_color_harmony (sc_color_analysis (generateSceneContext a)) = InsuficientesDatos \<and>
         ca_avg_brightness (sc_color_analysis (generateSceneContext a)) = 50 \<and>
         object_diversity (sc_composition_metrics (generateSceneContext a)) = 0 \<and>
         color_diversity (sc_composition_metrics (generateSceneContext a)) = 0 \<and>
         vibrancy (sc_composition_metrics (generateSceneContext a)) = Baja \<and>
         sa_mood (sc_scene_analysis (generateSceneContext a)) \<in> {TranquiloSereno, DinamicoEnergetico, Neutral}"
  using assms to_fixed2_of_int [of 50]
  by (simp add: generateSceneContext_def Let_def section_or_empty_def analyzeColorsAdvanced_def
      analyzeColorHarmony_def calculateSceneMetrics_def calculateVibrancy_def detectMood_def mood_brightness_def)

lemma generateSceneContext_missing_sections_witness:
  "ad_colors \<lparr>ad_tags = Some [\<lparr>tr_tag_en = Some ''dog'', tr_confidence = Some 0.9\<rparr>], ad_colors = None, ad_objects = None\<rparr> = None \<and>
   ad_objects \<lparr>ad_tags = Some [\<lparr>tr_tag_en = Some ''dog'', tr_confidence = Some 0.9\<rparr>], ad_colors = None, ad_objects = None\<rparr> = None \<and>
   ca_color_harmony (sc_color_analysis (generateSceneContext
      \<lparr>ad_tags = Some [\<lparr>tr_tag_en = Some ''dog'', tr_confidence = Some 0.9\<rparr>], ad_colors = None, ad_objects = None\<rparr>)) = InsuficientesDatos"
  using generateSceneContext_missing_sections
          [of "\<lparr>ad_tags = Some [\<lparr>tr_tag_en = Some ''dog'', tr_confidence = Some 0.9\<rparr>], ad_colors = None, ad_objects = None\<rparr>"]
  by simp

text \<open>Each displayed category holds the first eight items of the full categorisation of the first twenty tags: categorisation keeps every match and truncation happens only at the boundary.\<close>

lemma generateSceneContext_categories:
  "cat_list (sc_tags_by_category (generateSceneContext a)) k =
     take 8 (map toConfItem (filter (\<lambda>t. tag_category t = k) (take 20 (section_or_empty (ad_tags a)))))"
  by (simp add: generateSceneContext_def Let_def cat_list_truncate cat_list_categorizeTags)

text \<open>The display caps hold: at most 20 tags, 5 high-confidence objects, 10 objects, 5 dominant colours, 8 palette entries and 8 items per category.\<close>

lemma generateSceneContext_display_bounds:
  "length (sc_all_tags (generateSceneContext a)) \<le> 20 \<and>
   length (od_high_confidence (sc_objects_detected (generateSceneContext a))) \<le> 5 \<and>
   length (od_all_objects (sc_objects_detected (generateSceneContext a))) \<le> 10 \<and>
   length (ca_dominant (sc_color_analysis (generateSceneContext a))) \<le> 5 \<and>
   length (ca_palette (sc_color_analysis (generateSceneContext a))) \<le> 8 \<and>
   (\<forall>k. length (cat_list (sc_tags_by_category (generateSceneContext a)) k) \<le> 8)"
  by (simp add: generateSceneContext_def Let_def cat_list_truncate)

text \<open>C30: The high-confidence filter compares the raw confidence with 0.5
  before any unit normalisation (spec 4.5: the normalised one): whatever the
  other objects, a first object reported at \<open>c\<close> per cent with
  \<open>1 < c < 50\<close> passes it and is listed first among the high-confidence
  objects, with confidence \<open>c\<close> and level BAJO.\<close>

lemma high_confidence_raw_threshold:
  assumes "ad_objects a = Some (ob # obs)" "tr_confidence ob = Some c" "1 < c" "c < 50"
  shows "hd (od_high_confidence (sc_objects_detected (generateSceneContext a))) =
           \<lparr>ci_name = str_or ''Unknown'' (tr_tag_en ob), ci_confidence = to_fixed2 c, ci_level = BAJO\<rparr>"
  using assms
  by (simp add: generateSceneContext_def Let_def section_or_empty_def raw_at_least_def toConfItem_def
      conf_percent_def getConfidenceLevel_def num_or0_def)

lemma high_confidence_raw_threshold_witness:
  "hd (od_high_confidence (sc_objects_detected (generateSceneContext
      \<lparr>ad_tags = Some [], ad_colors = None,
       ad_objects = Some [\<lparr>tr_tag_en = Some ''chair'', tr_confidence = Some 30\<rparr>]\<rparr>))) =
     \<lparr>ci_name = str_or ''Unknown'' (Some ''chair''), ci_confidence = to_fixed2 30, ci_level = BAJO\<rparr>"
  using high_confidence_raw_threshold
          [of "\<lparr>ad_tags = Some [], ad_colors = None,
                ad_objects = Some [\<lparr>tr_tag_en = Some ''chair'', tr_confidence = Some 30\<rparr>]\<rparr>"
              "\<lparr>tr_tag_en = Some ''chair'', tr_confidence = Some 30\<rparr>" "[]" 30]
  by simp

end
