(* ===== verification/Json.thy ===== *)
theory Json
  imports Confidence Color Context
begin

text \<open>
  The JSON values exchanged between the server, the Imagga API and the
  browser, with the JavaScript accessors the code applies to them
  (\<^verbatim>\<open>a?.b?.c\<close>, \<^verbatim>\<open>x || d\<close>, truthiness), and the boundary decoding of
  an \<^verbatim>\<open>analyzeImageFull\<close> result into the typed input of
  \<^verbatim>\<open>generateSceneContext\<close> (the chains at \<^verbatim>\<open>src/server.js\<close> lines 52-54
  and the field reads \<^verbatim>\<open>t.tag?.en\<close>, \<^verbatim>\<open>t.confidence\<close>, \<^verbatim>\<open>c.hex\<close>,
  \<^verbatim>\<open>c.percentage\<close>). Numbers are reals; object keys keep their order.
\<close>

section \<open>Values\<close>

datatype json =
    JNull
  | JBool bool
  | JNum real
  | JStr string
  | JArr "json list"
  | JObj "(string \<times> json) list"

section \<open>Accessors\<close>

text \<open>\<^verbatim>\<open>x?.k\<close>: a property of an object; anything else has none.\<close>

fun json_get :: "json \<Rightarrow> string \<Rightarrow> json option" where
  "json_get (JObj kvs) k = map_of kvs k"
| "json_get _ k = None"

text \<open>\<^verbatim>\<open>x?.k1?.k2...\<close>.\<close>

fun json_path :: "json \<Rightarrow> string list \<Rightarrow> json option" where
  "json_path j [] = Some j"
| "json_path j (k # ks) = (case json_get j k of None \<Rightarrow> None | Some j' \<Rightarrow> json_path j' ks)"

text \<open>JavaScript truthiness of a JSON value.\<close>

fun js_truthy :: "json \<Rightarrow> bool" where
  "js_truthy JNull = False"
| "js_truthy (JBool b) = b"
| "js_truthy (JNum x) = (x \<noteq> 0)"
| "js_truthy (JStr s) = (s \<noteq> [])"
| "js_truthy (JArr xs) = True"
| "js_truthy (JObj kvs) = True"

text \<open>\<^verbatim>\<open>x || d\<close> on a possibly undefined value.\<close>

definition js_or :: "json option \<Rightarrow> json \<Rightarrow> json" where
  "js_or v d = (case v of Some x \<Rightarrow> if js_truthy x then x else d | None \<Rightarrow> d)"

section \<open>Decoding the analysis sections\<close>

definition json_string :: "json option \<Rightarrow> string option" where
  "json_string v = (case v of Some (JStr s) \<Rightarrow> Some s | _ \<Rightarrow> None)"

definition json_number :: "json option \<Rightarrow> real option" where
  "json_number v = (case v of Some (JNum x) \<Rightarrow> Some x | _ \<Rightarrow> None)"

text \<open>A tag as \<^verbatim>\<open>t.tag?.en\<close> and \<^verbatim>\<open>t.confidence\<close> read it.\<close>

definition decode_tag :: "json \<Rightarrow> tag_result" where
  "decode_tag t =
     \<lparr>tr_tag_en = json_string (json_path t [''tag'', ''en'']),
      tr_confidence = json_number (json_get t ''confidence'')\<rparr>"

text \<open>A colour as \<^verbatim>\<open>c.hex\<close> and \<^verbatim>\<open>c.percentage\<close> read it.\<close>

definition decode_color :: "json \<Rightarrow> color_result" where
  "decode_color c =
     \<lparr>cr_hex = json_string (json_get c ''hex''),
      cr_percentage = json_number (json_get c ''percentage'')\<rparr>"

text \<open>\<^verbatim>\<open>analysisData.s?.result?.xs || []\<close>: the list when the chain ends in an
  array, \<^const>\<open>None\<close> (read as \<^verbatim>\<open>[]\<close>) otherwise.\<close>

definition decode_section :: "json \<Rightarrow> string list \<Rightarrow> (json \<Rightarrow> 'a) \<Rightarrow> 'a list option" where
  "decode_section a path dec = (case json_path a path of Some (JArr xs) \<Rightarrow> Some (map dec xs) | _ \<Rightarrow> None)"

definition analysis_of_json :: "json \<Rightarrow> analysis_data" where
  "analysis_of_json a =
     \<lparr>ad_tags = decode_section a [''tags'', ''result'', ''tags''] decode_tag,
      ad_colors = decode_section a [''colors'', ''result'', ''colors''] decode_color,
      ad_objects = decode_section a [''objects'', ''result'', ''tags''] decode_tag\<rparr>"

section \<open>The documented shapes\<close>

text \<open>The shapes of the Imagga answers on which the decoding above reads what
  the code reads: a section that is absent, falsy or an array; items that are
  not \<^verbatim>\<open>null\<close>; \<^verbatim>\<open>tag.en\<close> absent, falsy or a string; a confidence or
  a percentage absent, falsy or a number; \<^verbatim>\<open>hex\<close> absent or a string. On
  other shapes the code throws or coerces where the decoding reads a value as
  absent.\<close>

fun is_jstr :: "json \<Rightarrow> bool" where
  "is_jstr (JStr _) = True"
| "is_jstr _ = False"

fun is_jnum :: "json \<Rightarrow> bool" where
  "is_jnum (JNum _) = True"
| "is_jnum _ = False"

definition doc_field :: "(json \<Rightarrow> bool) \<Rightarrow> json option \<Rightarrow> bool" where
  "doc_field ok v = (case v of None \<Rightarrow> True | Some j \<Rightarrow> \<not> js_truthy j \<or> ok j)"

definition documented_tag :: "json \<Rightarrow> bool" where
  "documented_tag t \<longleftrightarrow>
     t \<noteq> JNull \<and> doc_field is_jstr (json_path t [''tag'', ''en'']) \<and> doc_field is_jnum (json_get t ''confidence'')"

definition documented_color :: "json \<Rightarrow> bool" where
  "documented_color c \<longleftrightarrow>
     c \<noteq> JNull \<and> (case json_get c ''hex'' of None \<Rightarrow> True | Some h \<Rightarrow> is_jstr h) \<and>
     doc_field is_jnum (json_get c ''percentage'')"

definition documented_section :: "(json \<Rightarrow> bool) \<Rightarrow> json option \<Rightarrow> bool" where
  "documented_section ok v =
     (case v of None \<Rightarrow> True | Some j \<Rightarrow> \<not> js_truthy j \<or> (case j of JArr xs \<Rightarrow> list_all ok xs | _ \<Rightarrow> False))"

section \<open>Encoding\<close>

text \<open>The level strings the code writes.\<close>

fun level_json :: "level \<Rightarrow> json" where
  "level_json ALTO = JStr ''ALTO''"
| "level_json MEDIO = JStr ''MEDIO''"
| "level_json BAJO = JStr ''BAJO''"

end
