(* ===== verification/ContextJson.thy ===== *)
theory ContextJson
  imports Json
begin

text \<open>
  The scene context as the JSON object \<^verbatim>\<open>res.json\<close> sends (the object
  literal of \<^verbatim>\<open>generateSceneContext\<close>, \<^verbatim>\<open>src/server.js\<close> lines 70-141):
  the strings the code writes for each label, the encoding of every record of
  theory \<open>Context\<close>, and a schema of that object after spec section 6 with an
  executable conformance check. Strings with accents are their UTF-8 bytes, as
  in \<^const>\<open>color_name_text\<close>; a property whose value is
  \<^verbatim>\<open>undefined\<close> is left out of its object and written \<^verbatim>\<open>null\<close> in an
  array, as \<^verbatim>\<open>JSON.stringify\<close> does.
\<close>

section \<open>Label strings\<close>

fun harmony_text :: "harmony \<Rightarrow> string" where
  "harmony_text InsuficientesDatos = ''Insuficientes datos''"
| "harmony_text Contrastado = ''Contrastado''"
| "harmony_text Complementario = ''Complementario''"
| "harmony_text Analogo = ''An'' @ [CHR 0xC3, CHR 0xA1] @ ''logo''"

fun rating_text :: "rating \<Rightarrow> string" where
  "rating_text MuyAlta = ''Muy Alta''"
| "rating_text Alta = ''Alta''"
| "rating_text Media = ''Media''"
| "rating_text Baja = ''Baja''"

fun scene_type_text :: "scene_type \<Rightarrow> string" where
  "scene_type_text Retrato = ''Retrato''"
| "scene_type_text Paisaje = ''Paisaje''"
| "scene_type_text Comida = ''Comida''"
| "scene_type_text VidaSilvestre = ''Vida Silvestre''"
| "scene_type_text Arquitectura = ''Arquitectura''"
| "scene_type_text Naturaleza = ''Naturaleza''"
| "scene_type_text General = ''General''"

fun setting_text :: "setting \<Rightarrow> string" where
  "setting_text Interior = ''Interior''"
| "setting_text Exterior = ''Exterior''"
| "setting_text Noche = ''Noche''"
| "setting_text Dia = ''D'' @ [CHR 0xC3, CHR 0xAD] @ ''a''"
| "setting_text NoEspecificado = ''No especificado''"

fun mood_text :: "mood \<Rightarrow> string" where
  "mood_text AlegreLuminoso = ''Alegre y Luminoso''"
| "mood_text OscuroMisterioso = ''Oscuro y Misterioso''"
| "mood_text TranquiloSereno = ''Tranquilo y Sereno''"
| "mood_text DinamicoEnergetico =
     ''Din'' @ [CHR 0xC3, CHR 0xA1] @ ''mico y Energ'' @ [CHR 0xC3, CHR 0xA9] @ ''tico''"
| "mood_text Neutral = ''Neutral''"

section \<open>Encoding\<close>

text \<open>An item \<^verbatim>\<open>{name|tag, confidence, level}\<close>; the first key is
  \<^verbatim>\<open>name\<close> for objects and \<^verbatim>\<open>tag\<close> for tags.\<close>

definition conf_item_json :: "string \<Rightarrow> conf_item \<Rightarrow> json" where
  "conf_item_json key ci =
     JObj [(key, JStr (ci_name ci)), (''confidence'', JNum (ci_confidence ci)),
           (''level'', level_json (ci_level ci))]"

definition rgb_json :: "rgb option \<Rightarrow> json" where
  "rgb_json v =
     (case v of
        None \<Rightarrow> JNull
      | Some c \<Rightarrow> JObj [(''r'', JNum (real (red c))), (''g'', JNum (real (green c))),
                       (''b'', JNum (real (blue c)))])"

definition dominant_color_json :: "dominant_color \<Rightarrow> json" where
  "dominant_color_json c =
     JObj ((case dc_hex c of None \<Rightarrow> [] | Some h \<Rightarrow> [(''hex'', JStr h)]) @
           [(''rgb'', rgb_json (dc_rgb c)), (''percentage'', JNum (dc_percentage c)),
            (''name'', JStr (color_name_text (dc_name c))),
            (''brightness'', JNum (real_of_int (dc_brightness c)))])"

definition color_analysis_json :: "color_analysis \<Rightarrow> json" where
  "color_analysis_json ca =
     JObj [(''dominant'', JArr (map dominant_color_json (ca_dominant ca))),
           (''palette'', JArr (map (\<lambda>h. case h of None \<Rightarrow> JNull | Some s \<Rightarrow> JStr s) (ca_palette ca))),
           (''color_harmony'', JStr (harmony_text (ca_color_harmony ca))),
           (''avg_brightness'', JNum (ca_avg_brightness ca))]"

definition categorized_json :: "categorized \<Rightarrow> json" where
  "categorized_json c =
     JObj [(''entities'', JArr (map (conf_item_json ''tag'') (cat_entities c))),
           (''attributes'', JArr (map (conf_item_json ''tag'') (cat_attributes c))),
           (''environment'', JArr (map (conf_item_json ''tag'') (cat_environment c))),
           (''actions'', JArr (map (conf_item_json ''tag'') (cat_actions c))),
           (''concepts'', JArr (map (conf_item_json ''tag'') (cat_concepts c)))]"

definition scene_analysis_json :: "scene_analysis \<Rightarrow> json" where
  "scene_analysis_json s =
     JObj [(''description'', JStr (sa_description s)), (''type'', JStr (scene_type_text (sa_type s))),
           (''setting'', JStr (setting_text (sa_setting s))), (''mood'', JStr (mood_text (sa_mood s))),
           (''dominant_theme'', JStr (sa_dominant_theme s))]"

definition scene_metrics_json :: "scene_metrics \<Rightarrow> json" where
  "scene_metrics_json m =
     JObj [(''object_diversity'', JNum (real (object_diversity m))),
           (''color_diversity'', JNum (real (color_diversity m))),
           (''tag_diversity'', JNum (real (tag_diversity m))),
           (''complexity'', JStr (rating_text (complexity m))),
           (''vibrancy'', JStr (rating_text (vibrancy m)))]"

definition context_json :: "scene_context \<Rightarrow> json" where
  "context_json c =
     JObj [(''objects_detected'',
              JObj [(''high_confidence'', JArr (map (conf_item_json ''name'') (od_high_confidence (sc_objects_detected c)))),
                    (''all_objects'', JArr (map (conf_item_json ''name'') (od_all_objects (sc_objects_detected c))))]),
           (''color_analysis'', color_analysis_json (sc_color_analysis c)),
           (''tags_by_category'', categorized_json (sc_tags_by_category c)),
           (''scene_analysis'', scene_analysis_json (sc_scene_analysis c)),
           (''composition_metrics'', scene_metrics_json (sc_composition_metrics c)),
           (''overall_confidence'', JNum (sc_overall_confidence c)),
           (''all_tags'', JArr (map (conf_item_json ''tag'') (sc_all_tags c)))]"

section \<open>Schema\<close>

text \<open>A JSON schema: any number, numbers in a closed interval, strings from a list, arrays
  of one schema, objects with declared keys (each required or optional), and
  alternatives.\<close>

datatype schema =
    SNull
  | SNumber
  | SNum real real
  | SStr
  | SEnum "string list"
  | SArr schema
  | SObj "(string \<times> bool \<times> schema) list"
  | SOr schema schema

text \<open>Conformance: every key of an object is declared, keys are distinct,
  every required key is present, and every value conforms.\<close>

fun conforms :: "schema \<Rightarrow> json \<Rightarrow> bool"
and conforms_all :: "schema \<Rightarrow> json list \<Rightarrow> bool"
and conforms_fields :: "(string \<times> bool \<times> schema) list \<Rightarrow> (string \<times> json) list \<Rightarrow> bool" where
  "conforms SNull j = (j = JNull)"
| "conforms SNumber j = (case j of JNum _ \<Rightarrow> True | _ \<Rightarrow> False)"
| "conforms (SNum lo hi) j = (case j of JNum x \<Rightarrow> lo \<le> x \<and> x \<le> hi | _ \<Rightarrow> False)"
| "conforms SStr j = (case j of JStr _ \<Rightarrow> True | _ \<Rightarrow> False)"
| "conforms (SEnum ss) j = (case j of JStr s \<Rightarrow> s \<in> set ss | _ \<Rightarrow> False)"
| "conforms (SArr s) j = (case j of JArr xs \<Rightarrow> conforms_all s xs | _ \<Rightarrow> False)"
| "conforms (SObj fs) j =
     (case j of
        JObj kvs \<Rightarrow> distinct (map fst kvs) \<and> set (map fst kvs) \<subseteq> set (map fst fs) \<and>
                    set (map fst (filter (\<lambda>f. fst (snd f)) fs)) \<subseteq> set (map fst kvs) \<and>
                    conforms_fields fs kvs
      | _ \<Rightarrow> False)"
| "conforms (SOr s t) j = (conforms s j \<or> conforms t j)"
| "conforms_all s [] = True"
| "conforms_all s (x # xs) = (conforms s x \<and> conforms_all s xs)"
| "conforms_fields fs [] = True"
| "conforms_fields fs ((k, v) # kvs) =
     ((case map_of fs k of None \<Rightarrow> False | Some (_, s) \<Rightarrow> conforms s v) \<and> conforms_fields fs kvs)"

text \<open>The context of spec section 6, with the value sets the code can write:
  levels, colour names and labels as their strings, brightness in
  \<open>[0, 255]\<close>, diversities in \<open>[0, 10]\<close>. Confidences and percentages are
  numbers of any value (their ranges hold only for documented inputs, see
  theory \<open>Context\<close>).\<close>

text \<open>The strings each label can take.\<close>

definition level_texts :: "string list" where
  "level_texts = [''ALTO'', ''MEDIO'', ''BAJO'']"

definition color_name_texts :: "string list" where
  "color_name_texts = map color_name_text
     [Negro, Blanco, Rojo, Verde, Azul, Amarillo, Magenta, Cyan, Gris, Naranja, Purpura, Rosa, Desconocido]"

definition harmony_texts :: "string list" where
  "harmony_texts = map harmony_text [InsuficientesDatos, Contrastado, Complementario, Analogo]"

definition rating_texts :: "string list" where
  "rating_texts = map rating_text [MuyAlta, Alta, Media, Baja]"

definition scene_type_texts :: "string list" where
  "scene_type_texts = map scene_type_text [Retrato, Paisaje, Comida, VidaSilvestre, Arquitectura, Naturaleza, General]"

definition setting_texts :: "string list" where
  "setting_texts = map setting_text [Interior, Exterior, Noche, Dia, NoEspecificado]"

definition mood_texts :: "string list" where
  "mood_texts = map mood_text [AlegreLuminoso, OscuroMisterioso, TranquiloSereno, DinamicoEnergetico, Neutral]"

definition item_schema :: "string \<Rightarrow> schema" where
  "item_schema key =
     SObj [(key, True, SStr), (''confidence'', True, SNumber),
           (''level'', True, SEnum level_texts)]"

definition rgb_schema :: schema where
  "rgb_schema = SOr SNull (SObj [(''r'', True, SNum 0 255), (''g'', True, SNum 0 255), (''b'', True, SNum 0 255)])"

definition dominant_schema :: schema where
  "dominant_schema =
     SObj [(''hex'', False, SStr), (''rgb'', True, rgb_schema), (''percentage'', True, SNumber),
           (''name'', True, SEnum color_name_texts),
           (''brightness'', True, SNum 0 255)]"

definition objects_schema :: schema where
  "objects_schema =
     SObj [(''high_confidence'', True, SArr (item_schema ''name'')),
           (''all_objects'', True, SArr (item_schema ''name''))]"

definition color_analysis_schema :: schema where
  "color_analysis_schema =
     SObj [(''dominant'', True, SArr dominant_schema), (''palette'', True, SArr (SOr SStr SNull)),
           (''color_harmony'', True, SEnum harmony_texts), (''avg_brightness'', True, SNum 0 255)]"

definition categories_schema :: schema where
  "categories_schema =
     SObj (map (\<lambda>k. (k, True, SArr (item_schema ''tag'')))
            [''entities'', ''attributes'', ''environment'', ''actions'', ''concepts''])"

definition scene_schema :: schema where
  "scene_schema =
     SObj [(''description'', True, SStr), (''type'', True, SEnum scene_type_texts),
           (''setting'', True, SEnum setting_texts), (''mood'', True, SEnum mood_texts),
           (''dominant_theme'', True, SStr)]"

definition metrics_schema :: schema where
  "metrics_schema =
     SObj [(''object_diversity'', True, SNum 0 10), (''color_diversity'', True, SNum 0 10),
           (''tag_diversity'', True, SNum 0 10), (''complexity'', True, SEnum rating_texts),
           (''vibrancy'', True, SEnum rating_texts)]"

definition context_schema :: schema where
  "context_schema =
     SObj [(''objects_detected'', True, objects_schema), (''color_analysis'', True, color_analysis_schema),
           (''tags_by_category'', True, categories_schema), (''scene_analysis'', True, scene_schema),
           (''composition_metrics'', True, metrics_schema), (''overall_confidence'', True, SNum 0 100),
           (''all_tags'', True, SArr (item_schema ''tag''))]"

section \<open>Conformance\<close>

lemma conforms_all_iff [simp]: "conforms_all s xs \<longleftrightarrow> list_all (conforms s) xs"
  by (induction xs) simp_all

lemma level_json_in [simp]: "(case level_json l of JStr s \<Rightarrow> s \<in> set level_texts | _ \<Rightarrow> False)"
  by (cases l) (simp_all add: level_texts_def)

lemma conf_item_json_conforms [simp]:
  "conforms (item_schema ''name'') (conf_item_json ''name'' ci)"
  "conforms (item_schema ''tag'') (conf_item_json ''tag'' ci)"
  by (simp_all add: item_schema_def conf_item_json_def)

lemma rgb_json_conforms:
  "(\<And>c. v = Some c \<Longrightarrow> rgb_valid c) \<Longrightarrow> conforms rgb_schema (rgb_json v)"
  by (cases v) (auto simp: rgb_schema_def rgb_json_def rgb_valid_def)

lemma dominant_color_json_conforms:
  assumes "dc_rgb c = hexToRgb (dc_hex c)" "0 \<le> dc_brightness c" "dc_brightness c \<le> 255"
  shows "conforms dominant_schema (dominant_color_json c)"
proof -
  have rgb: "conforms rgb_schema (rgb_json (dc_rgb c))"
    by (rule rgb_json_conforms) (use assms(1) hexToRgb_valid in auto)
  have nm: "color_name_text (dc_name c) \<in> set color_name_texts"
    by (cases "dc_name c") (simp_all add: color_name_texts_def)
  show ?thesis
    using rgb nm assms(2,3)
    by (simp only: dominant_schema_def dominant_color_json_def split: option.splits) simp
qed

lemma conforms_fields_iff:
  "conforms_fields fs kvs \<longleftrightarrow> (\<forall>(k, v)\<in>set kvs. case map_of fs k of None \<Rightarrow> False | Some (_, s) \<Rightarrow> conforms s v)"
  by (induction kvs) auto

lemma conforms_required:
  assumes "conforms (SObj fs) j" "map_of fs k = Some (True, s)"
  shows "\<exists>v. json_get j k = Some v \<and> conforms s v"
proof -
  obtain kvs where j: "j = JObj kvs" using assms(1) by (cases j) auto
  have "k \<in> set (map fst (filter (\<lambda>f. fst (snd f)) fs))"
    using assms(2) by (force dest: map_of_SomeD)
  then have "k \<in> fst ` set kvs" using assms(1) j by auto
  then obtain v where v: "map_of kvs k = Some v" by (meson map_of_eq_None_iff not_Some_eq)
  then have "(k, v) \<in> set kvs" by (rule map_of_SomeD)
  with assms j have "conforms s v" by (auto simp: conforms_fields_iff)
  with v j show ?thesis by simp
qed

lemma conforms_SArr: "conforms (SArr s) j \<Longrightarrow> \<exists>xs. j = JArr xs \<and> (\<forall>x\<in>set xs. conforms s x)"
  by (cases j) (auto simp: list_all_iff)

lemma conforms_SObj: "conforms (SObj fs) j \<Longrightarrow> \<exists>kvs. j = JObj kvs"
  by (cases j) auto

lemma context_schema_parts:
  assumes "conforms context_schema c"
  shows "\<exists>v. json_get c ''objects_detected'' = Some v \<and> conforms objects_schema v"
    and "\<exists>v. json_get c ''color_analysis'' = Some v \<and> conforms color_analysis_schema v"
    and "\<exists>v. json_get c ''tags_by_category'' = Some v \<and> conforms categories_schema v"
    and "\<exists>v. json_get c ''composition_metrics'' = Some v \<and> conforms metrics_schema v"
  using conforms_required [OF assms [unfolded context_schema_def]] by simp_all

lemma harmony_text_in [simp]: "harmony_text h \<in> set harmony_texts"
  by (cases h) (simp_all add: harmony_texts_def)

lemma rating_text_in [simp]: "rating_text r \<in> set rating_texts"
  by (cases r) (simp_all add: rating_texts_def)

lemma scene_type_text_in [simp]: "scene_type_text t \<in> set scene_type_texts"
  by (cases t) (simp_all add: scene_type_texts_def)

lemma setting_text_in [simp]: "setting_text st \<in> set setting_texts"
  by (cases st) (simp_all add: setting_texts_def)

lemma mood_text_in [simp]: "mood_text m \<in> set mood_texts"
  by (cases m) (simp_all add: mood_texts_def)

lemma dominant_entries_rgb:
  "d \<in> set (cs_dominant (analyzeColorsAdvanced cs)) \<Longrightarrow> de_rgb d = hexToRgb (de_hex d)"
  by (auto simp: analyzeColorsAdvanced_def Let_def split: if_splits dest: in_set_takeD)

lemma generateSceneContext_dominant_ok:
  assumes "c \<in> set (ca_dominant (sc_color_analysis (generateSceneContext a)))"
  shows "dc_rgb c = hexToRgb (dc_hex c) \<and> 0 \<le> dc_brightness c \<and> dc_brightness c \<le> 255"
proof -
  from assms obtain d where "d \<in> set (cs_dominant (analyzeColorsAdvanced (section_or_empty (ad_colors a))))"
      and c: "c = toDominantColor d"
    by (auto simp: generateSceneContext_def Let_def dest: in_set_takeD)
  from this(1) have "de_rgb d = hexToRgb (de_hex d)" by (rule dominant_entries_rgb)
  with c show ?thesis by (simp add: toDominantColor_def calculateBrightness_bounds)
qed

lemma generateSceneContext_conforms:
  "conforms context_schema (context_json (generateSceneContext a))"
proof -
  let ?c = "generateSceneContext a"
  have dom: "list_all (conforms dominant_schema) (map dominant_color_json (ca_dominant (sc_color_analysis ?c)))"
    by (auto simp: list_all_iff dest: generateSceneContext_dominant_ok intro!: dominant_color_json_conforms)
  have avg: "0 \<le> ca_avg_brightness (sc_color_analysis ?c) \<and> ca_avg_brightness (sc_color_analysis ?c) \<le> 255"
    using to_fixed2_between [of "cs_avg_brightness (analyzeColorsAdvanced (section_or_empty (ad_colors a)))" 255]
          analyzeColorsAdvanced_avg_bounds
    by (simp add: generateSceneContext_def Let_def)
  have ov: "0 \<le> sc_overall_confidence ?c \<and> sc_overall_confidence ?c \<le> 100"
    using to_fixed2_between [of "calculateAverageConfidence (take 20 (section_or_empty (ad_tags a)))" 100]
          calculateAverageConfidence_bounds
    by (simp add: generateSceneContext_def Let_def)
  have met: "real (object_diversity (sc_composition_metrics ?c)) \<le> 10 \<and> real (color_diversity (sc_composition_metrics ?c)) \<le> 10 \<and>
             real (tag_diversity (sc_composition_metrics ?c)) \<le> 10"
    using calculateSceneMetrics_bounds by (simp add: generateSceneContext_def Let_def)
  show ?thesis
    using dom avg ov met
    by (simp add: context_schema_def objects_schema_def color_analysis_schema_def categories_schema_def
                  scene_schema_def metrics_schema_def context_json_def color_analysis_json_def
                  categorized_json_def scene_analysis_json_def scene_metrics_json_def list_all_iff
             split: option.splits)
qed

text \<open>C12: every scene context the server
  builds is, as JSON, an object with exactly the field groups of spec section 6:
  every item has a string name, a number confidence and a level among ALTO,
  MEDIO, BAJO; every dominant colour has an RGB of channels in [0, 255] or
  null and a brightness in [0, 255]; every label is one of the strings the code
  writes; diversities lie in [0, 10], the average brightness in [0, 255] and
  the overall confidence in [0, 100].\<close>

corollary context_json_conforms:
  "conforms context_schema (context_json (generateSceneContext a))"
  by (rule generateSceneContext_conforms)

end
