(* ===== verification/Server.thy ===== *)
theory Server
  imports ContextJson
begin

text \<open>
  The request handling of \<^verbatim>\<open>src/server.js\<close> around the synthesiser:
  \<^verbatim>\<open>getAuthHeader\<close> (lines 18-24), \<^verbatim>\<open>analyzeImageFull\<close> (27-48) and the
  handler of \<^verbatim>\<open>POST /api/analyze\<close> (574-637). The Imagga API is an
  explicit input: a record of the outcome of each upstream call, indexed by
  the attempt number where the handler may repeat a call. Each handler returns
  its response together with the list of upstream calls it issued, in issue
  order, so that ordering and retry are statements about that list.
\<close>

section \<open>Effects\<close>

text \<open>What an upstream call or a \<^verbatim>\<open>throw\<close> can fail with: an HTTP error
  with \<^verbatim>\<open>err.response\<close> (status, body, message), an error without a
  response (network), or an \<^verbatim>\<open>Error\<close> thrown by the code itself.\<close>

datatype failure =
    Upstream nat json string
  | Network string
  | Thrown string

text \<open>The outcome of every upstream call; \<^verbatim>\<open>nat\<close> is the attempt.\<close>

record upstream =
  up_tags :: "nat \<Rightarrow> failure + json"
  up_colors :: "nat \<Rightarrow> failure + json"
  up_objects :: "nat \<Rightarrow> failure + json"
  up_upload :: "failure + json"
  up_faces :: "failure + json"
  up_index_put :: "failure + json"
  up_recognition :: "failure + json"

datatype api_call =
    TagsCall nat | ColorsCall nat | ObjectsCall nat | UploadCall
  | FaceDetectionCall | IndexPutCall | RecognitionCall

text \<open>\<^verbatim>\<open>process.env.IMAGGA_API_KEY\<close> and \<^verbatim>\<open>IMAGGA_API_SECRET\<close>.\<close>

record env =
  env_key :: "string option"
  env_secret :: "string option"

text \<open>A request: \<^verbatim>\<open>req.body.image_url\<close> and whether \<^verbatim>\<open>req.file\<close> is
  present.\<close>

record request =
  req_image_url :: "string option"
  req_file :: bool

record 'b response =
  status :: nat
  body :: 'b

section \<open>Operations\<close>

text \<open>The credentials that go into the \<^verbatim>\<open>Authorization\<close> header (their
  Base64 encoding is not modelled).\<close>

definition getAuthHeader :: "env \<Rightarrow> failure + (string \<times> string)" where
  "getAuthHeader e =
     (if js_falsy_str (env_key e) \<or> js_falsy_str (env_secret e)
      then Inl (Thrown ''Missing IMAGGA_API_KEY/IMAGGA_API_SECRET env vars'')
      else Inr (the (env_key e), the (env_secret e)))"

text \<open>\<^verbatim>\<open>res?.data || null\<close> for a call whose rejection is caught.\<close>

definition data_or_null :: "failure + json \<Rightarrow> json" where
  "data_or_null r = (case r of Inl _ \<Rightarrow> JNull | Inr d \<Rightarrow> if js_truthy d then d else JNull)"

text \<open>The three requests are issued together (\<^verbatim>\<open>Promise.all\<close>); only the
  tags request can reject it.\<close>

definition analyzeImageFull :: "upstream \<Rightarrow> nat \<Rightarrow> (failure + json) \<times> api_call list" where
  "analyzeImageFull u k =
     ((case up_tags u k of
         Inl err \<Rightarrow> Inl err
       | Inr tagsData \<Rightarrow>
           Inr (JObj [(''tags'', tagsData), (''colors'', data_or_null (up_colors u k)),
                      (''objects'', data_or_null (up_objects u k))])),
      [TagsCall k, ColorsCall k, ObjectsCall k])"

definition error_message :: "failure \<Rightarrow> string" where
  "error_message err = (case err of Upstream _ _ m \<Rightarrow> m | Network m \<Rightarrow> m | Thrown m \<Rightarrow> m)"

text \<open>\<^verbatim>\<open>err?.response?.data || err.message\<close>.\<close>

definition error_details :: "failure \<Rightarrow> json" where
  "error_details err =
     (case err of
        Upstream _ d m \<Rightarrow> if js_truthy d then d else JStr m
      | _ \<Rightarrow> JStr (error_message err))"

text \<open>The client message of the handler's \<^verbatim>\<open>catch\<close> (lines 631-633).\<close>

definition client_message :: "failure \<Rightarrow> json" where
  "client_message err =
     (case err of
        Upstream _ d _ \<Rightarrow> js_or (json_path d [''status'', ''text''])
                             (JStr ''Unexpected error while analyzing the image.'')
      | _ \<Rightarrow> JStr ''Unexpected error while analyzing the image.'')"

definition analyze_error :: "failure \<Rightarrow> json response" where
  "analyze_error err =
     \<lparr>status = 500,
      body = JObj [(''error'', JStr ''Analysis failed''), (''message'', client_message err),
                   (''details'', error_details err)]\<rparr>"

text \<open>\<^verbatim>\<open>res.json({ source, data: analysis, context })\<close>.\<close>

definition analyze_ok :: "string \<Rightarrow> json \<Rightarrow> json response" where
  "analyze_ok src analysis =
     \<lparr>status = 200,
      body = JObj [(''source'', JStr src), (''data'', analysis),
                   (''context'', context_json (generateSceneContext (analysis_of_json analysis)))]\<rparr>"

text \<open>The \<^verbatim>\<open>try\<close>/\<^verbatim>\<open>catch\<close> around the upload analysis: one more attempt
  when the first failed with a 5xx status.\<close>

definition is_server_error :: "failure \<Rightarrow> bool" where
  "is_server_error err = (case err of Upstream s _ _ \<Rightarrow> 0 < s \<and> 500 \<le> s \<and> s < 600 | _ \<Rightarrow> False)"

definition analyze_with_retry :: "upstream \<Rightarrow> (failure + json) \<times> api_call list" where
  "analyze_with_retry u =
     (case analyzeImageFull u 0 of
        (Inr a, cs) \<Rightarrow> (Inr a, cs)
      | (Inl err, cs) \<Rightarrow>
          if is_server_error err
          then (let (r, cs') = analyzeImageFull u 1 in (r, cs @ cs'))
          else (Inl err, cs))"

definition upload_id :: "json \<Rightarrow> json option" where
  "upload_id uploadRes = json_path uploadRes [''result'', ''upload_id'']"

definition api_analyze :: "env \<Rightarrow> upstream \<Rightarrow> request \<Rightarrow> json response \<times> api_call list" where
  "api_analyze e u req =
     (case getAuthHeader e of
        Inl err \<Rightarrow> (analyze_error err, [])
      | Inr headers \<Rightarrow>
          if \<not> js_falsy_str (req_image_url req) then
            (case analyzeImageFull u 0 of
               (Inr analysis, cs) \<Rightarrow> (analyze_ok ''url'' analysis, cs)
             | (Inl err, cs) \<Rightarrow> (analyze_error err, cs))
          else if req_file req then
            (case up_upload u of
               Inl err \<Rightarrow> (analyze_error err, [UploadCall])
             | Inr uploadRes \<Rightarrow>
                 if \<not> (case upload_id uploadRes of None \<Rightarrow> False | Some i \<Rightarrow> js_truthy i)
                 then (analyze_error (Thrown ''No upload_id returned from Imagga''), [UploadCall])
                 else
                   (case analyze_with_retry u of
                      (Inr analysis, cs) \<Rightarrow> (analyze_ok ''upload'' analysis, UploadCall # cs)
                    | (Inl err, cs) \<Rightarrow> (analyze_error err, UploadCall # cs)))
          else
            (\<lparr>status = 400,
              body = JObj [(''error'', JStr ''Provide image_url or upload an image file (form field: image)'')]\<rparr>,
             []))"

section \<open>Observations\<close>

text \<open>The attempt number of an upstream call (0 for the calls made once).\<close>

definition call_attempt :: "api_call \<Rightarrow> nat" where
  "call_attempt c = (case c of TagsCall k \<Rightarrow> k | ColorsCall k \<Rightarrow> k | ObjectsCall k \<Rightarrow> k | _ \<Rightarrow> 0)"

text \<open>The upload branch of \<^verbatim>\<open>/api/analyze\<close> reaches the analysis: credentials
  present, no URL, a file, and an upload that returned a truthy
  \<^verbatim>\<open>upload_id\<close>.\<close>

definition upload_ready :: "env \<Rightarrow> upstream \<Rightarrow> request \<Rightarrow> bool" where
  "upload_ready e u req \<longleftrightarrow>
     \<not> isl (getAuthHeader e) \<and> js_falsy_str (req_image_url req) \<and> req_file req \<and>
     (case up_upload u of
        Inl _ \<Rightarrow> False
      | Inr d \<Rightarrow> (case upload_id d of None \<Rightarrow> False | Some i \<Rightarrow> js_truthy i))"

text \<open>The answers of attempt \<open>k\<close> that succeed have the documented shape.\<close>

definition documented_upstream :: "upstream \<Rightarrow> nat \<Rightarrow> bool" where
  "documented_upstream u k \<longleftrightarrow>
     (case up_tags u k of Inr d \<Rightarrow> documented_section documented_tag (json_path d [''result'', ''tags'']) | Inl _ \<Rightarrow> True) \<and>
     (case up_colors u k of Inr d \<Rightarrow> documented_section documented_color (json_path d [''result'', ''colors'']) | Inl _ \<Rightarrow> True) \<and>
     (case up_objects u k of Inr d \<Rightarrow> documented_section documented_tag (json_path d [''result'', ''tags'']) | Inl _ \<Rightarrow> True)"

section \<open>Upstream calls\<close>

lemma analyzeImageFull_calls [simp]: "snd (analyzeImageFull u k) = [TagsCall k, ColorsCall k, ObjectsCall k]"
  by (simp add: analyzeImageFull_def)

lemma analyze_with_retry_calls:
  "snd (analyze_with_retry u) =
     [TagsCall 0, ColorsCall 0, ObjectsCall 0] @
     (case up_tags u 0 of Inl err \<Rightarrow> if is_server_error err then [TagsCall 1, ColorsCall 1, ObjectsCall 1] else []
      | Inr _ \<Rightarrow> [])"
  by (auto simp: analyze_with_retry_def analyzeImageFull_def split: sum.splits prod.splits)

lemma api_analyze_calls:
  "snd (api_analyze e u req) =
     (if \<not> isl (getAuthHeader e) then
        (if \<not> js_falsy_str (req_image_url req) then [TagsCall 0, ColorsCall 0, ObjectsCall 0]
         else if req_file req then
           (if upload_ready e u req then UploadCall # snd (analyze_with_retry u) else [UploadCall])
         else [])
      else [])"
  by (auto simp: api_analyze_def upload_ready_def analyzeImageFull_def split: sum.splits prod.splits option.splits)

lemma api_analyze_no_auth:
  "getAuthHeader e = Inl err \<Longrightarrow> api_analyze e u req = (analyze_error err, [])"
  by (simp add: api_analyze_def)

section \<open>Properties of \<^verbatim>\<open>/api/analyze\<close>\<close>

text \<open>C11: on the URL path with credentials set, for upstream answers of
  the shape the Imagga API documents, the handler answers 200 exactly when the
  tags call succeeds: a failed colours or objects call never fails the
  request, a failed tags call always does. (On other shapes the code may throw
  in the synthesiser, where the decoding reads the value as absent.)\<close>

lemma api_analyze_tags_mandatory:
  assumes "getAuthHeader e = Inr h" "\<not> js_falsy_str (req_image_url req)" "documented_upstream u 0"
  shows "status (fst (api_analyze e u req)) = 200 \<longleftrightarrow> \<not> isl (up_tags u 0)"
  using assms by (auto simp: api_analyze_def analyzeImageFull_def analyze_ok_def analyze_error_def split: sum.splits)

lemma api_analyze_tags_mandatory_witness:
  "status (fst (api_analyze \<lparr>env_key = Some ''k'', env_secret = Some ''s''\<rparr>
     \<lparr>up_tags = (\<lambda>_. Inr (JObj [])), up_colors = (\<lambda>_. Inl (Network ''timeout'')),
      up_objects = (\<lambda>_. Inl (Upstream 500 JNull ''Request failed'')), up_upload = Inl (Network ''-''),
      up_faces = Inl (Network ''-''), up_index_put = Inl (Network ''-''), up_recognition = Inl (Network ''-'')\<rparr>
     \<lparr>req_image_url = Some ''http://x/y.jpg'', req_file = False\<rparr>)) = 200"
  using api_analyze_tags_mandatory [of "\<lparr>env_key = Some ''k'', env_secret = Some ''s''\<rparr>" "(''k'', ''s'')"
          "\<lparr>req_image_url = Some ''http://x/y.jpg'', req_file = False\<rparr>"
          "\<lparr>up_tags = (\<lambda>_. Inr (JObj [])), up_colors = (\<lambda>_. Inl (Network ''timeout'')),
      up_objects = (\<lambda>_. Inl (Upstream 500 JNull ''Request failed'')), up_upload = Inl (Network ''-''),
      up_faces = Inl (Network ''-''), up_index_put = Inl (Network ''-''), up_recognition = Inl (Network ''-'')\<rparr>"]
  by (simp add: getAuthHeader_def js_falsy_str_def documented_upstream_def documented_section_def)

text \<open>C34: the analysis is attempted a second time
  exactly when the request took the upload path, the upload returned an id,
  and the first tags call failed with a 5xx status.\<close>

lemma api_analyze_retry_iff:
  "TagsCall 1 \<in> set (snd (api_analyze e u req)) \<longleftrightarrow>
     upload_ready e u req \<and> (\<exists>err. up_tags u 0 = Inl err \<and> is_server_error err)"
  by (auto simp: api_analyze_calls analyze_with_retry_calls upload_ready_def split: sum.splits)
     (metis sum.inject(1))

text \<open>a request to \<^verbatim>\<open>/api/analyze\<close> issues
  at most two attempts of the analysis calls and at most eight upstream calls.\<close>

lemma api_analyze_attempts:
  "list_all (\<lambda>c. call_attempt c \<le> 1) (snd (api_analyze e u req)) \<and> length (snd (api_analyze e u req)) \<le> 7"
  by (auto simp: api_analyze_calls analyze_with_retry_calls call_attempt_def split: sum.splits)

lemma api_analyze_200:
  assumes "status (fst (api_analyze e u req)) = 200"
  shows "\<exists>src a. body (fst (api_analyze e u req)) =
           JObj [(''source'', JStr src), (''data'', a),
                 (''context'', context_json (generateSceneContext (analysis_of_json a)))] \<and>
           json_get a ''result'' = None \<and> js_truthy a"
  using assms
  by (auto simp: api_analyze_def analyze_ok_def analyze_error_def analyzeImageFull_def
                 analyze_with_retry_def Let_def split: sum.splits prod.splits if_splits)


lemma api_analyze_status:
  "status (fst (api_analyze e u req)) \<in> {200, 400, 500}"
  by (auto simp: api_analyze_def analyze_error_def analyze_ok_def analyze_with_retry_def Let_def
           split: sum.splits prod.splits if_splits)

end
