(* ===== verification/Frontend.thy ===== *)
theory Frontend
  imports Server
begin

text \<open>
  The rendering of an analysis by the browser script \<^verbatim>\<open>src/public/app.js\<close>:
  \<^verbatim>\<open>renderResponse\<close> (lines 82-149), \<^verbatim>\<open>renderAdvancedSceneContext\<close>
  (151-435) and \<^verbatim>\<open>renderSceneContext\<close> (437-526). Each function takes the parsed JSON the page received and returns
  what the code shows (the values it interpolates into the page, in the order
  it shows them) or the exception it throws; DOM construction and styling are
  not modelled, and the emoji of the section labels are left out of the label
  strings. JavaScript's reads of a property of \<^verbatim>\<open>undefined\<close> or
  \<^verbatim>\<open>null\<close>, of \<^verbatim>\<open>.length\<close>, \<^verbatim>\<open>.slice\<close> and \<^verbatim>\<open>.forEach\<close> are written
  out, with the exception each throws.
\<close>

section \<open>JavaScript access\<close>

text \<open>The \<^verbatim>\<open>TypeError\<close> of reading property \<open>k\<close> of \<^verbatim>\<open>undefined\<close> or
  \<^verbatim>\<open>null\<close>.\<close>

definition read_error :: "string \<Rightarrow> string \<Rightarrow> failure" where
  "read_error what k =
     Thrown (''Cannot read properties of '' @ what @ '' (reading '' @ [CHR 0x27] @ k @ [CHR 0x27, CHR 0x29])"

text \<open>\<^verbatim>\<open>x.k\<close>, \<^const>\<open>None\<close> standing for \<^verbatim>\<open>undefined\<close>.\<close>

definition js_prop :: "json option \<Rightarrow> string \<Rightarrow> failure + json option" where
  "js_prop x k =
     (case x of
        None \<Rightarrow> Inl (read_error ''undefined'' k)
      | Some JNull \<Rightarrow> Inl (read_error ''null'' k)
      | Some j \<Rightarrow> Inr (json_get j k))"

definition truthy :: "json option \<Rightarrow> bool" where
  "truthy x = (case x of None \<Rightarrow> False | Some j \<Rightarrow> js_truthy j)"

text \<open>\<^verbatim>\<open>x.length\<close>: a number for arrays and strings, \<^verbatim>\<open>undefined\<close>
  (\<^const>\<open>None\<close>) for other values.\<close>

definition js_length :: "json option \<Rightarrow> failure + nat option" where
  "js_length x =
     (case x of
        None \<Rightarrow> Inl (read_error ''undefined'' ''length'')
      | Some JNull \<Rightarrow> Inl (read_error ''null'' ''length'')
      | Some (JArr xs) \<Rightarrow> Inr (Some (length xs))
      | Some (JStr s) \<Rightarrow> Inr (Some (length s))
      | Some _ \<Rightarrow> Inr None)"

text \<open>\<^verbatim>\<open>x.slice(0, n).forEach(...)\<close> and \<^verbatim>\<open>x.forEach(...)\<close>: the elements
  visited, or the exception when the value is not an array.\<close>

definition js_slice_each :: "nat \<Rightarrow> json \<Rightarrow> failure + json list" where
  "js_slice_each n x =
     (case x of
        JArr xs \<Rightarrow> Inr (take n xs)
      | JStr _ \<Rightarrow> Inl (Thrown ''forEach is not a function'')
      | _ \<Rightarrow> Inl (Thrown ''slice is not a function''))"

definition js_each :: "json \<Rightarrow> failure + json list" where
  "js_each x = (case x of JArr xs \<Rightarrow> Inr xs | _ \<Rightarrow> Inl (Thrown ''forEach is not a function''))"

text \<open>\<^verbatim>\<open>Number(x)\<close> as arithmetic and comparison apply it, \<^const>\<open>None\<close>
  for \<^verbatim>\<open>NaN\<close>. A non-empty string and an array other than \<^verbatim>\<open>[]\<close> are
  read as \<^verbatim>\<open>NaN\<close>, which is exact for the non-numeric ones.\<close>

definition js_to_number :: "json option \<Rightarrow> real option" where
  "js_to_number x =
     (case x of
        None \<Rightarrow> None
      | Some JNull \<Rightarrow> Some 0
      | Some (JBool b) \<Rightarrow> Some (if b then 1 else 0)
      | Some (JNum v) \<Rightarrow> Some v
      | Some (JStr s) \<Rightarrow> if s = [] then Some 0 else None
      | Some (JArr xs) \<Rightarrow> if xs = [] then Some 0 else None
      | Some (JObj _) \<Rightarrow> None)"

text \<open>\<^verbatim>\<open>x > c\<close> for a number \<open>c\<close>.\<close>

definition js_gt :: "json option \<Rightarrow> real \<Rightarrow> bool" where
  "js_gt x c = (case js_to_number x of Some v \<Rightarrow> c < v | None \<Rightarrow> False)"

text \<open>\<^verbatim>\<open>x.toFixed(1)\<close> read back as a number (rounding half away from zero,
  as \<^verbatim>\<open>toFixed\<close> does on the exact value).\<close>

definition to_fixed1 :: "real \<Rightarrow> real" where
  "to_fixed1 x =
     (if x < 0 then - (real_of_int \<lfloor>(- x) * 10 + 1 / 2\<rfloor> / 10)
      else real_of_int \<lfloor>x * 10 + 1 / 2\<rfloor> / 10)"

section \<open>The tag list of \<^verbatim>\<open>renderResponse\<close>\<close>

text \<open>One row (lines 117-127): \<^verbatim>\<open>t.tag && t.tag.en ? t.tag.en : '--'\<close> (an
  em dash in the source) and
  \<^verbatim>\<open>Math.max(0, Math.min(100, (t.confidence || 0).toFixed(1)))\<close>, where
  \<^verbatim>\<open>toFixed\<close> throws on a truthy value that is not a number.\<close>

definition tag_row :: "json \<Rightarrow> failure + json \<times> real" where
  "tag_row t =
     sbind (js_prop (Some t) ''tag'') (\<lambda>tg.
       let name = (if truthy tg \<and> truthy (json_get (the tg) ''en'') then the (json_get (the tg) ''en'')
                   else JStr [CHR 0xE2, CHR 0x80, CHR 0x94])
       in (case js_or (json_get t ''confidence'') (JNum 0) of
             JNum c \<Rightarrow> Inr (name, max 0 (min 100 (to_fixed1 c)))
           | _ \<Rightarrow> Inl (Thrown ''toFixed is not a function'')))"

text \<open>\<^verbatim>\<open>(data.result && data.result.tags) || []\<close> (line 92).\<close>

definition frontend_tags :: "json \<Rightarrow> json" where
  "frontend_tags data =
     (case json_get data ''result'' of
        None \<Rightarrow> JArr []
      | Some r \<Rightarrow> if \<not> js_truthy r then JArr [] else js_or (json_get r ''tags'') (JArr []))"

datatype tags_view = NoTagsMessage | TagRows "(json \<times> real) list"

text \<open>Lines 91-148, for a truthy \<^verbatim>\<open>json.data\<close>: the message when
  \<^verbatim>\<open>tags.length === 0\<close>, the rows otherwise.\<close>

definition renderResponse_tags :: "json \<Rightarrow> failure + tags_view" where
  "renderResponse_tags data =
     (let tags = frontend_tags data
      in sbind (js_length (Some tags)) (\<lambda>n.
           if n = Some 0 then Inr NoTagsMessage
           else sbind (js_each tags) (\<lambda>ts. sbind (map_all tag_row ts) (\<lambda>rows. Inr (TagRows rows)))))"

section \<open>The sections of \<^verbatim>\<open>renderAdvancedSceneContext\<close>\<close>

record scene_panel =
  sp_description :: "json option"
  sp_items :: "(string \<times> json option) list"

text \<open>The scene section (lines 167-196), shown when
  \<^verbatim>\<open>context.scene_analysis\<close> is truthy.\<close>

definition scene_items :: "(string \<times> string) list" where
  "scene_items = [(''Tipo'', ''type''), (''Ambiente'', ''setting''), (''Mood'', ''mood''),
                  (''Tema Principal'', ''dominant_theme'')]"

definition render_scene :: "json \<Rightarrow> scene_panel option" where
  "render_scene ctx =
     (let s = json_get ctx ''scene_analysis''
      in if truthy s
         then Some \<lparr>sp_description = json_get (the s) ''description'',
                    sp_items = map (\<lambda>(l, k). (l, json_get (the s) k)) scene_items\<rparr>
         else None)"

text \<open>The high-confidence objects (lines 201-247): name, confidence and level
  of the first five.\<close>

definition object_row :: "json \<Rightarrow> failure + json option \<times> json option \<times> json option" where
  "object_row obj =
     sbind (js_prop (Some obj) ''name'') (\<lambda>nm.
       Inr (nm, json_get obj ''confidence'', json_get obj ''level''))"

definition render_objects :: "json \<Rightarrow> failure + (json option \<times> json option \<times> json option) list option" where
  "render_objects ctx =
     (let od = json_get ctx ''objects_detected''
      in if \<not> truthy od then Inr None
         else (let hc = json_get (the od) ''high_confidence''
               in sbind (js_length hc) (\<lambda>n.
                    if \<not> (case n of Some k \<Rightarrow> 0 < k | None \<Rightarrow> False) then Inr None
                    else sbind (js_slice_each 5 (the hc)) (\<lambda>os.
                           sbind (map_all object_row os) (\<lambda>rows. Inr (Some rows))))))"

record color_row =
  crow_hex :: "json option"
  crow_rgb :: "json option \<times> json option \<times> json option"
  crow_name :: "json option"
  crow_percentage :: "json option"
  crow_brightness :: "json option"

record color_panel =
  cp_rows :: "color_row list"
  cp_harmony :: "json option"
  cp_avg_brightness :: "json option"
  cp_vibrancy :: "json option"
  cp_complexity :: "json option"

text \<open>One dominant colour (lines 263-289): \<^verbatim>\<open>color.hex\<close> is read first
  (line 271), then \<^verbatim>\<open>RGB(${color.rgb.r}, ...)\<close>, which throws when
  \<^verbatim>\<open>rgb\<close> is \<^verbatim>\<open>null\<close>.\<close>

definition render_color_row :: "json \<Rightarrow> failure + color_row" where
  "render_color_row c =
     sbind (js_prop (Some c) ''hex'') (\<lambda>hx.
       sbind (js_prop (json_get c ''rgb'') ''r'') (\<lambda>r.
         sbind (js_prop (json_get c ''rgb'') ''g'') (\<lambda>g.
           sbind (js_prop (json_get c ''rgb'') ''b'') (\<lambda>b.
             Inr \<lparr>crow_hex = hx, crow_rgb = (r, g, b), crow_name = json_get c ''name'',
                  crow_percentage = json_get c ''percentage'', crow_brightness = json_get c ''brightness''\<rparr>))))"

text \<open>The colour section (lines 249-320), shown when
  \<^verbatim>\<open>context.color_analysis\<close> is truthy and its \<^verbatim>\<open>dominant\<close> list is not
  empty; its metrics read \<^verbatim>\<open>context.composition_metrics\<close>.\<close>

definition render_colors_section :: "json \<Rightarrow> failure + color_panel option" where
  "render_colors_section ctx =
     (let ca = json_get ctx ''color_analysis''
      in if \<not> truthy ca then Inr None
         else (let dom = json_get (the ca) ''dominant''
               in sbind (js_length dom) (\<lambda>n.
                    if \<not> (case n of Some k \<Rightarrow> 0 < k | None \<Rightarrow> False) then Inr None
                    else sbind (js_each (the dom)) (\<lambda>cs.
                           sbind (map_all render_color_row cs) (\<lambda>rows.
                             sbind (js_prop (json_get ctx ''composition_metrics'') ''vibrancy'') (\<lambda>vib.
                               sbind (js_prop (json_get ctx ''composition_metrics'') ''complexity'') (\<lambda>cx.
                                 Inr (Some \<lparr>cp_rows = rows, cp_harmony = json_get (the ca) ''color_harmony'',
                                           cp_avg_brightness = json_get (the ca) ''avg_brightness'',
                                           cp_vibrancy = vib, cp_complexity = cx\<rparr>))))))))"

text \<open>The categories in the order the page shows them (lines 332-338), which
  is not the order \<^verbatim>\<open>categorizeTags\<close> tests them in.\<close>

definition category_display :: "(string \<times> string) list" where
  "category_display = [(''entities'', ''Entidades''), (''environment'', ''Ambiente''),
                       (''attributes'', ''Atributos''), (''actions'', ''Acciones''),
                       (''concepts'', ''Conceptos'')]"

definition tag_badge :: "json \<Rightarrow> failure + json option \<times> json option" where
  "tag_badge t = sbind (js_prop (Some t) ''tag'') (\<lambda>tg. Inr (tg, json_get t ''confidence''))"

text \<open>One category (lines 340-372): skipped when its list is empty, otherwise
  the first five badges \<^verbatim>\<open>${tag.tag} (${tag.confidence}%)\<close>.\<close>

definition render_category :: "json \<Rightarrow> string \<times> string \<Rightarrow>
     failure + (string \<times> (json option \<times> json option) list) option" where
  "render_category tbc cat =
     (let tags = js_or (json_get tbc (fst cat)) (JArr [])
      in sbind (js_length (Some tags)) (\<lambda>n.
           if n = Some 0 then Inr None
           else sbind (js_slice_each 5 tags) (\<lambda>ts.
                  sbind (map_all tag_badge ts) (\<lambda>bs. Inr (Some (snd cat, bs))))))"

definition render_categories :: "json \<Rightarrow> failure + (string \<times> (json option \<times> json option) list) list option" where
  "render_categories ctx =
     (let tbc = json_get ctx ''tags_by_category''
      in if \<not> truthy tbc then Inr None
         else sbind (map_all (render_category (the tbc)) category_display) (\<lambda>cs.
                Inr (Some (map the (filter (\<lambda>c. c \<noteq> None) cs)))))"

text \<open>The composition metrics (lines 378-412): each diversity with the width
  of its bar, \<^verbatim>\<open>(m.value / m.max) * 100\<close> with \<^verbatim>\<open>max\<close> 10.\<close>

definition metric_items :: "(string \<times> string) list" where
  "metric_items = [(''Diversidad de Objetos'', ''object_diversity''),
                   (''Diversidad de Colores'', ''color_diversity''),
                   (''Diversidad de Tags'', ''tag_diversity'')]"

definition render_metrics :: "json \<Rightarrow> (string \<times> json option \<times> real option) list option" where
  "render_metrics ctx =
     (let cm = json_get ctx ''composition_metrics''
      in if \<not> truthy cm then None
         else Some (map (\<lambda>(l, k). (l, json_get (the cm) k,
                                    map_option (\<lambda>v. v / 10 * 100) (js_to_number (json_get (the cm) k))))
                        metric_items))"

text \<open>\<^verbatim>\<open>parseFloat(context.overall_confidence).toFixed(1)\<close> (line 431),
  \<^const>\<open>None\<close> for \<^verbatim>\<open>NaN\<close>; only a number is parsed (a string or an array
  is read as \<^verbatim>\<open>NaN\<close>).\<close>

definition render_confidence :: "json \<Rightarrow> real option" where
  "render_confidence ctx =
     (case json_get ctx ''overall_confidence'' of Some (JNum v) \<Rightarrow> Some (to_fixed1 v) | _ \<Rightarrow> None)"

record advanced_view =
  av_scene :: "scene_panel option"
  av_objects :: "(json option \<times> json option \<times> json option) list option"
  av_colors :: "color_panel option"
  av_categories :: "(string \<times> (json option \<times> json option) list) list option"
  av_metrics :: "(string \<times> json option \<times> real option) list option"
  av_confidence :: "real option"

text \<open>\<^verbatim>\<open>renderAdvancedSceneContext(context)\<close>: the sections in the order the
  code builds them; the first exception aborts the rest.\<close>

definition renderAdvancedSceneContext :: "json \<Rightarrow> failure + advanced_view" where
  "renderAdvancedSceneContext ctx =
     sbind (render_objects ctx) (\<lambda>objs.
       sbind (render_colors_section ctx) (\<lambda>cols.
         sbind (render_categories ctx) (\<lambda>cats.
           Inr \<lparr>av_scene = render_scene ctx, av_objects = objs, av_colors = cols,
                av_categories = cats, av_metrics = render_metrics ctx,
                av_confidence = render_confidence ctx\<rparr>)))"

section \<open>The whole response\<close>

datatype response_view = RawJson | Analysis "advanced_view option" tags_view

text \<open>\<^verbatim>\<open>renderResponse(json)\<close> (lines 82-149): the raw JSON when
  \<^verbatim>\<open>json.data\<close> is falsy; otherwise the context, when present, and then the
  tag list.\<close>

definition renderResponse :: "json \<Rightarrow> failure + response_view" where
  "renderResponse j =
     (let data = json_get j ''data''
      in if \<not> js_truthy j \<or> \<not> truthy data then Inr RawJson
         else sbind (let c = json_get j ''context''
                     in if truthy c then sbind (renderAdvancedSceneContext (the c)) (\<lambda>v. Inr (Some v))
                        else Inr None) (\<lambda>av.
                sbind (renderResponse_tags (the data)) (\<lambda>tv. Inr (Analysis av tv))))"

section \<open>The older scene view\<close>

text \<open>\<^verbatim>\<open>renderSceneContext(context)\<close> (lines 437-526), which no code of
  \<^verbatim>\<open>app.js\<close> calls: the description with its default, the average
  confidence \<^verbatim>\<open>(context.confidence_score * 100).toFixed(1)\<close> when that
  field is truthy, and the rows of \<^verbatim>\<open>main_objects\<close> and
  \<^verbatim>\<open>dominant_colors\<close>. \<^verbatim>\<open>parseFloat(obj.confidence)\<close> is read on
  numbers only, as \<^const>\<open>js_to_number\<close> does; any other value is NaN here.\<close>

record legacy_view =
  lv_description :: json
  lv_confidence :: "real option option"
  lv_objects :: "(json option \<times> real option) list option"
  lv_colors :: "(json \<times> real option) list option"

definition legacy_object_row :: "json \<Rightarrow> failure + json option \<times> real option" where
  "legacy_object_row obj =
     sbind (js_prop (Some obj) ''name'') (\<lambda>nm.
       Inr (nm, (case json_get obj ''confidence'' of Some (JNum v) \<Rightarrow> Some (to_fixed1 v) | _ \<Rightarrow> None)))"

definition legacy_color_row :: "json \<Rightarrow> failure + json \<times> real option" where
  "legacy_color_row c =
     sbind (js_prop (Some c) ''percentage'') (\<lambda>pc.
       let hx = js_or (json_get c ''hex'') (JStr ''N/A'')
       in if \<not> truthy pc then Inr (hx, Some 0)
          else (case pc of Some (JNum v) \<Rightarrow> Inr (hx, Some (to_fixed1 v))
                | _ \<Rightarrow> Inl (Thrown ''toFixed is not a function'')))"

definition legacy_rows :: "(json \<Rightarrow> failure + 'a) \<Rightarrow> json option \<Rightarrow> failure + 'a list option" where
  "legacy_rows row xs =
     (if \<not> truthy xs then Inr None
      else sbind (js_length xs) (\<lambda>n.
             if \<not> (case n of Some k \<Rightarrow> 0 < k | None \<Rightarrow> False) then Inr None
             else sbind (js_each (the xs)) (\<lambda>ys. sbind (map_all row ys) (\<lambda>rs. Inr (Some rs)))))"

definition renderSceneContext :: "json \<Rightarrow> failure + legacy_view" where
  "renderSceneContext ctx =
     (let cs = json_get ctx ''confidence_score''
      in sbind (legacy_rows legacy_object_row (json_get ctx ''main_objects'')) (\<lambda>objs.
           sbind (legacy_rows legacy_color_row (json_get ctx ''dominant_colors'')) (\<lambda>cols.
             Inr \<lparr>lv_description = js_or (json_get ctx ''scene_description'') (JStr ''Escena detectada en la imagen''),
                  lv_confidence = (if truthy cs then Some (map_option (\<lambda>v. to_fixed1 (v * 100)) (js_to_number cs))
                                   else None),
                  lv_objects = objs, lv_colors = cols\<rparr>)))"

section \<open>Reference: the categories as the page shows them\<close>

text \<open>The key of each category in the object \<^verbatim>\<open>categorizeTags\<close> builds
  (lines 261-267), and the page's display order with its labels.\<close>

fun category_key :: "category \<Rightarrow> string" where
  "category_key Entities = ''entities''"
| "category_key Attributes = ''attributes''"
| "category_key Environment = ''environment''"
| "category_key Actions = ''actions''"
| "category_key Concepts = ''concepts''"

definition shown_categories :: "(category \<times> string) list" where
  "shown_categories = [(Entities, ''Entidades''), (Environment, ''Ambiente''), (Attributes, ''Atributos''),
                       (Actions, ''Acciones''), (Concepts, ''Conceptos'')]"

section \<open>Lemmas on conforming contexts\<close>

lemma js_prop_obj [simp]: "js_prop (Some (JObj kvs)) k = Inr (map_of kvs k)"
  by (simp add: js_prop_def)

lemma truthy_simps [simp]: "truthy None = False" "truthy (Some j) = js_truthy j"
  by (simp_all add: truthy_def)

lemma js_slice_each_arr [simp]: "js_slice_each n (JArr xs) = Inr (take n xs)"
  by (simp add: js_slice_each_def)

lemma js_each_arr [simp]: "js_each (JArr xs) = Inr xs"
  by (simp add: js_each_def)

lemma js_length_arr [simp]: "js_length (Some (JArr xs)) = Inr (Some (length xs))"
  by (simp add: js_length_def)

lemma schema_array_field:
  assumes "conforms (SObj fs) j" "map_of fs k = Some (True, SArr s)"
  shows "\<exists>kvs xs. j = JObj kvs \<and> json_get j k = Some (JArr xs) \<and> (\<forall>x\<in>set xs. conforms s x)"
  using conforms_required [OF assms] conforms_SObj [OF assms(1)] by (blast dest: conforms_SArr)

lemma item_schema_obj: "conforms (item_schema k) x \<Longrightarrow> \<exists>kvs. x = JObj kvs"
  by (cases x) (auto simp: item_schema_def)

lemma render_objects_conforming:
  assumes "conforms context_schema c"
  shows "\<not> isl (render_objects c)"
proof -
  obtain od where od: "json_get c ''objects_detected'' = Some od" "conforms objects_schema od"
    using context_schema_parts(1) [OF assms] by blast
  obtain kvs xs where hc: "od = JObj kvs" "json_get od ''high_confidence'' = Some (JArr xs)"
      "\<forall>x\<in>set xs. conforms (item_schema ''name'') x"
    using schema_array_field [OF od(2) [unfolded objects_schema_def], where k = "''high_confidence''"]
    by auto
  have "\<forall>x\<in>set (take 5 xs). \<not> isl (object_row x)"
    using hc(3) by (fastforce simp: object_row_def dest!: in_set_takeD item_schema_obj)
  then have "\<not> isl (map_all object_row (take 5 xs))" by (simp add: map_all_isl)
  then show ?thesis
    using od hc by (auto simp: render_objects_def sbind_def split: sum.splits)
qed

lemma render_category_conforming:
  assumes "conforms categories_schema tbc" "cat \<in> set category_display"
  shows "\<not> isl (render_category tbc cat)"
proof -
  have "map_of (map (\<lambda>k. (k, True, SArr (item_schema ''tag'')))
          [''entities'', ''attributes'', ''environment'', ''actions'', ''concepts'']) (fst cat)
        = Some (True, SArr (item_schema ''tag''))"
    using assms(2) by (auto simp: category_display_def)
  then obtain kvs xs where a: "tbc = JObj kvs" "json_get tbc (fst cat) = Some (JArr xs)"
      "\<forall>x\<in>set xs. conforms (item_schema ''tag'') x"
    using schema_array_field [OF assms(1) [unfolded categories_schema_def]] by blast
  have "\<forall>x\<in>set (take 5 xs). \<not> isl (tag_badge x)"
    using a(3) by (fastforce simp: tag_badge_def dest!: in_set_takeD item_schema_obj)
  then have "\<not> isl (map_all tag_badge (take 5 xs))" by (simp add: map_all_isl)
  then show ?thesis
    using a by (auto simp: render_category_def js_or_def sbind_def split: sum.splits)
qed

lemma render_categories_conforming:
  assumes "conforms context_schema c"
  shows "\<not> isl (render_categories c)"
proof -
  obtain tbc where t: "json_get c ''tags_by_category'' = Some tbc" "conforms categories_schema tbc"
    using context_schema_parts(3) [OF assms] by blast
  then have "\<not> isl (map_all (render_category tbc) category_display)"
    by (simp add: map_all_isl render_category_conforming)
  moreover have "js_truthy tbc" using conforms_SObj [OF t(2) [unfolded categories_schema_def]] by auto
  ultimately show ?thesis
    using t by (auto simp: render_categories_def sbind_def split: sum.splits)
qed

lemma schema_truthy: "conforms (SObj fs) j \<Longrightarrow> js_truthy j"
  by (cases j) auto

lemma rgb_schema_cases: "conforms rgb_schema v \<Longrightarrow> v = JNull \<or> (\<exists>kvs. v = JObj kvs)"
  by (cases v) (auto simp: rgb_schema_def)

lemma render_color_row_conforming:
  assumes "conforms dominant_schema d"
  shows "isl (render_color_row d) \<longleftrightarrow> json_get d ''rgb'' = Some JNull"
proof -
  obtain kvs where d: "d = JObj kvs" using conforms_SObj [OF assms [unfolded dominant_schema_def]] by blast
  obtain v where v: "json_get d ''rgb'' = Some v" "conforms rgb_schema v"
    using conforms_required [OF assms [unfolded dominant_schema_def], where k = "''rgb''"] by auto
  from rgb_schema_cases [OF v(2)] show ?thesis
    using d v(1) by (auto simp: render_color_row_def js_prop_def read_error_def)
qed

lemma render_colors_section_conforming:
  assumes "conforms context_schema c"
  shows "isl (render_colors_section c) \<longleftrightarrow>
           (\<exists>ds. json_path c [''color_analysis'', ''dominant''] = Some (JArr ds) \<and>
                 (\<exists>d\<in>set ds. json_get d ''rgb'' = Some JNull))"
proof -
  obtain ca where ca: "json_get c ''color_analysis'' = Some ca" "conforms color_analysis_schema ca"
    using context_schema_parts(2) [OF assms] by blast
  obtain kvs ds where dom: "ca = JObj kvs" "json_get ca ''dominant'' = Some (JArr ds)"
      "\<forall>d\<in>set ds. conforms dominant_schema d"
    using schema_array_field [OF ca(2) [unfolded color_analysis_schema_def], where k = "''dominant''"] by auto
  obtain cm where cm: "json_get c ''composition_metrics'' = Some cm" "conforms metrics_schema cm"
    using context_schema_parts(4) [OF assms] by blast
  obtain mkvs where mk: "cm = JObj mkvs" using conforms_SObj [OF cm(2) [unfolded metrics_schema_def]] by blast
  have rows: "isl (map_all render_color_row ds) \<longleftrightarrow> (\<exists>d\<in>set ds. json_get d ''rgb'' = Some JNull)"
    using dom(3) by (auto simp: map_all_isl render_color_row_conforming)
  show ?thesis
    using ca dom cm mk rows by (auto simp: render_colors_section_def Let_def sbind_def split: sum.splits)
qed

lemma renderAdvancedSceneContext_conforming:
  assumes "conforms context_schema c"
  shows "isl (renderAdvancedSceneContext c) \<longleftrightarrow>
           (\<exists>ds. json_path c [''color_analysis'', ''dominant''] = Some (JArr ds) \<and>
                 (\<exists>d\<in>set ds. json_get d ''rgb'' = Some JNull))"
  using render_objects_conforming [OF assms] render_categories_conforming [OF assms]
        render_colors_section_conforming [OF assms]
  by (auto simp: renderAdvancedSceneContext_def sbind_def split: sum.splits)

lemma generateSceneContext_dominant:
  "ca_dominant (sc_color_analysis (generateSceneContext a)) =
     map toDominantColor (take 5 (cs_dominant (analyzeColorsAdvanced (section_or_empty (ad_colors a)))))"
  by (simp add: generateSceneContext_def Let_def)

lemma analyzeColorsAdvanced_dominant_rgb:
  "map de_rgb (cs_dominant (analyzeColorsAdvanced cs)) = map (\<lambda>c. hexToRgb (cr_hex c)) (take 5 (sortByPercentage cs))"
  by (simp add: analyzeColorsAdvanced_def Let_def sortByPercentage_def)

lemma generateSceneContext_dominant_rgb:
  "map dc_rgb (ca_dominant (sc_color_analysis (generateSceneContext a))) =
     map (\<lambda>c. hexToRgb (cr_hex c)) (take 5 (sortByPercentage (section_or_empty (ad_colors a))))"
proof -
  have "map dc_rgb (ca_dominant (sc_color_analysis (generateSceneContext a))) =
        take 5 (map de_rgb (cs_dominant (analyzeColorsAdvanced (section_or_empty (ad_colors a)))))"
    by (simp add: generateSceneContext_dominant toDominantColor_def take_map comp_def)
  also have "\<dots> = map (\<lambda>c. hexToRgb (cr_hex c)) (take 5 (sortByPercentage (section_or_empty (ad_colors a))))"
    by (simp only: analyzeColorsAdvanced_dominant_rgb take_map take_take) simp
  finally show ?thesis .
qed

lemma rgb_json_null_iff [simp]: "rgb_json v = JNull \<longleftrightarrow> v = None"
  by (cases v) (simp_all add: rgb_json_def)

lemma dominant_color_json_rgb [simp]: "json_get (dominant_color_json d) ''rgb'' = Some (rgb_json (dc_rgb d))"
  by (simp add: dominant_color_json_def split: option.splits)

lemma context_json_dominant:
  "json_path (context_json c) [''color_analysis'', ''dominant''] =
     Some (JArr (map dominant_color_json (ca_dominant (sc_color_analysis c))))"
  by (simp add: context_json_def color_analysis_json_def)

text \<open>C23: for every analysis,
  \<^verbatim>\<open>renderAdvancedSceneContext\<close> throws exactly when one of the (at most
  five) dominant colours has a hex code \<^verbatim>\<open>hexToRgb\<close> cannot parse: the
  server keeps such a colour with \<^verbatim>\<open>rgb: null\<close> and the page reads
  \<^verbatim>\<open>color.rgb.r\<close>; every other section of the page is total on what the
  server sends.\<close>

lemma malformed_color_breaks_browser:
  "isl (renderAdvancedSceneContext (context_json (generateSceneContext a))) \<longleftrightarrow>
     (\<exists>c\<in>set (take 5 (sortByPercentage (section_or_empty (ad_colors a)))). hexToRgb (cr_hex c) = None)"
proof -
  let ?ds = "ca_dominant (sc_color_analysis (generateSceneContext a))"
  have "isl (renderAdvancedSceneContext (context_json (generateSceneContext a))) \<longleftrightarrow>
        (\<exists>ds. json_path (context_json (generateSceneContext a)) [''color_analysis'', ''dominant''] = Some (JArr ds) \<and>
              (\<exists>d\<in>set ds. json_get d ''rgb'' = Some JNull))"
    by (rule renderAdvancedSceneContext_conforming [OF generateSceneContext_conforms])
  also have "\<dots> \<longleftrightarrow> (\<exists>d\<in>set ?ds. dc_rgb d = None)"
    unfolding context_json_dominant by auto
  also have "\<dots> \<longleftrightarrow> None \<in> set (map dc_rgb ?ds)"
    by force
  also have "\<dots> \<longleftrightarrow> (\<exists>c\<in>set (take 5 (sortByPercentage (section_or_empty (ad_colors a)))). hexToRgb (cr_hex c) = None)"
    unfolding generateSceneContext_dominant_rgb by force
  finally show ?thesis .
qed

lemma to_fixed1_between:
  assumes "0 \<le> x" "x \<le> real_of_int k"
  shows "0 \<le> to_fixed1 x \<and> to_fixed1 x \<le> real_of_int k"
proof -
  have lo: "0 \<le> \<lfloor>x * 10 + 1 / 2\<rfloor>" using assms(1) by simp
  have "x * 10 + 1 / 2 < real_of_int (k * 10 + 1)" using assms(2) by simp
  then have "\<lfloor>x * 10 + 1 / 2\<rfloor> \<le> k * 10" by linarith
  then have "real_of_int \<lfloor>x * 10 + 1 / 2\<rfloor> \<le> real_of_int k * 10" by linarith
  with lo assms(1) show ?thesis by (simp add: to_fixed1_def)
qed

lemma render_metrics_conforming:
  assumes "conforms context_schema c"
  shows "\<exists>ms. render_metrics c = Some ms \<and> list_all (\<lambda>m. \<exists>x. snd (snd m) = Some x \<and> 0 \<le> x \<and> x \<le> 100) ms"
proof -
  obtain cm where cm: "json_get c ''composition_metrics'' = Some cm" "conforms metrics_schema cm"
    using context_schema_parts(4) [OF assms] by blast
  have field: "\<exists>v. json_get cm k = Some (JNum v) \<and> 0 \<le> v \<and> v \<le> 10"
    if "k \<in> {''object_diversity'', ''color_diversity'', ''tag_diversity''}" for k
  proof -
    have "map_of [(''object_diversity'', True, SNum 0 10), (''color_diversity'', True, SNum 0 10),
           (''tag_diversity'', True, SNum 0 10), (''complexity'', True, SEnum rating_texts),
           (''vibrancy'', True, SEnum rating_texts)] k = Some (True, SNum 0 10)"
      using that by auto
    from conforms_required [OF cm(2) [unfolded metrics_schema_def] this]
    obtain v where "json_get cm k = Some v" "conforms (SNum 0 10) v" by blast
    then show ?thesis by (cases v) auto
  qed
  have t: "js_truthy cm" by (rule schema_truthy [OF cm(2) [unfolded metrics_schema_def]])
  show ?thesis
    using cm(1) t field [of "''object_diversity''"] field [of "''color_diversity''"] field [of "''tag_diversity''"]
    by (auto simp: render_metrics_def metric_items_def js_to_number_def)
qed

lemma render_confidence_conforming:
  assumes "conforms context_schema c"
  shows "\<exists>x. render_confidence c = Some x \<and> 0 \<le> x \<and> x \<le> 100"
proof -
  obtain v where "json_get c ''overall_confidence'' = Some v" "conforms (SNum 0 100) v"
    using conforms_required [OF assms [unfolded context_schema_def], where k = "''overall_confidence''"] by auto
  then show ?thesis
    using to_fixed1_between [of _ 100] by (cases v) (auto simp: render_confidence_def)
qed

lemma renderResponse_tags_no_result:
  "json_get a ''result'' = None \<Longrightarrow> renderResponse_tags a = Inr NoTagsMessage"
  by (simp add: renderResponse_tags_def frontend_tags_def)

lemma api_analyze_no_tag_rows:
  assumes "status (fst (api_analyze e u req)) = 200"
  shows "renderResponse (body (fst (api_analyze e u req))) \<noteq> Inr (Analysis av (TagRows rows))"
proof -
  obtain src a where b: "body (fst (api_analyze e u req)) =
           JObj [(''source'', JStr src), (''data'', a),
                 (''context'', context_json (generateSceneContext (analysis_of_json a)))]"
      and a: "json_get a ''result'' = None" "js_truthy a"
    using api_analyze_200 [OF assms] by blast
  show ?thesis
    using a by (simp add: b renderResponse_def renderResponse_tags_no_result context_json_def sbind_def
                     split: sum.splits)
qed


text \<open>C10: for every successful answer of
  \<^verbatim>\<open>/api/analyze\<close>, the page never shows a tag row: it reads
  \<^verbatim>\<open>data.result.tags\<close>, but the server's \<^verbatim>\<open>data\<close> is
  \<^verbatim>\<open>{tags, colors, objects}\<close>, which has no \<^verbatim>\<open>result\<close>, so
  \<^verbatim>\<open>renderResponse\<close> either throws in the context or shows the "no tags"
  message.\<close>

lemma browser_never_lists_tags:
  assumes "status (fst (api_analyze e u req)) = 200"
  shows "renderResponse (body (fst (api_analyze e u req))) \<noteq> Inr (Analysis av (TagRows rows))"
  using assms by (rule api_analyze_no_tag_rows)

lemma browser_never_lists_tags_witness:
  "status (fst (api_analyze \<lparr>env_key = Some ''k'', env_secret = Some ''s''\<rparr>
     \<lparr>up_tags = (\<lambda>_. Inr (JObj [(''result'', JObj [(''tags'', JArr [JObj [(''confidence'', JNum 90),
                   (''tag'', JObj [(''en'', JStr ''dog'')])]])])])),
      up_colors = (\<lambda>_. Inl (Network ''timeout'')), up_objects = (\<lambda>_. Inl (Network ''timeout'')),
      up_upload = Inl (Network ''-''), up_faces = Inl (Network ''-''),
      up_index_put = Inl (Network ''-''), up_recognition = Inl (Network ''-'')\<rparr>
     \<lparr>req_image_url = Some ''http://x/y.jpg'', req_file = False\<rparr>)) = 200 \<and>
   renderResponse (body (fst (api_analyze \<lparr>env_key = Some ''k'', env_secret = Some ''s''\<rparr>
     \<lparr>up_tags = (\<lambda>_. Inr (JObj [(''result'', JObj [(''tags'', JArr [JObj [(''confidence'', JNum 90),
                   (''tag'', JObj [(''en'', JStr ''dog'')])]])])])),
      up_colors = (\<lambda>_. Inl (Network ''timeout'')), up_objects = (\<lambda>_. Inl (Network ''timeout'')),
      up_upload = Inl (Network ''-''), up_faces = Inl (Network ''-''),
      up_index_put = Inl (Network ''-''), up_recognition = Inl (Network ''-'')\<rparr>
     \<lparr>req_image_url = Some ''http://x/y.jpg'', req_file = False\<rparr>)))
     \<noteq> Inr (Analysis None (TagRows []))"
  (is "?ok \<and> ?show")
proof
  show ?ok
    by (simp add: api_analyze_def getAuthHeader_def js_falsy_str_def analyzeImageFull_def analyze_ok_def)
  then show ?show by (rule browser_never_lists_tags)
qed

lemma json_get_categorized [simp]:
  "json_get (categorized_json c) (category_key k) = Some (JArr (map (conf_item_json ''tag'') (cat_list c k)))"
  by (cases k) (simp_all add: categorized_json_def)

lemma tag_badge_item [simp]:
  "tag_badge (conf_item_json ''tag'' ci) = Inr (Some (JStr (ci_name ci)), Some (JNum (ci_confidence ci)))"
  by (simp add: tag_badge_def conf_item_json_def)

lemma render_category_json:
  "render_category (categorized_json c) (category_key k, l) =
     Inr (if cat_list c k = [] then None
          else Some (l, map (\<lambda>ci. (Some (JStr (ci_name ci)), Some (JNum (ci_confidence ci)))) (take 5 (cat_list c k))))"
  by (simp add: render_category_def js_or_def take_map map_all_map_comp)

lemma category_display_keys: "category_display = map (\<lambda>(k, l). (category_key k, l)) shown_categories"
  by (simp add: category_display_def shown_categories_def)


lemma map_the_filter_opt:
  "map the (filter (\<lambda>c. c \<noteq> None) (map (\<lambda>(k, l). if P k then None else Some (f k l)) xs)) =
     [f k l. (k, l) \<leftarrow> xs, \<not> P k]"
  by (induction xs) (auto split: if_splits)

text \<open>C22: for every analysis, the category
  section of the page lists, in the page's order (entities, environment,
  attributes, actions, concepts) and skipping empty ones, the first five items
  of each category of the full categorisation of the first 20 tags, with their
  names and confidences: the server's cap of 8 never hides an item the page
  would show (spec 4.4: truncation is a presentation concern).\<close>

lemma browser_categories:
  "render_categories (context_json (generateSceneContext a)) =
     Inr (Some [(l, map (\<lambda>ci. (Some (JStr (ci_name ci)), Some (JNum (ci_confidence ci))))
                       (take 5 (cat_list (categorizeTags (take 20 (section_or_empty (ad_tags a)))) k))).
                (k, l) \<leftarrow> shown_categories,
                cat_list (categorizeTags (take 20 (section_or_empty (ad_tags a)))) k \<noteq> []])"
proof -
  let ?C = "categorizeTags (take 20 (section_or_empty (ad_tags a)))"
  let ?c = "truncate_categories 8 ?C"
  let ?b = "\<lambda>ci. (Some (JStr (ci_name ci)), Some (JNum (ci_confidence ci)))"
  have ctx: "json_get (context_json (generateSceneContext a)) ''tags_by_category'' = Some (categorized_json ?c)"
    by (simp add: context_json_def generateSceneContext_def Let_def)
  have "map_all (render_category (categorized_json ?c)) category_display =
        Inr (map (\<lambda>(k, l). if cat_list ?c k = [] then None else Some (l, map ?b (take 5 (cat_list ?c k))))
                 shown_categories)"
    unfolding category_display_keys
    by (rule map_all_map_comp) (auto simp: render_category_json)
  also have "\<dots> = Inr (map (\<lambda>(k, l). if cat_list ?C k = [] then None else Some (l, map ?b (take 5 (cat_list ?C k))))
                          shown_categories)"
    by (intro arg_cong [where f = Inr] map_cong refl) (auto simp: cat_list_truncate min_def)
  finally have m: "map_all (render_category (categorized_json ?c)) category_display = \<dots>" .
  have t: "js_truthy (categorized_json ?c)" by (simp add: categorized_json_def)
  show ?thesis
    using ctx t m by (simp only: render_categories_def Let_def truthy_simps option.sel sbind_simps if_True if_False not_True_eq_False
                                 map_the_filter_opt simp_thms)
qed

lemma malformed_color_breaks_browser_witness:
  "isl (renderAdvancedSceneContext (context_json (generateSceneContext
      \<lparr>ad_tags = Some [], ad_colors = Some [\<lparr>cr_hex = Some ''#12345'', cr_percentage = Some 60\<rparr>], ad_objects = None\<rparr>)))"
  using malformed_color_breaks_browser [of "\<lparr>ad_tags = Some [],
          ad_colors = Some [\<lparr>cr_hex = Some ''#12345'', cr_percentage = Some 60\<rparr>], ad_objects = None\<rparr>"]
  by (simp add: section_or_empty_def sortByPercentage_def hexToRgb_def strip_hash_def)

text \<open>C27: for every analysis, each
  diversity bar of the page has a width in [0, 100] percent and the overall
  confidence the page prints lies in [0, 100].\<close>

lemma browser_display_bounds:
  "(\<exists>ms. render_metrics (context_json (generateSceneContext a)) = Some ms \<and>
         list_all (\<lambda>m. \<exists>x. snd (snd m) = Some x \<and> 0 \<le> x \<and> x \<le> 100) ms) \<and>
   (\<exists>x. render_confidence (context_json (generateSceneContext a)) = Some x \<and> 0 \<le> x \<and> x \<le> 100)"
  using render_metrics_conforming [OF generateSceneContext_conforms]
        render_confidence_conforming [OF generateSceneContext_conforms] by blast


lemma conforms_undeclared:
  "conforms (SObj fs) j \<Longrightarrow> k \<notin> set (map fst fs) \<Longrightarrow> json_get j k = None"
  by (cases j) (auto simp: map_of_eq_None_iff)

lemma renderSceneContext_conforming:
  assumes "conforms context_schema c"
  shows "renderSceneContext c =
           Inr \<lparr>lv_description = JStr ''Escena detectada en la imagen'', lv_confidence = None,
                lv_objects = None, lv_colors = None\<rparr>"
proof -
  have "json_get c k = None"
    if "k \<in> {''scene_description'', ''confidence_score'', ''main_objects'', ''dominant_colors''}" for k
    using that by (intro conforms_undeclared [OF assms [unfolded context_schema_def]]) auto
  then show ?thesis
    by (simp add: renderSceneContext_def legacy_rows_def js_or_def)
qed

text \<open>C26: the older view
  \<^verbatim>\<open>renderSceneContext\<close>, given any context the server sends, shows only its
  default description and no confidence, object or colour: it reads
  \<^verbatim>\<open>scene_description\<close>, \<^verbatim>\<open>confidence_score\<close>,
  \<^verbatim>\<open>main_objects\<close> and \<^verbatim>\<open>dominant_colors\<close>, which the context of
  spec section 6 does not have.\<close>

lemma legacy_scene_view_empty:
  "renderSceneContext (context_json (generateSceneContext a)) =
     Inr \<lparr>lv_description = JStr ''Escena detectada en la imagen'', lv_confidence = None,
          lv_objects = None, lv_colors = None\<rparr>"
  by (rule renderSceneContext_conforming [OF generateSceneContext_conforms])

end
