(* ===== verification/Faces.thy ===== *)
theory Faces
  imports Server
begin

text \<open>
  The face endpoints of \<^verbatim>\<open>src/server.js\<close>: \<^verbatim>\<open>POST /api/detect-faces\<close>
  (lines 414-481), \<^verbatim>\<open>PUT /api/create-index\<close> (484-522) and
  \<^verbatim>\<open>GET /api/recognize-face/:indexId\<close> (525-572). Bodies are JSON values;
  an \<^verbatim>\<open>undefined\<close> property is left out of the object, as
  \<^verbatim>\<open>JSON.stringify\<close> does.
\<close>

section \<open>Detection\<close>

definition faces_error :: "nat \<Rightarrow> string \<Rightarrow> json response" where
  "faces_error st msg = \<lparr>status = st, body = JObj [(''error'', JStr msg)]\<rparr>"

definition faces_ok :: "string \<Rightarrow> json \<Rightarrow> json response" where
  "faces_ok src d =
     \<lparr>status = 200,
      body = JObj [(''source'', JStr src), (''faces'', js_or (json_path d [''result'', ''faces'']) (JArr [])),
                   (''raw'', d)]\<rparr>"

definition detection_failed :: "failure \<Rightarrow> json response" where
  "detection_failed err =
     \<lparr>status = 500, body = JObj [(''error'', JStr ''Face detection failed''),
                                 (''message'', JStr (error_message err))]\<rparr>"

definition api_detect_faces :: "env \<Rightarrow> upstream \<Rightarrow> request \<Rightarrow> json response \<times> api_call list" where
  "api_detect_faces e u req =
     (case getAuthHeader e of
        Inl err \<Rightarrow> (detection_failed err, [])
      | Inr headers \<Rightarrow>
          if \<not> js_falsy_str (req_image_url req) then
            (case up_faces u of
               Inl err \<Rightarrow> (faces_error 400 ''No faces detected in URL image'', [FaceDetectionCall])
             | Inr d \<Rightarrow> (faces_ok ''url'' d, [FaceDetectionCall]))
          else if req_file req then
            (case up_upload u of
               Inl err \<Rightarrow> (detection_failed err, [UploadCall])
             | Inr uploadRes \<Rightarrow>
                 if \<not> (case upload_id uploadRes of None \<Rightarrow> False | Some i \<Rightarrow> js_truthy i)
                 then (detection_failed (Thrown ''No upload_id returned from Imagga''), [UploadCall])
                 else
                   (case up_faces u of
                      Inl err \<Rightarrow> (faces_error 400 ''No faces detected in uploaded image'',
                                  [UploadCall, FaceDetectionCall])
                    | Inr d \<Rightarrow> (faces_ok ''upload'' d, [UploadCall, FaceDetectionCall])))
          else
            (faces_error 400 ''Provide image_url or upload an image file (form field: image)'', []))"

section \<open>Recognition index\<close>

definition index_example :: json where
  "index_example =
     JObj [(''indexId'', JStr ''my_celebrities''),
           (''people'', JObj [(''person_name'', JArr [JStr ''face_id_1'', JStr ''face_id_2'']),
                              (''another_person'', JArr [JStr ''face_id_3'', JStr ''face_id_4''])])]"

definition index_failed :: "failure \<Rightarrow> json response" where
  "index_failed err =
     \<lparr>status = 500, body = JObj [(''error'', JStr ''Index creation failed''), (''details'', error_details err)]\<rparr>"

text \<open>\<^verbatim>\<open>const { indexId, people } = req.body\<close>.\<close>

definition api_create_index :: "env \<Rightarrow> upstream \<Rightarrow> string option \<Rightarrow> json option \<Rightarrow> json response \<times> api_call list" where
  "api_create_index e u indexId people =
     (if js_falsy_str indexId \<or> \<not> (case people of None \<Rightarrow> False | Some p \<Rightarrow> js_truthy p) then
        (\<lparr>status = 400, body = JObj [(''error'', JStr ''Missing indexId or people data''),
                                     (''example'', index_example)]\<rparr>, [])
      else
        (case getAuthHeader e of
           Inl err \<Rightarrow> (index_failed err, [])
         | Inr headers \<Rightarrow>
             (case up_index_put u of
                Inl err \<Rightarrow> (index_failed err, [IndexPutCall])
              | Inr d \<Rightarrow>
                  (\<lparr>status = 200,
                    body = JObj ([(''success'', JBool True), (''indexId'', JStr (the indexId))]
                                 @ (case json_get d ''result'' of None \<Rightarrow> [] | Some r \<Rightarrow> [(''result'', r)])
                                 @ [(''message'', JStr (''Index \"'' @ the indexId @ ''\" created/updated successfully''))])\<rparr>,
                   [IndexPutCall]))))"

section \<open>Recognition\<close>

text \<open>\<^verbatim>\<open>p.score > 80 ? 'ALTO' : p.score > 50 ? 'MEDIO' : 'BAJO'\<close>.\<close>

definition face_level :: "real \<Rightarrow> level" where
  "face_level score = (if score > 80 then ALTO else if score > 50 then MEDIO else BAJO)"

text \<open>A person of \<^verbatim>\<open>result.people\<close> as the \<^verbatim>\<open>map\<close> callback reads it:
  \<^verbatim>\<open>p.id\<close>, then \<^verbatim>\<open>(p.score).toFixed(2)\<close>, which throws a
  \<^verbatim>\<open>TypeError\<close> unless the score is a number.\<close>

definition decode_person :: "json \<Rightarrow> failure + (json option \<times> real)" where
  "decode_person p =
     (if p = JNull then Inl (Thrown ''Cannot read properties of null (reading 'id')'')
      else (case json_get p ''score'' of
              None \<Rightarrow> Inl (Thrown ''Cannot read properties of undefined (reading 'toFixed')'')
            | Some JNull \<Rightarrow> Inl (Thrown ''Cannot read properties of null (reading 'toFixed')'')
            | Some (JNum s) \<Rightarrow> Inr (json_get p ''id'', s)
            | Some _ \<Rightarrow> Inl (Thrown ''p.score.toFixed is not a function'')))"

definition opt_field :: "string \<Rightarrow> json option \<Rightarrow> (string \<times> json) list" where
  "opt_field k v = (case v of None \<Rightarrow> [] | Some x \<Rightarrow> [(k, x)])"

definition match_json :: "json option \<times> real \<Rightarrow> json" where
  "match_json p =
     JObj (opt_field ''personId'' (fst p) @
           [(''confidence'', JNum (to_fixed2 (snd p))), (''level'', level_json (face_level (snd p)))])"

definition top_match_json :: "(json option \<times> real) list \<Rightarrow> json" where
  "top_match_json ps =
     (case ps of
        [] \<Rightarrow> JNull
      | p # _ \<Rightarrow> JObj (opt_field ''personId'' (fst p) @
                      [(''confidence'', JNum (to_fixed2 (snd p))), (''isMatch'', JBool (snd p > 80))]))"

definition recognition_failed :: "failure \<Rightarrow> json response" where
  "recognition_failed err =
     \<lparr>status = 500, body = JObj [(''error'', JStr ''Face recognition failed''), (''details'', error_details err)]\<rparr>"

text \<open>Decoding all people stops at the first that throws, as \<^verbatim>\<open>map\<close> does.\<close>

fun decode_people :: "json list \<Rightarrow> failure + (json option \<times> real) list" where
  "decode_people [] = Inr []"
| "decode_people (p # ps) =
     (case decode_person p of
        Inl err \<Rightarrow> Inl err
      | Inr x \<Rightarrow> (case decode_people ps of Inl err \<Rightarrow> Inl err | Inr xs \<Rightarrow> Inr (x # xs)))"

definition api_recognize_face :: "env \<Rightarrow> upstream \<Rightarrow> string \<Rightarrow> string option \<Rightarrow> json response \<times> api_call list" where
  "api_recognize_face e u indexId faceId =
     (if js_falsy_str faceId then
        (\<lparr>status = 400, body = JObj [(''error'', JStr ''Missing faceId parameter''),
            (''usage'', JStr ''/api/recognize-face/my_index?faceId=<face_id_from_detection>'')]\<rparr>, [])
      else
        (case getAuthHeader e of
           Inl err \<Rightarrow> (recognition_failed err, [])
         | Inr headers \<Rightarrow>
             (case up_recognition u of
                Inl err \<Rightarrow> (recognition_failed err, [RecognitionCall])
              | Inr d \<Rightarrow>
                  (case js_or (json_path d [''result'', ''people'']) (JArr []) of
                     JArr people \<Rightarrow>
                       (case decode_people people of
                          Inl err \<Rightarrow> (recognition_failed err, [RecognitionCall])
                        | Inr ps \<Rightarrow>
                            (\<lparr>status = 200,
                              body = JObj [(''success'', JBool True), (''indexId'', JStr indexId),
                                           (''faceId'', JStr (the faceId)), (''matches'', JArr (map match_json ps)),
                                           (''topMatch'', top_match_json ps), (''raw'', d)]\<rparr>,
                             [RecognitionCall]))
                   | _ \<Rightarrow> (recognition_failed (Thrown ''people.map is not a function''), [RecognitionCall])))))"

section \<open>Properties of detection\<close>

text \<open>C35: on the URL path of
  \<^verbatim>\<open>/api/detect-faces\<close>, every failure of the detection call, a 5xx answer or
  a network error included, is reported as the client error 400 "No faces
  detected in URL image".\<close>

lemma detect_faces_hides_server_errors:
  assumes "getAuthHeader e = Inr h" "\<not> js_falsy_str (req_image_url req)" "up_faces u = Inl err"
  shows "api_detect_faces e u req = (faces_error 400 ''No faces detected in URL image'', [FaceDetectionCall])"
  using assms by (simp add: api_detect_faces_def)

lemma detect_faces_hides_server_errors_witness:
  "api_detect_faces \<lparr>env_key = Some ''k'', env_secret = Some ''s''\<rparr>
     \<lparr>up_tags = (\<lambda>_. Inl (Network ''-'')), up_colors = (\<lambda>_. Inl (Network ''-'')),
      up_objects = (\<lambda>_. Inl (Network ''-'')), up_upload = Inl (Network ''-''),
      up_faces = Inl (Upstream 503 JNull ''Request failed with status code 503''),
      up_index_put = Inl (Network ''-''), up_recognition = Inl (Network ''-'')\<rparr>
     \<lparr>req_image_url = Some ''http://x/y.jpg'', req_file = False\<rparr>
   = (faces_error 400 ''No faces detected in URL image'', [FaceDetectionCall])"
  by (rule detect_faces_hides_server_errors [of _ "(''k'', ''s'')"])
     (simp_all add: getAuthHeader_def js_falsy_str_def)

section \<open>Properties of recognition\<close>

lemma match_json_level:
  "json_get (match_json p) ''level'' = Some (level_json (face_level (snd p)))"
  by (simp add: match_json_def opt_field_def split: option.splits)

lemma top_match_json_isMatch:
  "json_get (top_match_json (p # ps)) ''isMatch'' = Some (JBool (snd p > 80))"
  by (simp add: top_match_json_def opt_field_def split: option.splits)

lemma level_json_ALTO_iff: "level_json l = JStr ''ALTO'' \<longleftrightarrow> l = ALTO"
  by (cases l) simp_all

lemma face_level_ALTO_iff: "face_level s = ALTO \<longleftrightarrow> s > 80"
  by (simp add: face_level_def)

text \<open>C39: in every successful answer of
  \<^verbatim>\<open>/api/recognize-face\<close>, \<^verbatim>\<open>topMatch\<close> is \<^verbatim>\<open>null\<close> exactly when
  \<^verbatim>\<open>matches\<close> is empty, and otherwise \<^verbatim>\<open>topMatch.isMatch\<close> is true exactly
  when the first match has level ALTO.\<close>

lemma recognize_top_match_consistent:
  assumes "status (fst (api_recognize_face e u i f)) = 200"
  shows "\<exists>ms tm. json_get (body (fst (api_recognize_face e u i f))) ''matches'' = Some (JArr ms) \<and>
           json_get (body (fst (api_recognize_face e u i f))) ''topMatch'' = Some tm \<and>
           (ms = [] \<longleftrightarrow> tm = JNull) \<and>
           (ms \<noteq> [] \<longrightarrow> (json_get tm ''isMatch'' = Some (JBool True) \<longleftrightarrow>
                         json_get (hd ms) ''level'' = Some (JStr ''ALTO'')))"
proof -
  from assms obtain ps d
    where b: "body (fst (api_recognize_face e u i f)) =
           JObj [(''success'', JBool True), (''indexId'', JStr i), (''faceId'', JStr (the f)),
                 (''matches'', JArr (map match_json ps)), (''topMatch'', top_match_json ps), (''raw'', d)]"
    by (auto simp: api_recognize_face_def recognition_failed_def split: if_splits sum.splits json.splits)
  show ?thesis
    by (cases ps) (auto simp: b match_json_level top_match_json_isMatch level_json_ALTO_iff face_level_ALTO_iff,
                   auto simp: top_match_json_def)
qed

lemma recognize_top_match_consistent_witness:
  "let r = fst (api_recognize_face \<lparr>env_key = Some ''k'', env_secret = Some ''s''\<rparr>
             \<lparr>up_tags = (\<lambda>_. Inl (Network ''-'')), up_colors = (\<lambda>_. Inl (Network ''-'')),
              up_objects = (\<lambda>_. Inl (Network ''-'')), up_upload = Inl (Network ''-''),
              up_faces = Inl (Network ''-''), up_index_put = Inl (Network ''-''),
              up_recognition = Inr (JObj [(''result'', JObj [(''people'',
                 JArr [JObj [(''id'', JStr ''ada''), (''score'', JNum 91)]])])])\<rparr>
             ''celebs'' (Some ''face1''))
   in status r = 200 \<and>
      (\<exists>ms tm. json_get (body r) ''matches'' = Some (JArr ms) \<and> json_get (body r) ''topMatch'' = Some tm \<and>
         (ms = [] \<longleftrightarrow> tm = JNull) \<and>
         (ms \<noteq> [] \<longrightarrow> (json_get tm ''isMatch'' = Some (JBool True) \<longleftrightarrow>
                       json_get (hd ms) ''level'' = Some (JStr ''ALTO''))))"
  unfolding Let_def
  by (rule conjI, simp add: api_recognize_face_def getAuthHeader_def js_falsy_str_def js_or_def
        decode_person_def, rule recognize_top_match_consistent,
      simp add: api_recognize_face_def getAuthHeader_def js_falsy_str_def js_or_def
        decode_person_def)


lemma api_recognize_face_200:
  assumes "status (fst (api_recognize_face e u i f)) = 200"
  shows "\<exists>ps d people fid. f = Some fid \<and> up_recognition u = Inr d \<and>
           js_or (json_path d [''result'', ''people'']) (JArr []) = JArr people \<and> decode_people people = Inr ps \<and>
           body (fst (api_recognize_face e u i f)) =
             JObj [(''success'', JBool True), (''indexId'', JStr i), (''faceId'', JStr fid),
                   (''matches'', JArr (map match_json ps)), (''topMatch'', top_match_json ps), (''raw'', d)]"
  using assms
  by (auto simp: api_recognize_face_def recognition_failed_def js_falsy_str_def
           split: if_splits sum.splits json.splits option.splits)

end
