(* ===== verification/FaceViews.thy ===== *)
theory FaceViews
  imports Frontend Faces
begin

text \<open>
  The rendering of the face endpoints' answers by \<^verbatim>\<open>src/public/app.js\<close>:
  \<^verbatim>\<open>renderFaceDetectionResults\<close> (lines 549-647) and
  \<^verbatim>\<open>renderRecognitionResults\<close> (680-769), as the values they show or the
  exception they throw, in the style of theory \<open>Frontend\<close>.
\<close>

section \<open>Detection results\<close>

text \<open>\<^verbatim>\<open>x.substring(0, n)\<close> on a property value.\<close>

definition js_substring :: "json option \<Rightarrow> nat \<Rightarrow> failure + string" where
  "js_substring x n =
     (case x of
        None \<Rightarrow> Inl (read_error ''undefined'' ''substring'')
      | Some JNull \<Rightarrow> Inl (read_error ''null'' ''substring'')
      | Some (JStr s) \<Rightarrow> Inr (take n s)
      | Some _ \<Rightarrow> Inl (Thrown ''substring is not a function''))"

datatype face_view = NoFaces | FacesFound "nat option" "(nat \<times> string) list"

text \<open>A face row (lines 582-621): its position and
  \<^verbatim>\<open>face.id.substring(0, 16)\<close>.\<close>

definition face_row :: "nat \<times> json \<Rightarrow> failure + nat \<times> string" where
  "face_row f =
     sbind (js_prop (Some (snd f)) ''id'') (\<lambda>i. sbind (js_substring i 16) (\<lambda>s. Inr (fst f + 1, s)))"

text \<open>\<^verbatim>\<open>json.faces || []\<close>: the message for an empty list, otherwise the
  count \<^verbatim>\<open>faces.length\<close> and the first ten faces.\<close>

definition renderFaceDetectionResults :: "json \<Rightarrow> failure + face_view" where
  "renderFaceDetectionResults j =
     (let faces = js_or (json_get j ''faces'') (JArr [])
      in sbind (js_length (Some faces)) (\<lambda>n.
           if n = Some 0 then Inr NoFaces
           else sbind (js_slice_each 10 faces) (\<lambda>fs.
                  sbind (map_all face_row (enumerate 0 fs)) (\<lambda>rows. Inr (FacesFound n rows)))))"

section \<open>Recognition results\<close>

datatype top_view = MatchFound "json option" "json option" | NoMatch "json option" "json option" | NoTopMatch

datatype row_colour = Green | Amber | Red

text \<open>The colour of a match row (lines 756 and 760):
  \<^verbatim>\<open>match.confidence > 80 ? green : match.confidence > 50 ? amber : red\<close>.\<close>

definition match_colour :: "json option \<Rightarrow> row_colour" where
  "match_colour c = (if js_gt c 80 then Green else if js_gt c 50 then Amber else Red)"

definition match_row :: "json \<Rightarrow> failure + json option \<times> json option \<times> json option \<times> row_colour" where
  "match_row m =
     sbind (js_prop (Some m) ''confidence'') (\<lambda>c.
       Inr (json_get m ''personId'', c, json_get m ''level'', match_colour c))"

record recognition_view =
  rv_index :: "json option"
  rv_face :: string
  rv_top :: top_view
  rv_matches :: "(json option \<times> json option \<times> json option \<times> row_colour) list option"

text \<open>The index and the first 20 characters of the face id, the banner of
  \<^verbatim>\<open>topMatch\<close> (a match when \<^verbatim>\<open>isMatch\<close> is truthy), and the first five
  matches.\<close>

definition renderRecognitionResults :: "json \<Rightarrow> failure + recognition_view" where
  "renderRecognitionResults j =
     sbind (js_substring (json_get j ''faceId'') 20) (\<lambda>face.
       (let tm = json_get j ''topMatch'';
            top = (if truthy tm \<and> truthy (json_get (the tm) ''isMatch'')
                   then MatchFound (json_get (the tm) ''personId'') (json_get (the tm) ''confidence'')
                   else if truthy tm
                   then NoMatch (json_get (the tm) ''personId'') (json_get (the tm) ''confidence'')
                   else NoTopMatch);
            ms = json_get j ''matches''
        in sbind (if \<not> truthy ms then Inr None
                  else sbind (js_length ms) (\<lambda>n.
                         if \<not> (case n of Some k \<Rightarrow> 0 < k | None \<Rightarrow> False) then Inr None
                         else sbind (js_slice_each 5 (the ms)) (\<lambda>xs.
                                sbind (map_all match_row xs) (\<lambda>rows. Inr (Some rows))))) (\<lambda>rows.
             Inr \<lparr>rv_index = json_get j ''indexId'', rv_face = face, rv_top = top, rv_matches = rows\<rparr>)))"

section \<open>Reference: the colour a level stands for\<close>

fun level_colour :: "level \<Rightarrow> row_colour" where
  "level_colour ALTO = Green"
| "level_colour MEDIO = Amber"
| "level_colour BAJO = Red"

section \<open>Lemmas\<close>

lemma match_colour_num: "match_colour (Some (JNum v)) = (if 80 < v then Green else if 50 < v then Amber else Red)"
  by (simp add: match_colour_def js_gt_def js_to_number_def)

text \<open>C24: the colour of a match row,
  which the page derives from the displayed confidence (the score rounded to
  two decimals), agrees with the row's level, which the server derives from the
  raw score, exactly when the score is outside the bands (80, 80.005) and
  (50, 50.005): a score of 80.004 is shown as level ALTO in amber.\<close>

lemma recognition_colour_vs_level:
  "match_colour (Some (JNum (to_fixed2 s))) = level_colour (face_level s) \<longleftrightarrow>
     \<not> (80 < s \<and> s < 80 + 1 / 200) \<and> \<not> (50 < s \<and> s < 50 + 1 / 200)"
  using to_fixed2_gt_int [of 80 s] to_fixed2_gt_int [of 50 s]
  by (auto simp: match_colour_num face_level_def)

lemma match_json_get [simp]:
  "json_get (match_json p) ''personId'' = fst p"
  "json_get (match_json p) ''confidence'' = Some (JNum (to_fixed2 (snd p)))"
  "json_get (match_json p) ''level'' = Some (level_json (face_level (snd p)))"
  by (simp_all add: match_json_def opt_field_def split: option.splits)

lemma match_row_json [simp]:
  "match_row (match_json p) =
     Inr (fst p, Some (JNum (to_fixed2 (snd p))), Some (level_json (face_level (snd p))),
          match_colour (Some (JNum (to_fixed2 (snd p)))))"
  by (simp add: match_row_def match_json_def js_prop_def opt_field_def split: option.splits)

lemma top_match_json_view:
  "top_match_json (p # ps) = JObj (opt_field ''personId'' (fst p) @
      [(''confidence'', JNum (to_fixed2 (snd p))), (''isMatch'', JBool (snd p > 80))])"
  by (simp add: top_match_json_def)

text \<open>C21: for every successful answer of
  \<^verbatim>\<open>/api/recognize-face\<close>, the page renders without error; its banner
  announces a match exactly when the top score exceeds 80, and it lists the
  first five matches with the rounded confidence, the level of the raw score
  and the colour of the rounded confidence.\<close>

lemma recognition_page:
  assumes "status (fst (api_recognize_face e u i f)) = 200"
  shows "\<exists>ps v. (\<exists>d people. up_recognition u = Inr d \<and>
                      js_or (json_path d [''result'', ''people'']) (JArr []) = JArr people \<and>
                      decode_people people = Inr ps) \<and>
           renderRecognitionResults (body (fst (api_recognize_face e u i f))) = Inr v \<and>
           rv_top v = (case ps of [] \<Rightarrow> NoTopMatch
                        | p # _ \<Rightarrow> if 80 < snd p then MatchFound (fst p) (Some (JNum (to_fixed2 (snd p))))
                                   else NoMatch (fst p) (Some (JNum (to_fixed2 (snd p))))) \<and>
           rv_matches v = (if ps = [] then None
                           else Some (map (\<lambda>p. (fst p, Some (JNum (to_fixed2 (snd p))),
                                                Some (level_json (face_level (snd p))),
                                                match_colour (Some (JNum (to_fixed2 (snd p))))))
                                          (take 5 ps)))"
proof -
  obtain ps d people fid where f: "f = Some fid" and up: "up_recognition u = Inr d"
      "js_or (json_path d [''result'', ''people'']) (JArr []) = JArr people" "decode_people people = Inr ps"
    and b: "body (fst (api_recognize_face e u i f)) =
             JObj [(''success'', JBool True), (''indexId'', JStr i), (''faceId'', JStr fid),
                   (''matches'', JArr (map match_json ps)), (''topMatch'', top_match_json ps), (''raw'', d)]"
    using api_recognize_face_200 [OF assms] by blast
  have rows: "map_all match_row (take 5 (map match_json ps)) =
     Inr (map (\<lambda>p. (fst p, Some (JNum (to_fixed2 (snd p))), Some (level_json (face_level (snd p))),
                    match_colour (Some (JNum (to_fixed2 (snd p)))))) (take 5 ps))"
    by (simp add: take_map map_all_map_comp)
  show ?thesis
  proof (cases ps)
    case Nil
    then show ?thesis
      using up by (intro exI [of _ ps]) (simp add: b renderRecognitionResults_def js_substring_def top_match_json_def)
  next
    case (Cons p qs)
    then show ?thesis
      using rows up
      by (intro exI [of _ ps]) (simp add: b renderRecognitionResults_def js_substring_def top_match_json_view
                                         opt_field_def js_length_def split: option.splits)
  qed
qed

lemma recognition_page_witness:
  "status (fst (api_recognize_face \<lparr>env_key = Some ''k'', env_secret = Some ''s''\<rparr>
     \<lparr>up_tags = (\<lambda>_. Inl (Network ''-'')), up_colors = (\<lambda>_. Inl (Network ''-'')),
      up_objects = (\<lambda>_. Inl (Network ''-'')), up_upload = Inl (Network ''-''),
      up_faces = Inl (Network ''-''), up_index_put = Inl (Network ''-''),
      up_recognition = Inr (JObj [(''result'', JObj [(''people'',
         JArr [JObj [(''id'', JStr ''ada''), (''score'', JNum 91)]])])])\<rparr>
     ''celebs'' (Some ''face1''))) = 200 \<and>
   (\<exists>ps v. (\<exists>d people. up_recognition \<lparr>up_tags = (\<lambda>_. Inl (Network ''-'')), up_colors = (\<lambda>_. Inl (Network ''-'')),
      up_objects = (\<lambda>_. Inl (Network ''-'')), up_upload = Inl (Network ''-''),
      up_faces = Inl (Network ''-''), up_index_put = Inl (Network ''-''),
      up_recognition = Inr (JObj [(''result'', JObj [(''people'',
         JArr [JObj [(''id'', JStr ''ada''), (''score'', JNum 91)]])])])\<rparr> = Inr d \<and>
      js_or (json_path d [''result'', ''people'']) (JArr []) = JArr people \<and> decode_people people = Inr ps) \<and>
      renderRecognitionResults (body (fst (api_recognize_face \<lparr>env_key = Some ''k'', env_secret = Some ''s''\<rparr>
     \<lparr>up_tags = (\<lambda>_. Inl (Network ''-'')), up_colors = (\<lambda>_. Inl (Network ''-'')),
      up_objects = (\<lambda>_. Inl (Network ''-'')), up_upload = Inl (Network ''-''),
      up_faces = Inl (Network ''-''), up_index_put = Inl (Network ''-''),
      up_recognition = Inr (JObj [(''result'', JObj [(''people'',
         JArr [JObj [(''id'', JStr ''ada''), (''score'', JNum 91)]])])])\<rparr>
     ''celebs'' (Some ''face1'')))) = Inr v \<and>
      rv_top v = (case ps of [] \<Rightarrow> NoTopMatch
                   | p # _ \<Rightarrow> if 80 < snd p then MatchFound (fst p) (Some (JNum (to_fixed2 (snd p))))
                              else NoMatch (fst p) (Some (JNum (to_fixed2 (snd p))))) \<and>
      rv_matches v = (if ps = [] then None
                      else Some (map (\<lambda>p. (fst p, Some (JNum (to_fixed2 (snd p))),
                                           Some (level_json (face_level (snd p))),
                                           match_colour (Some (JNum (to_fixed2 (snd p))))))
                                     (take 5 ps))))"
  (is "?ok \<and> ?page")
proof
  show ?ok
    by (simp add: api_recognize_face_def getAuthHeader_def js_falsy_str_def js_or_def decode_person_def)
  then show ?page by (rule recognition_page)
qed

end
