(* ===== verification/Urls.thy ===== *)
theory Urls
  imports Color
begin

text \<open>
  The addresses of the recognition request. The page builds
  \<^verbatim>\<open>/api/recognize-face/${indexId}?faceId=${faceId}\<close> from its inputs
  without encoding them (\<^verbatim>\<open>src/public/app.js\<close> line 663); the route
  \<^verbatim>\<open>/api/recognize-face/:indexId\<close> reads the decoded path parameter and the
  query (\<^verbatim>\<open>src/server.js\<close> lines 525-528) and puts the index id, unencoded,
  into the Imagga address (lines 16, 503-505, 539-541). The URL syntax the
  browser, Express and axios apply is written out for the parts these
  addresses use: the removal of tabs and newlines, the fragment and the query,
  the path segments with their dot segments (WHATWG URL), percent-decoding
  (\<^verbatim>\<open>decodeURIComponent\<close>, on bytes), and the query decoding of
  \<^verbatim>\<open>qs\<close> (\<^verbatim>\<open>+\<close> as a space, the value kept as written when it does not
  decode).
\<close>

section \<open>Splitting\<close>

text \<open>The text before the first character satisfying \<open>P\<close>, and the text
  after it when there is one.\<close>

fun cut_at :: "(char \<Rightarrow> bool) \<Rightarrow> string \<Rightarrow> string \<times> string option" where
  "cut_at P [] = ([], None)"
| "cut_at P (c # s) = (if P c then ([], Some s) else (case cut_at P s of (a, r) \<Rightarrow> (c # a, r)))"

text \<open>\<^verbatim>\<open>s.split(sep)\<close> on the characters satisfying \<open>P\<close>.\<close>

fun split_on :: "(char \<Rightarrow> bool) \<Rightarrow> string \<Rightarrow> string list" where
  "split_on P [] = [[]]"
| "split_on P (c # s) =
     (if P c then [] # split_on P s
      else (case split_on P s of w # ws \<Rightarrow> (c # w) # ws | [] \<Rightarrow> [[c]]))"

section \<open>Percent-decoding\<close>

text \<open>\<^verbatim>\<open>decodeURIComponent\<close> on a byte string: \<^const>\<open>None\<close> for a
  \<^verbatim>\<open>%\<close> not followed by two hex digits (a \<^verbatim>\<open>URIError\<close>). Strings are
  the UTF-8 bytes, so decoding byte by byte gives the bytes of the decoded
  text; the check that the bytes form valid UTF-8 is not modelled.\<close>

fun pct_decode :: "string \<Rightarrow> string option" where
  "pct_decode [] = Some []"
| "pct_decode (c # s) =
     (if c \<noteq> CHR ''%'' then map_option (Cons c) (pct_decode s)
      else (case s of
              h # l # r \<Rightarrow>
                (case (hex_digit_val h, hex_digit_val l) of
                   (Some a, Some b) \<Rightarrow> map_option (Cons (char_of (16 * a + b))) (pct_decode r)
                 | _ \<Rightarrow> None)
            | _ \<Rightarrow> None))"

text \<open>The decoder of \<^verbatim>\<open>qs\<close>: \<^verbatim>\<open>+\<close> becomes a space, then
  \<^verbatim>\<open>decodeURIComponent\<close>, keeping the text as it is when that fails.\<close>

definition form_decode :: "string \<Rightarrow> string" where
  "form_decode s =
     (let t = map (\<lambda>c. if c = CHR ''+'' then CHR '' '' else c) s
      in case pct_decode t of Some d \<Rightarrow> d | None \<Rightarrow> t)"

section \<open>URL syntax\<close>

text \<open>The URL parser drops ASCII tabs and newlines anywhere, and reads a
  backslash as a slash in an \<^verbatim>\<open>http\<close> address.\<close>

definition url_ws :: "char \<Rightarrow> bool" where
  "url_ws c \<longleftrightarrow> c = CHR 0x09 \<or> c = CHR 0x0A \<or> c = CHR 0x0D"

definition is_slash :: "char \<Rightarrow> bool" where
  "is_slash c \<longleftrightarrow> c = CHR ''/'' \<or> c = CHR 0x5C"

text \<open>The single and double dot segments, \<^verbatim>\<open>%2e\<close> standing for a dot.\<close>

definition single_dot :: "string \<Rightarrow> bool" where
  "single_dot s \<longleftrightarrow> s = ''.'' \<or> js_lower s = ''%2e''"

definition double_dot :: "string \<Rightarrow> bool" where
  "double_dot s \<longleftrightarrow> js_lower s \<in> {''..'', ''.%2e'', ''%2e.'', ''%2e%2e''}"

text \<open>The path state of the parser: a double dot removes the last segment,
  a single dot nothing; either leaves an empty last segment when it ends the
  path. The accumulator holds the segments so far, last first.\<close>

fun norm_path :: "string list \<Rightarrow> string list \<Rightarrow> string list" where
  "norm_path acc [] = rev acc"
| "norm_path acc (s # rest) =
     (if double_dot s then (if rest = [] then rev ([] # drop 1 acc) else norm_path (drop 1 acc) rest)
      else if single_dot s then (if rest = [] then rev ([] # acc) else norm_path acc rest)
      else norm_path (s # acc) rest)"

text \<open>An address without its fragment, split into the part before the query
  and the query.\<close>

definition url_components :: "string \<Rightarrow> string \<times> string option" where
  "url_components s =
     cut_at (\<lambda>c. c = CHR ''?'') (fst (cut_at (\<lambda>c. c = CHR ''#'') (filter (\<lambda>c. \<not> url_ws c) s)))"

text \<open>The segments of a path that starts with a slash.\<close>

definition path_segments :: "string \<Rightarrow> string list" where
  "path_segments p = norm_path [] (tl (split_on is_slash p))"

text \<open>The host and the path segments of an \<^verbatim>\<open>http\<close> or \<^verbatim>\<open>https\<close>
  address, as axios sends it (the \<^verbatim>\<open>URL\<close> class of Node.js).\<close>

definition http_url :: "string \<Rightarrow> (string \<times> string list) option" where
  "http_url s =
     (let u = fst (url_components s);
          rest = (if prefix ''https://'' u then Some (drop 8 u)
                  else if prefix ''http://'' u then Some (drop 7 u) else None)
      in map_option (\<lambda>r. case cut_at is_slash r of
                           (host, None) \<Rightarrow> (host, [])
                         | (host, Some p) \<Rightarrow> (host, path_segments (CHR ''/'' # p))) rest)"

section \<open>The recognition request\<close>

text \<open>The address \<^verbatim>\<open>recognizeFace\<close> fetches (line 663).\<close>

definition recognize_request_url :: "string \<Rightarrow> string \<Rightarrow> string" where
  "recognize_request_url faceId indexId = ''/api/recognize-face/'' @ indexId @ ''?faceId='' @ faceId"

text \<open>A query parameter as \<^verbatim>\<open>qs\<close> gives it to \<^verbatim>\<open>req.query\<close>: absent,
  a string, or another value (an array for a repeated key, an object for a
  bracketed one), which the model does not follow further.\<close>

datatype query_val = QAbsent | QStr string | QOther

definition query_lookup :: "string \<Rightarrow> string \<Rightarrow> query_val" where
  "query_lookup k q =
     (let ps = map (\<lambda>pc. case cut_at (\<lambda>c. c = CHR ''='') pc of
                         (a, v) \<Rightarrow> (form_decode a, form_decode (case v of None \<Rightarrow> [] | Some x \<Rightarrow> x)))
                   (split_on (\<lambda>c. c = CHR ''&'') q)
      in if list_ex (\<lambda>(a, v). prefix (k @ ''['') a) ps then QOther
         else (case [v. (a, v) \<leftarrow> ps, a = k] of [] \<Rightarrow> QAbsent | [v] \<Rightarrow> QStr v | _ \<Rightarrow> QOther))"

text \<open>Where a GET request for an address ends: no route of the handler
  (another route, a static file or the 404 page), a parameter that does not
  decode (Express answers 400), or the handler with the decoded
  \<^verbatim>\<open>indexId\<close> and \<^verbatim>\<open>faceId\<close>.\<close>

datatype 'a routed = NoRoute | BadParam | Routed 'a

text \<open>The route \<^verbatim>\<open>/api/recognize-face/:indexId\<close> (lines 525-528): one
  non-empty segment after the prefix, an optional final slash, letters of
  either case in the prefix (Express's defaults).\<close>

definition route_recognize :: "string \<Rightarrow> (string \<times> query_val) routed" where
  "route_recognize url =
     (let (u, q) = url_components url;
          m = (case path_segments u of
                 [a, b, i] \<Rightarrow> Some (a, b, i)
               | [a, b, i, e] \<Rightarrow> (if e = [] then Some (a, b, i) else None)
               | _ \<Rightarrow> None)
      in (case m of
            Some (a, b, i) \<Rightarrow>
              if js_lower a = ''api'' \<and> js_lower b = ''recognize-face'' \<and> i \<noteq> []
              then (case pct_decode i of
                      None \<Rightarrow> BadParam
                    | Some d \<Rightarrow> Routed (d, (case q of None \<Rightarrow> QAbsent | Some qs \<Rightarrow> query_lookup ''faceId'' qs)))
              else NoRoute
          | None \<Rightarrow> NoRoute))"

text \<open>\<^verbatim>\<open>IMAGGA_BASE\<close> (line 16).\<close>

definition imagga_base :: "string option \<Rightarrow> string" where
  "imagga_base endpoint = (if js_falsy_str endpoint then ''https://api.imagga.com'' else the endpoint)"

text \<open>\<^verbatim>\<open>${IMAGGA_BASE}/v2/faces/recognition/${indexId}\<close>, the address of
  the recognition call (line 540) and of the index creation (line 504).\<close>

definition recognition_url :: "string option \<Rightarrow> string \<Rightarrow> string" where
  "recognition_url endpoint indexId = imagga_base endpoint @ ''/v2/faces/recognition/'' @ indexId"

text \<open>The characters an index id or a face id may hold and still reach the
  server and Imagga as typed.\<close>

definition path_safe :: "string \<Rightarrow> bool" where
  "path_safe s \<longleftrightarrow> s \<noteq> [] \<and> s \<noteq> ''.'' \<and> s \<noteq> ''..'' \<and>
     list_all (\<lambda>c. \<not> is_slash c \<and> \<not> url_ws c \<and> c \<notin> set ''?#%'') s"

definition query_safe :: "string \<Rightarrow> bool" where
  "query_safe s \<longleftrightarrow> list_all (\<lambda>c. \<not> url_ws c \<and> c \<notin> set ''#%&+'') s"


section \<open>Lemmas\<close>

lemma cut_at_none: "list_all (\<lambda>c. \<not> P c) a \<Longrightarrow> cut_at P a = (a, None)"
  by (induction a) auto

lemma cut_at_append: "list_all (\<lambda>c. \<not> P c) a \<Longrightarrow> P c \<Longrightarrow> cut_at P (a @ c # s) = (a, Some s)"
  by (induction a) auto

lemma split_on_none: "list_all (\<lambda>c. \<not> P c) a \<Longrightarrow> split_on P a = [a]"
  by (induction a) auto

lemma pct_decode_plain: "CHR ''%'' \<notin> set s \<Longrightarrow> pct_decode s = Some s"
  by (induction s) auto

lemma form_decode_plain: "CHR ''%'' \<notin> set s \<Longrightarrow> CHR ''+'' \<notin> set s \<Longrightarrow> form_decode s = s"
proof -
  assume p: "CHR ''%'' \<notin> set s" and q: "CHR ''+'' \<notin> set s"
  from q have "map (\<lambda>c. if c = CHR ''+'' then CHR '' '' else c) s = s"
    by (induction s) auto
  with p show ?thesis by (simp add: form_decode_def pct_decode_plain)
qed


lemma js_lower_char_punct:
  "js_lower_char c = CHR ''.'' \<longleftrightarrow> c = CHR ''.''" "js_lower_char c = CHR ''%'' \<longleftrightarrow> c = CHR ''%''"
  by (auto simp: js_lower_char_def Let_def char_of_eq_iff take_bit_eq_mod)

lemma safe_not_dot: "path_safe s \<Longrightarrow> \<not> double_dot s \<and> \<not> single_dot s"
  by (auto simp: path_safe_def double_dot_def single_dot_def js_lower_def map_eq_Cons_conv js_lower_char_punct)

lemma path_safe_chars:
  "path_safe s \<Longrightarrow> list_all (\<lambda>c. \<not> is_slash c) s \<and> list_all (\<lambda>c. \<not> url_ws c) s \<and>
     list_all (\<lambda>c. c \<noteq> CHR ''?'') s \<and> list_all (\<lambda>c. c \<noteq> CHR ''#'') s \<and> CHR ''%'' \<notin> set s \<and> s \<noteq> []"
  by (auto simp: path_safe_def list_all_iff)

lemma query_safe_chars:
  "query_safe s \<Longrightarrow> list_all (\<lambda>c. \<not> url_ws c) s \<and> list_all (\<lambda>c. c \<noteq> CHR ''#'') s \<and>
     list_all (\<lambda>c. c \<noteq> CHR ''&'') s \<and> CHR ''%'' \<notin> set s \<and> CHR ''+'' \<notin> set s"
  by (auto simp: query_safe_def list_all_iff)



lemma route_recognize_traversal:
  assumes t: "path_safe t" and f: "query_safe f"
  shows "route_recognize (recognize_request_url f (''x%2F..%2F..%2F..%2F'' @ t)) = Routed (''x/../../../'' @ t, QStr f)"
proof -
  note tc = path_safe_chars [OF t] and fc = query_safe_chars [OF f]
  let ?i = "''x%2F..%2F..%2F..%2F'' @ t"
  let ?u = "''/api/recognize-face/'' @ ?i"
  have ws: "filter (\<lambda>c. \<not> url_ws c) (recognize_request_url f ?i) = recognize_request_url f ?i"
    using tc fc by (simp add: recognize_request_url_def url_ws_def list_all_iff)
  have "cut_at (\<lambda>c. c = CHR ''#'') (recognize_request_url f ?i) = (recognize_request_url f ?i, None)"
    using tc fc by (intro cut_at_none) (simp add: recognize_request_url_def)
  moreover have "cut_at (\<lambda>c. c = CHR ''?'') (recognize_request_url f ?i) = (?u, Some (''faceId='' @ f))"
    using tc cut_at_append [of "\<lambda>c. c = CHR ''?''" ?u "CHR ''?''" "''faceId='' @ f"]
    by (simp add: recognize_request_url_def)
  ultimately have comp: "url_components (recognize_request_url f ?i) = (?u, Some (''faceId='' @ f))"
    using ws by (simp add: url_components_def)
  have "split_on is_slash ?u = [[], ''api'', ''recognize-face'', ?i]"
    using tc by (simp add: split_on_none is_slash_def)
  then have seg: "path_segments ?u = [''api'', ''recognize-face'', ?i]"
    using tc by (simp add: path_segments_def double_dot_def single_dot_def js_lower_def js_lower_char_def)
  have dec: "pct_decode ?i = Some (''x/../../../'' @ t)"
    using tc by (simp add: pct_decode_plain hex_digit_val_def char_of_eq_iff)
  have "split_on (\<lambda>c. c = CHR ''&'') (''faceId='' @ f) = [''faceId='' @ f]"
    using fc by (intro split_on_none) simp
  then have "query_lookup ''faceId'' (''faceId='' @ f) = QStr f"
    using fc by (simp add: query_lookup_def form_decode_plain)
  with comp seg dec show ?thesis
    by (simp add: route_recognize_def js_lower_def js_lower_char_def)
qed

lemma recognition_url_traversal:
  assumes t: "path_safe t"
  shows "http_url (recognition_url None (''x/../../../'' @ t)) = Some (''api.imagga.com'', [''v2'', t])"
proof -
  note tc = path_safe_chars [OF t]
  let ?s = "recognition_url None (''x/../../../'' @ t)"
  have s: "?s = ''https://api.imagga.com/v2/faces/recognition/x/../../../'' @ t"
    by (simp add: recognition_url_def imagga_base_def js_falsy_str_def)
  have "url_components ?s = (?s, None)"
    using tc unfolding s url_components_def
    by (simp add: url_ws_def list_all_iff cut_at_none)
  moreover have "split_on is_slash (''/v2/faces/recognition/x/../../../'' @ t) =
                   [[], ''v2'', ''faces'', ''recognition'', ''x'', ''..'', ''..'', ''..'', t]"
    using tc by (simp add: split_on_none is_slash_def)
  ultimately show ?thesis
    using safe_not_dot [OF t] tc unfolding s
    by (simp add: http_url_def path_segments_def double_dot_def single_dot_def js_lower_def
                  js_lower_char_def is_slash_def cut_at_append)
qed


























text \<open>C14: the index id is not confined to the recognition endpoint: for
  every segment \<open>t\<close>, the index id \<^verbatim>\<open>x%2F..%2F..%2F..%2F\<close>\<open>t\<close> typed on
  the page reaches the handler decoded as \<^verbatim>\<open>x/../../../\<close>\<open>t\<close>, and the
  server then calls Imagga's \<^verbatim>\<open>/v2/\<close>\<open>t\<close> with its own credentials.\<close>

theorem recognition_path_traversal:
  "path_safe t \<Longrightarrow> query_safe f \<Longrightarrow>
     route_recognize (recognize_request_url f (''x%2F..%2F..%2F..%2F'' @ t)) = Routed (''x/../../../'' @ t, QStr f) \<and>
     http_url (recognition_url None (''x/../../../'' @ t)) = Some (''api.imagga.com'', [''v2'', t])"
  using route_recognize_traversal recognition_url_traversal by blast




lemma recognition_path_traversal_witness:
  "path_safe ''usage'' \<and> query_safe ''f1'' \<and>
   route_recognize (recognize_request_url ''f1'' (''x%2F..%2F..%2F..%2F'' @ ''usage'')) =
     Routed (''x/../../../'' @ ''usage'', QStr ''f1'') \<and>
   http_url (recognition_url None (''x/../../../'' @ ''usage'')) = Some (''api.imagga.com'', [''v2'', ''usage''])"
proof -
  have t: "path_safe ''usage''" and f: "query_safe ''f1''"
    by (simp_all add: path_safe_def query_safe_def is_slash_def url_ws_def)
  with recognition_path_traversal [OF t f] show ?thesis by blast
qed

end
