(* ===== verification/Browser.thy ===== *)
theory Browser
  imports FaceViews Urls
begin

text \<open>
  The page of \<^verbatim>\<open>src/public/app.js\<close> as a state machine: its status line,
  preview, results area and the requests it has in flight, changed by the
  user's events (choosing a file, submitting the form, showing an address, the
  detection and recognition buttons) and by the asynchronous completions (a
  file read, an image load, a \<^verbatim>\<open>toBlob\<close> callback, an answer, a network
  failure), which may arrive in any order. The answers come
  from the server model: the reachable pages are those of the runs in which
  every answer is the response of \<^const>\<open>api_analyze\<close>,
  \<^const>\<open>api_detect_faces\<close> or \<^const>\<open>api_recognize_face\<close> to the request
  the page sent, for some credentials and upstream outcomes. The field
  \<open>pg_shown_for\<close> is a ghost: the request whose answer the results area
  shows.
\<close>

section \<open>State\<close>

text \<open>The \<^verbatim>\<open>src\<close> of a preview image: a data URL read from a chosen file
  (numbered), or the address given to \<^verbatim>\<open>showPreviewFromUrl\<close> as
  \<^verbatim>\<open>img.src\<close> reads it back (the browser resolves it to an absolute
  address).\<close>

datatype img_src = DataUrl nat | HttpUrl string

datatype preview_item = PImg img_src | PText string

text \<open>A value the status line appends: as is, or as
  \<^verbatim>\<open>JSON.stringify\<close> writes it.\<close>

datatype shown = Val json | Stringified json

text \<open>\<^verbatim>\<open>clearStatus\<close>, \<^verbatim>\<open>showStatus(text)\<close>, and \<^verbatim>\<open>showError(text)\<close>
  with its fixed prefix and appended value (lines 7-9).\<close>

datatype status_line = Clear | Info string | ErrorLine string "shown option"

datatype results =
    NoResults | AnalysisShown response_view | FacesShown face_view
  | RecognitionShown recognition_view | RenderFailed

text \<open>What the page waits for: a file read, an image load, a
  \<^verbatim>\<open>canvas.toBlob\<close> callback, or the answer of a \<^verbatim>\<open>fetch\<close>; the
  upload of a detection records whether the blob was there.\<close>

datatype page_req =
    ReadReq nat | LoadReq string | BlobReq img_src
  | AnalyzeReq nat | DetectUrlReq img_src | DetectUploadReq img_src bool
  | RecognizeReq string string

record page =
  pg_status :: status_line
  pg_preview :: "preview_item list"
  pg_results :: results
  pg_pending :: "page_req list"
  pg_shown_for :: "page_req option"

definition init_page :: page where
  "init_page = \<lparr>pg_status = Clear, pg_preview = [], pg_results = NoResults, pg_pending = [],
                 pg_shown_for = None\<rparr>"

datatype event =
    ChooseFile nat | SubmitForm "nat option" | ReadDone nat bool | ShowUrl string | ImgLoaded string bool
  | ClickDetect | BlobDone img_src bool | ClickRecognize string string
  | Answer page_req "json response" | NetFail page_req string

section \<open>Helpers\<close>

text \<open>\<^verbatim>\<open>previewEl.querySelector('img')\<close>.\<close>

fun first_img :: "preview_item list \<Rightarrow> img_src option" where
  "first_img [] = None"
| "first_img (PImg s # _) = Some s"
| "first_img (PText _ # xs) = first_img xs"

text \<open>\<^verbatim>\<open>imgEl.src.startsWith('http')\<close>; a data URL starts with
  \<^verbatim>\<open>data:\<close>.\<close>

fun is_http :: "img_src \<Rightarrow> bool" where
  "is_http (DataUrl _) = False"
| "is_http (HttpUrl s) = prefix ''http'' s"

text \<open>\<^verbatim>\<open>String.prototype.trim\<close> on ASCII white space.\<close>

definition js_ws :: "char \<Rightarrow> bool" where
  "js_ws c \<longleftrightarrow> c \<in> set [CHR 0x20, CHR 0x09, CHR 0x0A, CHR 0x0B, CHR 0x0C, CHR 0x0D]"

definition js_trim :: "string \<Rightarrow> string" where
  "js_trim s = rev (dropWhile js_ws (rev (dropWhile js_ws s)))"

text \<open>The requests a \<^verbatim>\<open>fetch\<close> sends; only these have an answer or
  a network failure.\<close>

fun is_fetch :: "page_req \<Rightarrow> bool" where
  "is_fetch (AnalyzeReq _) = True"
| "is_fetch (DetectUrlReq _) = True"
| "is_fetch (DetectUploadReq _ _) = True"
| "is_fetch (RecognizeReq _ _) = True"
| "is_fetch _ = False"

text \<open>\<^verbatim>\<open>response.ok\<close>.\<close>

definition resp_ok :: "json response \<Rightarrow> bool" where
  "resp_ok r \<longleftrightarrow> 200 \<le> status r \<and> status r < 300"

definition net_error :: "string \<Rightarrow> status_line" where
  "net_error msg = ErrorLine ''Error de red: '' (Some (Val (JStr msg)))"

section \<open>Handlers\<close>

text \<open>\<^verbatim>\<open>showPreviewFromUrl(url)\<close> (lines 11-19): the image is shown at
  once; its load completes later.\<close>

definition showPreviewFromUrl :: "page \<Rightarrow> string \<Rightarrow> page" where
  "showPreviewFromUrl p s = p\<lparr>pg_preview := [PImg (HttpUrl s)], pg_pending := pg_pending p @ [LoadReq s]\<rparr>"

text \<open>The image's \<^verbatim>\<open>onload\<close> (nothing) and \<^verbatim>\<open>onerror\<close>, which replaces
  whatever the preview holds by then with a message.\<close>

definition img_loaded :: "page \<Rightarrow> string \<Rightarrow> bool \<Rightarrow> page" where
  "img_loaded p s ok =
     p\<lparr>pg_preview := (if ok then pg_preview p else [PText ''No se pudo cargar la imagen''])\<rparr>"

text \<open>\<^verbatim>\<open>showPreviewFromFile(file)\<close> (lines 21-28): the preview is emptied
  and the file read as a data URL.\<close>

definition showPreviewFromFile :: "page \<Rightarrow> nat \<Rightarrow> page" where
  "showPreviewFromFile p n = p\<lparr>pg_preview := [], pg_pending := pg_pending p @ [ReadReq n]\<rparr>"

text \<open>The reader's \<^verbatim>\<open>onload\<close>, which appends the image without emptying
  the preview again, and \<^verbatim>\<open>onerror\<close>.\<close>

definition reader_done :: "page \<Rightarrow> nat \<Rightarrow> bool \<Rightarrow> page" where
  "reader_done p n ok =
     p\<lparr>pg_preview := (if ok then pg_preview p @ [PImg (DataUrl n)] else [PText ''No se pudo leer el archivo''])\<rparr>"

text \<open>\<^verbatim>\<open>detectFaces()\<close> up to its requests (lines 31-56): it needs an image
  in the preview; an image whose address starts with \<^verbatim>\<open>http\<close> is sent by
  address, any other is copied to a canvas and waits for
  \<^verbatim>\<open>canvas.toBlob\<close>.\<close>

definition detectFaces :: "page \<Rightarrow> page" where
  "detectFaces p =
     (case first_img (pg_preview p) of
        None \<Rightarrow> p\<lparr>pg_status := ErrorLine ''Primero carga una imagen para detectar rostros'' None\<rparr>
      | Some src \<Rightarrow> p\<lparr>pg_status := Info ''Detectando rostros...'',
                       pg_pending := pg_pending p @ [if is_http src then DetectUrlReq src else BlobReq src]\<rparr>)"

text \<open>The \<^verbatim>\<open>toBlob\<close> callback (lines 57-60) sends the form whose
  \<^verbatim>\<open>image\<close> field is the blob, or the string \<^verbatim>\<open>null\<close> when there is
  none.\<close>

definition toBlob_done :: "page \<Rightarrow> img_src \<Rightarrow> bool \<Rightarrow> page" where
  "toBlob_done p src b = p\<lparr>pg_pending := pg_pending p @ [DetectUploadReq src b]\<rparr>"

text \<open>The form's submit handler up to its request (lines 528-538): it clears
  the status, needs a file, starts its preview, shows the progress message and
  sends the file.\<close>

definition submit_form :: "page \<Rightarrow> nat option \<Rightarrow> page" where
  "submit_form p f =
     (case f of
        None \<Rightarrow> p\<lparr>pg_status := ErrorLine ''Selecciona un archivo'' None\<rparr>
      | Some n \<Rightarrow> (let q = showPreviewFromFile (p\<lparr>pg_status := Clear\<rparr>) n
                  in q\<lparr>pg_status := Info ''Subiendo y analizando...'', pg_pending := pg_pending q @ [AnalyzeReq n]\<rparr>))"

text \<open>\<^verbatim>\<open>recognizeFace()\<close> up to its request (lines 650-664): both trimmed
  inputs are needed; they are put into the address as they are.\<close>

definition recognizeFace :: "page \<Rightarrow> string \<Rightarrow> string \<Rightarrow> page" where
  "recognizeFace p f i =
     (if js_trim f = [] \<or> js_trim i = []
      then p\<lparr>pg_status := ErrorLine ''Por favor rellena Face ID e Index ID'' None\<rparr>
      else p\<lparr>pg_status := Info ''Reconociendo rostro...'',
             pg_pending := pg_pending p @ [RecognizeReq (js_trim f) (js_trim i)]\<rparr>)"

section \<open>Answers\<close>

text \<open>The form's handler after \<^verbatim>\<open>fetch\<close> (lines 539-545): an error
  answer shows \<^verbatim>\<open>json.error\<close> or the whole JSON; an exception of the
  rendering is caught and shown as a network error.\<close>

definition analyze_answer :: "page \<Rightarrow> nat \<Rightarrow> json response \<Rightarrow> page" where
  "analyze_answer p n resp =
     (if \<not> resp_ok resp
      then p\<lparr>pg_status := ErrorLine ''Error: ''
               (Some (if truthy (json_get (body resp) ''error'') then Val (the (json_get (body resp) ''error''))
                      else Stringified (body resp)))\<rparr>
      else (case renderResponse (body resp) of
              Inl err \<Rightarrow> p\<lparr>pg_status := net_error (error_message err), pg_results := RenderFailed,
                            pg_shown_for := Some (AnalyzeReq n)\<rparr>
            | Inr v \<Rightarrow> p\<lparr>pg_status := Clear, pg_results := AnalysisShown v,
                          pg_shown_for := Some (AnalyzeReq n)\<rparr>))"

text \<open>\<^verbatim>\<open>detectFaces\<close> after the address request (lines 66-79).\<close>

definition detect_url_answer :: "page \<Rightarrow> img_src \<Rightarrow> json response \<Rightarrow> page" where
  "detect_url_answer p src resp =
     (if \<not> resp_ok resp
      then p\<lparr>pg_status := ErrorLine ''Error detectando rostros: ''
               (Some (Val (js_or (json_get (body resp) ''error'') (JStr ''Desconocido''))))\<rparr>
      else (case renderFaceDetectionResults (body resp) of
              Inl err \<Rightarrow> p\<lparr>pg_status := net_error (error_message err), pg_results := RenderFailed,
                            pg_shown_for := Some (DetectUrlReq src)\<rparr>
            | Inr v \<Rightarrow> p\<lparr>pg_status := Clear, pg_results := FacesShown v,
                          pg_shown_for := Some (DetectUrlReq src)\<rparr>))"

text \<open>The promise chain of the upload (lines 60-63), with neither an
  \<^verbatim>\<open>ok\<close> check nor a \<^verbatim>\<open>catch\<close>: an exception of the rendering ends the
  chain after the status has been cleared.\<close>

definition detect_upload_answer :: "page \<Rightarrow> img_src \<Rightarrow> bool \<Rightarrow> json response \<Rightarrow> page" where
  "detect_upload_answer p src b resp =
     (case renderFaceDetectionResults (body resp) of
        Inl err \<Rightarrow> p\<lparr>pg_status := Clear, pg_results := RenderFailed, pg_shown_for := Some (DetectUploadReq src b)\<rparr>
      | Inr v \<Rightarrow> p\<lparr>pg_status := Clear, pg_results := FacesShown v, pg_shown_for := Some (DetectUploadReq src b)\<rparr>)"

text \<open>\<^verbatim>\<open>recognizeFace\<close> after its request (lines 665-676).\<close>

definition recognize_answer :: "page \<Rightarrow> string \<Rightarrow> string \<Rightarrow> json response \<Rightarrow> page" where
  "recognize_answer p f i resp =
     (if \<not> resp_ok resp
      then p\<lparr>pg_status := ErrorLine ''Error: ''
               (Some (Val (js_or (json_get (body resp) ''error'') (JStr ''Desconocido''))))\<rparr>
      else (case renderRecognitionResults (body resp) of
              Inl err \<Rightarrow> p\<lparr>pg_status := net_error (error_message err), pg_results := RenderFailed,
                            pg_shown_for := Some (RecognizeReq f i)\<rparr>
            | Inr v \<Rightarrow> p\<lparr>pg_status := Clear, pg_results := RecognitionShown v,
                          pg_shown_for := Some (RecognizeReq f i)\<rparr>))"

text \<open>The continuation a request's answer resumes.\<close>

fun answer_step :: "page \<Rightarrow> page_req \<Rightarrow> json response \<Rightarrow> page" where
  "answer_step p (AnalyzeReq n) resp = analyze_answer p n resp"
| "answer_step p (DetectUrlReq src) resp = detect_url_answer p src resp"
| "answer_step p (DetectUploadReq src b) resp = detect_upload_answer p src b resp"
| "answer_step p (RecognizeReq f i) resp = recognize_answer p f i resp"
| "answer_step p _ resp = p"

text \<open>A rejected \<^verbatim>\<open>fetch\<close>: the handlers' \<^verbatim>\<open>catch\<close> shows the message;
  the promise chain of the upload path of the detection has none.\<close>

fun fail_step :: "page \<Rightarrow> page_req \<Rightarrow> string \<Rightarrow> page" where
  "fail_step p (AnalyzeReq n) msg = p\<lparr>pg_status := net_error msg\<rparr>"
| "fail_step p (DetectUrlReq src) msg = p\<lparr>pg_status := net_error msg\<rparr>"
| "fail_step p (RecognizeReq f i) msg = p\<lparr>pg_status := net_error msg\<rparr>"
| "fail_step p _ msg = p"

section \<open>Events\<close>

text \<open>One event: the file input's \<^verbatim>\<open>change\<close> listener (line 771), the
  form's \<^verbatim>\<open>submit\<close> listener (528), the page's calls of the global
  functions, and the completions, each removing the request it completes. A
  completion of a request that is not pending does nothing.\<close>

fun page_step :: "page \<Rightarrow> event \<Rightarrow> page" where
  "page_step p (ChooseFile n) = showPreviewFromFile p n"
| "page_step p (SubmitForm f) = submit_form p f"
| "page_step p (ReadDone n ok) =
     (if ReadReq n \<notin> set (pg_pending p) then p
      else reader_done (p\<lparr>pg_pending := remove1 (ReadReq n) (pg_pending p)\<rparr>) n ok)"
| "page_step p (ShowUrl s) = showPreviewFromUrl p s"
| "page_step p (ImgLoaded s ok) =
     (if LoadReq s \<notin> set (pg_pending p) then p
      else img_loaded (p\<lparr>pg_pending := remove1 (LoadReq s) (pg_pending p)\<rparr>) s ok)"
| "page_step p ClickDetect = detectFaces p"
| "page_step p (BlobDone src b) =
     (if BlobReq src \<notin> set (pg_pending p) then p
      else toBlob_done (p\<lparr>pg_pending := remove1 (BlobReq src) (pg_pending p)\<rparr>) src b)"
| "page_step p (ClickRecognize f i) = recognizeFace p f i"
| "page_step p (Answer r resp) =
     (if r \<notin> set (pg_pending p) \<or> \<not> is_fetch r then p
      else answer_step (p\<lparr>pg_pending := remove1 r (pg_pending p)\<rparr>) r resp)"
| "page_step p (NetFail r msg) =
     (if r \<notin> set (pg_pending p) \<or> \<not> is_fetch r then p
      else fail_step (p\<lparr>pg_pending := remove1 r (pg_pending p)\<rparr>) r msg)"

section \<open>Runs against the server\<close>

text \<open>The request body the form sends: a file and no \<^verbatim>\<open>image_url\<close>
  (line 534); \<^verbatim>\<open>detectFaces\<close> sends the same for an uploaded image,
  without the file when \<^verbatim>\<open>toBlob\<close> gave no blob (lines 58-59), and
  \<^verbatim>\<open>{image_url}\<close> for an address (line 48).\<close>

definition upload_form :: "bool \<Rightarrow> request" where
  "upload_form b = \<lparr>req_image_url = None, req_file = b\<rparr>"

definition file_form :: request where
  "file_form = upload_form True"

text \<open>The pages reachable from the empty page when every answer is the
  server's response to the request sent. The credentials and the upstream
  outcomes may differ from one answer to the next. A recognition request is
  answered by the handler with the index id and face id the route decodes from
  the address the page fetches; an address no route of the handler takes gets
  a page that is not JSON, whose \<^verbatim>\<open>res.json()\<close> fails like a network
  error (\<open>net_fail\<close>).\<close>

inductive reachable :: "page \<Rightarrow> bool" where
  init: "reachable init_page"
| choose: "reachable p \<Longrightarrow> reachable (page_step p (ChooseFile n))"
| submit: "reachable p \<Longrightarrow> reachable (page_step p (SubmitForm f))"
| read: "reachable p \<Longrightarrow> reachable (page_step p (ReadDone n ok))"
| show_url: "reachable p \<Longrightarrow> reachable (page_step p (ShowUrl s))"
| img_loaded: "reachable p \<Longrightarrow> reachable (page_step p (ImgLoaded s ok))"
| blob: "reachable p \<Longrightarrow> reachable (page_step p (BlobDone src b))"
| detect: "reachable p \<Longrightarrow> reachable (page_step p ClickDetect)"
| recognize: "reachable p \<Longrightarrow> reachable (page_step p (ClickRecognize f i))"
| analyze_answer: "reachable p \<Longrightarrow> reachable (page_step p (Answer (AnalyzeReq n) (fst (api_analyze e u file_form))))"
| detect_url_answer: "reachable p \<Longrightarrow>
     reachable (page_step p (Answer (DetectUrlReq (HttpUrl s))
                              (fst (api_detect_faces e u \<lparr>req_image_url = Some s, req_file = False\<rparr>))))"
| detect_upload_answer: "reachable p \<Longrightarrow>
     reachable (page_step p (Answer (DetectUploadReq src b) (fst (api_detect_faces e u (upload_form b)))))"
| recognize_answer: "reachable p \<Longrightarrow> route_recognize (recognize_request_url f i) = Routed (i', fv) \<Longrightarrow>
     fv \<noteq> QOther \<Longrightarrow>
     reachable (page_step p (Answer (RecognizeReq f i)
       (fst (api_recognize_face e u i' (case fv of QStr s \<Rightarrow> Some s | _ \<Rightarrow> None)))))"
| net_fail: "reachable p \<Longrightarrow> reachable (page_step p (NetFail r msg))"

section \<open>Completions\<close>

text \<open>The request an event completes: a file read, an image load, a
  \<^verbatim>\<open>toBlob\<close> callback, or the answer or failure of a \<^verbatim>\<open>fetch\<close>.\<close>

fun completes :: "event \<Rightarrow> page_req option" where
  "completes (ReadDone n _) = Some (ReadReq n)"
| "completes (ImgLoaded s _) = Some (LoadReq s)"
| "completes (BlobDone src _) = Some (BlobReq src)"
| "completes (Answer r _) = (if is_fetch r then Some r else None)"
| "completes (NetFail r _) = (if is_fetch r then Some r else None)"
| "completes _ = None"

text \<open>\<open>completion q p\<close>: \<open>q\<close> is \<open>p\<close> after the completion of one of its
  pending requests.\<close>

definition completion :: "page \<Rightarrow> page \<Rightarrow> bool" where
  "completion q p \<longleftrightarrow> (\<exists>ev r. completes ev = Some r \<and> r \<in> set (pg_pending p) \<and> q = page_step p ev)"

text \<open>The work left in flight: a \<^verbatim>\<open>toBlob\<close> callback counts twice, as it
  starts the upload it waits for.\<close>

fun req_weight :: "page_req \<Rightarrow> nat" where
  "req_weight (BlobReq _) = 2"
| "req_weight _ = 1"

definition in_flight :: "page \<Rightarrow> nat" where
  "in_flight p = sum_list (map req_weight (pg_pending p))"

section \<open>Lemmas\<close>

lemmas page_handlers [simp] =
  showPreviewFromUrl_def img_loaded_def showPreviewFromFile_def reader_done_def detectFaces_def
  toBlob_done_def submit_form_def recognizeFace_def analyze_answer_def detect_url_answer_def
  detect_upload_answer_def recognize_answer_def

lemma api_analyze_ok_200: "resp_ok (fst (api_analyze e u req)) \<Longrightarrow> status (fst (api_analyze e u req)) = 200"
  using api_analyze_status [of e u req] by (auto simp: resp_ok_def)

lemma fail_step_keeps [simp]:
  "pg_results (fail_step p r m) = pg_results p" "pg_preview (fail_step p r m) = pg_preview p"
  "pg_pending (fail_step p r m) = pg_pending p" "pg_shown_for (fail_step p r m) = pg_shown_for p"
  by (cases r; simp)+

lemma page_step_results:
  "pg_results (page_step p ev) = pg_results p \<or>
   (\<exists>r resp. ev = Answer r resp \<and> r \<in> set (pg_pending p) \<and>
              pg_results (page_step p ev) = pg_results (answer_step (p\<lparr>pg_pending := remove1 r (pg_pending p)\<rparr>) r resp))"
proof (cases ev)
  case (SubmitForm f)
  then show ?thesis by (cases f) simp_all
qed (auto split: option.splits)

lemma non_answer_results:
  "(\<And>r resp. ev \<noteq> Answer r resp) \<Longrightarrow> pg_results (page_step p ev) = pg_results p"
  using page_step_results [of p ev] by blast

text \<open>C13: in every page reachable against the
  server, whatever the order in which answers arrive, the results area never
  shows a tag row: the tag list of an analysis is always the "no tags"
  message.\<close>

lemma reachable_no_tag_rows:
  "reachable p \<Longrightarrow> pg_results p \<noteq> AnalysisShown (Analysis av (TagRows rows))"
proof (induction rule: reachable.induct)
  case init
  then show ?case by (simp add: init_page_def)
next
  case (analyze_answer p n e u)
  let ?r = "fst (api_analyze e u file_form)"
  have "renderResponse (body ?r) \<noteq> Inr (Analysis av (TagRows rows))" if "resp_ok ?r"
    using api_analyze_no_tag_rows [OF api_analyze_ok_200 [OF that]] .
  with analyze_answer.IH show ?case
    by (auto split: sum.splits)
next
  case (detect_url_answer p s e u)
  then show ?case by (auto split: sum.splits)
next
  case (detect_upload_answer p src e u)
  then show ?case by (auto split: sum.splits)
next
  case (recognize_answer p f i e u)
  then show ?case by (auto split: sum.splits)
qed (auto simp: non_answer_results split: option.splits)

lemma remove1_keeps: "y \<in> set xs \<Longrightarrow> y \<noteq> x \<Longrightarrow> y \<in> set (remove1 x xs)"
  by (simp add: in_set_remove1)

text \<open>C25: in every reachable page, the
  message "Subiendo y analizando..." is shown only while an analysis request
  is in flight: every way an analysis completes or fails replaces it.\<close>

lemma reachable_upload_progress:
  "reachable p \<Longrightarrow> pg_status p = Info ''Subiendo y analizando...'' \<Longrightarrow>
     \<exists>n. AnalyzeReq n \<in> set (pg_pending p)"
proof (induction rule: reachable.induct)
  case init
  then show ?case by (simp add: init_page_def)
next
  case (submit p f)
  then show ?case by (cases f) auto
next
  case (read p n ok)
  then show ?case by (auto intro: remove1_keeps)
next
  case (net_fail p r msg)
  then show ?case by (cases r) (auto simp: net_error_def intro: remove1_keeps)
next
  case (detect p)
  then show ?case by (auto split: option.splits)
qed (auto simp: net_error_def split: sum.splits)

text \<open>C16: the detection of an uploaded
  image can leave the page showing "Detectando rostros..." with no request in
  flight, a state no completion changes: the promise chain of that path has no
  \<^verbatim>\<open>catch\<close>, so a failed \<^verbatim>\<open>fetch\<close> never updates the page.\<close>

lemma detection_progress_stuck:
  "\<exists>p. reachable p \<and> pg_pending p = [] \<and> pg_status p = Info ''Detectando rostros...'' \<and>
       (\<forall>r resp. page_step p (Answer r resp) = p) \<and> (\<forall>r m. page_step p (NetFail r m) = p) \<and>
       (\<forall>n b. page_step p (ReadDone n b) = p)"
proof -
  let ?p = "page_step (page_step (page_step (page_step (page_step init_page (ChooseFile 1)) (ReadDone 1 True))
                         ClickDetect) (BlobDone (DataUrl 1) True))
                      (NetFail (DetectUploadReq (DataUrl 1) True) ''Failed to fetch'')"
  have "reachable ?p"
    by (intro reachable.net_fail reachable.blob reachable.detect reachable.read reachable.choose reachable.init)
  moreover have "pg_pending ?p = []" "pg_status ?p = Info ''Detectando rostros...''"
    by (simp_all add: init_page_def)
  ultimately show ?thesis by (intro exI [of _ ?p]) simp
qed

text \<open>C17: when the detection of an
  uploaded image fails on the server (missing credentials, failed upload, no
  faces, upstream error: any answer other than 200), the page clears the
  status and shows "No se detectaron rostros", because that path checks
  neither \<^verbatim>\<open>response.ok\<close> nor \<^verbatim>\<open>json.error\<close>.\<close>

lemma detect_upload_error_as_no_faces:
  assumes "DetectUploadReq src b \<in> set (pg_pending p)" "status (fst (api_detect_faces e u (upload_form b))) \<noteq> 200"
  shows "pg_results (page_step p (Answer (DetectUploadReq src b) (fst (api_detect_faces e u (upload_form b))))) = FacesShown NoFaces \<and>
         pg_status (page_step p (Answer (DetectUploadReq src b) (fst (api_detect_faces e u (upload_form b))))) = Clear"
  using assms
  by (auto simp: api_detect_faces_def faces_error_def faces_ok_def detection_failed_def
                 renderFaceDetectionResults_def js_or_def js_length_def
           split: sum.splits if_splits)

text \<open>C18: answers are not matched to the
  latest submission: a page can show the results of the first of two
  submitted files while its preview shows the second, with nothing in
  flight.\<close>

lemma stale_analysis_shown:
  "\<exists>p. reachable p \<and> pg_pending p = [] \<and> first_img (pg_preview p) = Some (DataUrl 2) \<and>
       pg_shown_for p = Some (AnalyzeReq 1)"
proof -
  let ?e = "\<lparr>env_key = Some ''k'', env_secret = Some ''s''\<rparr>"
  let ?u1 = "\<lparr>up_tags = (\<lambda>_. Inr (JObj [])), up_colors = (\<lambda>_. Inl (Network ''timeout'')),
              up_objects = (\<lambda>_. Inl (Network ''timeout'')),
              up_upload = Inr (JObj [(''result'', JObj [(''upload_id'', JStr ''u1'')])]),
              up_faces = Inl (Network ''-''), up_index_put = Inl (Network ''-''), up_recognition = Inl (Network ''-'')\<rparr>"
  let ?u2 = "?u1\<lparr>up_tags := (\<lambda>_. Inl (Upstream 400 JNull ''Request failed with status code 400''))\<rparr>"
  let ?p4 = "page_step (page_step (page_step (page_step init_page (SubmitForm (Some 1))) (ReadDone 1 True))
                                   (SubmitForm (Some 2))) (ReadDone 2 True)"
  let ?p = "page_step (page_step ?p4 (Answer (AnalyzeReq 2) (fst (api_analyze ?e ?u2 file_form))))
                      (Answer (AnalyzeReq 1) (fst (api_analyze ?e ?u1 file_form)))"
  have "reachable ?p"
    by (rule reachable.analyze_answer reachable.read reachable.submit reachable.init)+
  moreover have ok1: "resp_ok (fst (api_analyze ?e ?u1 file_form))"
    by (simp add: resp_ok_def api_analyze_def getAuthHeader_def js_falsy_str_def file_form_def upload_form_def upload_id_def
                  analyze_with_retry_def analyzeImageFull_def analyze_ok_def)
  moreover have "\<not> resp_ok (fst (api_analyze ?e ?u2 file_form))"
    by (simp add: resp_ok_def api_analyze_def getAuthHeader_def js_falsy_str_def file_form_def upload_form_def upload_id_def
                  analyze_with_retry_def analyzeImageFull_def analyze_error_def is_server_error_def)
  ultimately show ?thesis
    by (intro exI [of _ ?p]) (simp add: init_page_def split: sum.splits)
qed

lemma reachable_no_tag_rows_witness:
  "reachable (page_step (page_step init_page (SubmitForm (Some 1)))
     (Answer (AnalyzeReq 1) (fst (api_analyze \<lparr>env_key = Some ''k'', env_secret = Some ''s''\<rparr>
        \<lparr>up_tags = (\<lambda>_. Inr (JObj [])), up_colors = (\<lambda>_. Inl (Network ''-'')), up_objects = (\<lambda>_. Inl (Network ''-'')),
         up_upload = Inr (JObj [(''result'', JObj [(''upload_id'', JStr ''u1'')])]),
         up_faces = Inl (Network ''-''), up_index_put = Inl (Network ''-''), up_recognition = Inl (Network ''-'')\<rparr>
        file_form)))) \<and>
   pg_results (page_step (page_step init_page (SubmitForm (Some 1)))
     (Answer (AnalyzeReq 1) (fst (api_analyze \<lparr>env_key = Some ''k'', env_secret = Some ''s''\<rparr>
        \<lparr>up_tags = (\<lambda>_. Inr (JObj [])), up_colors = (\<lambda>_. Inl (Network ''-'')), up_objects = (\<lambda>_. Inl (Network ''-'')),
         up_upload = Inr (JObj [(''result'', JObj [(''upload_id'', JStr ''u1'')])]),
         up_faces = Inl (Network ''-''), up_index_put = Inl (Network ''-''), up_recognition = Inl (Network ''-'')\<rparr>
        file_form)))) \<noteq> AnalysisShown (Analysis None (TagRows []))"
  (is "reachable ?p \<and> _")
proof
  show r: "reachable ?p" by (rule reachable.analyze_answer [OF reachable.submit [OF reachable.init]])
  from reachable_no_tag_rows [OF r]
  show "pg_results ?p \<noteq> AnalysisShown (Analysis None (TagRows []))" .
qed

lemma reachable_upload_progress_witness:
  "reachable (page_step init_page (SubmitForm (Some 1))) \<and>
   pg_status (page_step init_page (SubmitForm (Some 1))) = Info ''Subiendo y analizando...'' \<and>
   (\<exists>n. AnalyzeReq n \<in> set (pg_pending (page_step init_page (SubmitForm (Some 1)))))"
proof (intro conjI)
  show r: "reachable (page_step init_page (SubmitForm (Some 1)))" by (rule reachable.submit [OF reachable.init])
  show s: "pg_status (page_step init_page (SubmitForm (Some 1))) = Info ''Subiendo y analizando...''" by simp
  from reachable_upload_progress [OF r s]
  show "\<exists>n. AnalyzeReq n \<in> set (pg_pending (page_step init_page (SubmitForm (Some 1))))" .
qed

lemma detect_upload_error_as_no_faces_witness:
  "DetectUploadReq (DataUrl 1) True \<in> set (pg_pending (init_page\<lparr>pg_pending := [DetectUploadReq (DataUrl 1) True]\<rparr>)) \<and>
   status (fst (api_detect_faces \<lparr>env_key = None, env_secret = None\<rparr>
      \<lparr>up_tags = (\<lambda>_. Inl (Network ''-'')), up_colors = (\<lambda>_. Inl (Network ''-'')),
       up_objects = (\<lambda>_. Inl (Network ''-'')), up_upload = Inl (Network ''-''), up_faces = Inl (Network ''-''),
       up_index_put = Inl (Network ''-''), up_recognition = Inl (Network ''-'')\<rparr> (upload_form True))) \<noteq> 200 \<and>
   pg_results (page_step (init_page\<lparr>pg_pending := [DetectUploadReq (DataUrl 1) True]\<rparr>)
     (Answer (DetectUploadReq (DataUrl 1) True) (fst (api_detect_faces \<lparr>env_key = None, env_secret = None\<rparr>
      \<lparr>up_tags = (\<lambda>_. Inl (Network ''-'')), up_colors = (\<lambda>_. Inl (Network ''-'')),
       up_objects = (\<lambda>_. Inl (Network ''-'')), up_upload = Inl (Network ''-''), up_faces = Inl (Network ''-''),
       up_index_put = Inl (Network ''-''), up_recognition = Inl (Network ''-'')\<rparr> (upload_form True))))) = FacesShown NoFaces"
  (is "?pend \<and> ?err \<and> ?res")
proof (intro conjI)
  show p: ?pend by simp
  show e: ?err by (simp add: api_detect_faces_def getAuthHeader_def js_falsy_str_def detection_failed_def upload_form_def)
  from detect_upload_error_as_no_faces [OF p e] show ?res by blast
qed


lemma answer_step_pending [simp]: "pg_pending (answer_step p r resp) = pg_pending p"
  by (cases "(p, r, resp)" rule: answer_step.cases) (simp_all split: sum.splits)

lemma req_weight_pos: "0 < req_weight r"
  by (cases r rule: req_weight.cases) simp_all

lemma in_flight_remove1:
  "r \<in> set (pg_pending p) \<Longrightarrow> sum_list (map req_weight (remove1 r (pg_pending p))) + req_weight r = in_flight p"
  by (simp add: in_flight_def sum_list_map_remove1 [of r "pg_pending p" req_weight])

lemma completion_in_flight: "completion q p \<Longrightarrow> in_flight q < in_flight p"
proof (unfold completion_def, elim exE conjE)
  fix ev r
  assume c: "completes ev = Some r" and r: "r \<in> set (pg_pending p)" and q: "q = page_step p ev"
  note w = in_flight_remove1 [OF r] and pos = req_weight_pos [of r]
  show "in_flight q < in_flight p"
    using c r w pos unfolding q
    by (cases ev rule: completes.cases) (auto simp: in_flight_def split: if_splits)
qed

text \<open>C15: the asynchronous part of the page terminates: there is no
  infinite sequence of completions of pending requests (file reads, image
  loads, \<^verbatim>\<open>toBlob\<close> callbacks, answers and failures of the fetch calls),
  since each one lowers the work in flight and none starts more work than it
  ends.\<close>

theorem completions_terminate: "wfP completion"
  by (rule wfp_if_convertible_to_nat [of completion in_flight]) (rule completion_in_flight)


text \<open>C19: an address whose image fails to load wipes the preview even
  after a file has been chosen and shown since: the \<^verbatim>\<open>onerror\<close> of
  \<^verbatim>\<open>showPreviewFromUrl\<close> writes the preview whatever it holds by then,
  and the detection button then finds no image.\<close>

lemma stale_load_error_wipes_preview:
  "\<exists>p s. reachable p \<and> first_img (pg_preview p) = Some (DataUrl 1) \<and>
         reachable (page_step p (ImgLoaded s False)) \<and>
         first_img (pg_preview (page_step p (ImgLoaded s False))) = None \<and>
         pg_status (page_step (page_step p (ImgLoaded s False)) ClickDetect) =
           ErrorLine ''Primero carga una imagen para detectar rostros'' None"
proof -
  let ?p = "page_step (page_step (page_step init_page (ShowUrl ''http://a/x.jpg'')) (ChooseFile 1)) (ReadDone 1 True)"
  have r: "reachable ?p"
    by (intro reachable.read reachable.choose reachable.show_url reachable.init)
  have "reachable (page_step ?p (ImgLoaded ''http://a/x.jpg'' False))"
    by (rule reachable.img_loaded [OF r])
  with r show ?thesis
    by (intro exI [of _ ?p] exI [of _ "''http://a/x.jpg''"]) (simp add: init_page_def)
qed

text \<open>C28: on the address path of the detection, with the credentials set,
  every failure of the upstream face call (an Imagga error status, a time-out,
  a network error) reaches the page as "Error detectando rostros: No faces
  detected in URL image".\<close>

lemma detect_url_failure_shown:
  assumes "DetectUrlReq (HttpUrl s) \<in> set (pg_pending p)" "getAuthHeader e = Inr h" "s \<noteq> []"
    and "up_faces u = Inl err"
  shows "pg_status (page_step p (Answer (DetectUrlReq (HttpUrl s))
                      (fst (api_detect_faces e u \<lparr>req_image_url = Some s, req_file = False\<rparr>)))) =
           ErrorLine ''Error detectando rostros: '' (Some (Val (JStr ''No faces detected in URL image'')))"
  using assms
  by (simp add: api_detect_faces_def js_falsy_str_def faces_error_def resp_ok_def js_or_def)

lemma detect_url_failure_shown_witness:
  "pg_status (page_step (init_page\<lparr>pg_pending := [DetectUrlReq (HttpUrl ''http://a/x.jpg'')]\<rparr>)
     (Answer (DetectUrlReq (HttpUrl ''http://a/x.jpg''))
        (fst (api_detect_faces \<lparr>env_key = Some ''k'', env_secret = Some ''s''\<rparr>
              \<lparr>up_tags = (\<lambda>_. Inl (Network ''-'')), up_colors = (\<lambda>_. Inl (Network ''-'')),
               up_objects = (\<lambda>_. Inl (Network ''-'')), up_upload = Inl (Network ''-''),
               up_faces = Inl (Upstream 503 JNull ''Request failed with status code 503''),
               up_index_put = Inl (Network ''-''), up_recognition = Inl (Network ''-'')\<rparr>
              \<lparr>req_image_url = Some ''http://a/x.jpg'', req_file = False\<rparr>)))) =
     ErrorLine ''Error detectando rostros: '' (Some (Val (JStr ''No faces detected in URL image'')))"
  by (rule detect_url_failure_shown) (simp_all add: getAuthHeader_def js_falsy_str_def)

end
