(* ===== verification/Spec2Isabelle.thy ===== *)
theory Spec2Isabelle
  imports Browser
begin

text \<open>
  Verification development of \<^verbatim>\<open>src/server.js\<close>, an Express proxy that sends
  an image to the Imagga API (tags, colours, objects, faces) and synthesises a
  scene context from the answers, and of the parts of the browser script
  \<^verbatim>\<open>src/public/app.js\<close> that compute on the server's answers.

  \<^bold>\<open>How the parts interact.\<close> A request to \<^verbatim>\<open>POST /api/analyze\<close> checks the
  credentials (\<^verbatim>\<open>getAuthHeader\<close>), optionally uploads the file, calls
  \<^verbatim>\<open>analyzeImageFull\<close> (three concurrent upstream calls, the tags call
  mandatory), and passes the result to the synthesiser
  \<^verbatim>\<open>generateSceneContext\<close>, which normalises confidences, classifies them,
  analyses the colours, categorises the tags, describes the scene and computes
  the metrics. The browser renders the JSON answer. The face endpoints call
  Imagga's face services and reshape their answers.

  \<^bold>\<open>Theories, in import order.\<close>
  \<^item> \<open>Prelude\<close>: the JavaScript primitives the code uses, as HOL functions:
    \<^verbatim>\<open>x || 0\<close>, \<^verbatim>\<open>s || 'Unknown'\<close>, \<^verbatim>\<open>toLowerCase\<close> (ASCII),
    \<^verbatim>\<open>includes\<close> (proved equal to \<^const>\<open>sublist\<close>), \<^verbatim>\<open>join\<close>,
    \<^verbatim>\<open>Math.round\<close>, \<^verbatim>\<open>parseFloat(x.toFixed(2))\<close>, the arithmetic mean, and
    \<^const>\<open>first_min\<close>, the reference for a scan that keeps the first strict
    minimum; with their shared lemmas (collection \<open>js_simps\<close>).
  \<^item> \<open>Confidence\<close> (server.js 147-153, 396-411 and the item maps
    of \<^verbatim>\<open>generateSceneContext\<close>, 73-80): \<^verbatim>\<open>getConfidenceLevel\<close>, the per-item
    normalisation \<^const>\<open>toConfItem\<close> and \<^verbatim>\<open>calculateAverageConfidence\<close>.
    Lemmas: the level agrees with the percentage thresholds 80/50 whatever the
    unit of the input, the normalised confidence lies in [0, 100], the level is
    monotone, and the average is clamped but takes its unit from the first tag.
  \<^item> \<open>Color\<close> (server.js 156-249, 378-393): \<^verbatim>\<open>hexToRgb\<close>,
    \<^verbatim>\<open>calculateBrightness\<close>, \<^verbatim>\<open>colorNameFromHex\<close>,
    \<^verbatim>\<open>analyzeColorHarmony\<close>, \<^verbatim>\<open>calculateVibrancy\<close>, the stable sort by
    percentage and \<^verbatim>\<open>analyzeColorsAdvanced\<close>. The nearest-colour loop is a
    structural recursion carrying \<^verbatim>\<open>minDistance\<close> (\<^const>\<open>None\<close> for
    \<^verbatim>\<open>Infinity\<close>) and is proved to return the first palette entry of least
    distance. Distances are written with \<^const>\<open>sqrt\<close> as in the code; code
    equations on squared integer distances (proved equal) make them evaluate.
    Lemmas: hex parse/print round trips, brightness range, nearest colour,
    harmony thresholds, the sort's specification (a stable permutation,
    descending), bounds on the average brightness.
  \<^item> \<open>Tags\<close> (server.js 252-290): \<^verbatim>\<open>categorizeTags\<close> as a left fold of
    its \<^verbatim>\<open>forEach\<close> body over a record of five lists, proved equal to a
    filter per category of a declarative first-match classification, hence a
    partition of the input.
  \<^item> \<open>Scene\<close> (server.js 293-375): scene type, setting, mood, dominant
    theme, the description and the composition metrics, against rule tables
    evaluated in the code's order.
  \<^item> \<open>Context\<close> (server.js 51-144): \<^verbatim>\<open>generateSceneContext\<close> on the
    typed input; ranges of every displayed number, absent sections, category
    caps.
  \<^item> \<open>Json\<close>: JSON values, optional chaining, truthiness and \<^verbatim>\<open>||\<close>, and
    the decoding of the upstream answers into the synthesiser's input
    (server.js 52-54).
  \<^item> \<open>Server\<close> (server.js 18-48, 574-637): the credentials, the three
    upstream calls and \<^verbatim>\<open>/api/analyze\<close> with its upload path and single
    retry on a 5xx answer. The Imagga API is an input record of outcomes, one
    per call and attempt; handlers return the response and the list of calls
    issued. Lemmas: on answers of the documented shapes
    (\<^const>\<open>documented_upstream\<close>) the tags call is mandatory and the others
    optional, the
    retry condition, at most two attempts.
  \<^item> \<open>Faces\<close> (server.js 414-572): the detection, index and recognition
    endpoints; detection failures are reported as 400, and the top match
    agrees with the level of the first match.
  \<^item> \<open>ContextJson\<close> (server.js 70-141): the context as the JSON value
    \<^verbatim>\<open>res.json\<close> sends, with the label strings of every enumeration, and a
    schema of spec section 6 (\<^const>\<open>context_schema\<close>): key, JSON type,
    enumeration of each label and range of each number. Every context the
    server builds conforms to it. The browser's lemmas assume only this
    schema, so they hold for any server that keeps the contract.
  \<^item> \<open>Frontend\<close> (app.js 82-526): \<^verbatim>\<open>renderResponse\<close>, each section of
    \<^verbatim>\<open>renderAdvancedSceneContext\<close> and the uncalled
    \<^verbatim>\<open>renderSceneContext\<close>, as the values each shows or the exception it
    throws. The property reads, \<^verbatim>\<open>.length\<close>, \<^verbatim>\<open>.slice\<close> and
    \<^verbatim>\<open>.forEach\<close> of JavaScript are written out with their
    \<^verbatim>\<open>TypeError\<close>s. Lemmas: on every server answer the tag list is the
    "no tags" message, the colour rows throw exactly on a malformed dominant
    colour, the categories are those of the first 20 tags in the page's order,
    the bars and the printed confidence lie in [0, 100], and the older view
    shows only its default text.
  \<^item> \<open>FaceViews\<close> (app.js 549-647, 680-769): the detection and
    recognition results; the row colour of a match disagrees with its level in
    two narrow bands of scores.
  \<^item> \<open>Urls\<close> (app.js 663, server.js 16, 525-528, 503-505, 539-545): the
    address \<^verbatim>\<open>recognizeFace\<close> fetches, the route
    \<^verbatim>\<open>/api/recognize-face/:indexId\<close> with its decoded parameter and
    \<^verbatim>\<open>req.query.faceId\<close> (\<^const>\<open>route_recognize\<close>), and the Imagga
    address the server builds from the index id. The URL syntax the browser,
    Express and axios apply is written out for what these addresses use:
    tabs and newlines, fragment, query, path segments with dot segments
    (WHATWG), percent-decoding, and the query decoding of \<^verbatim>\<open>qs\<close>. Lemmas:
    ids without reserved characters reach the handler and Imagga as typed;
    an index id with encoded slashes and dot segments makes the server call
    any Imagga \<^verbatim>\<open>/v2/\<close> endpoint; unencoded characters change or drop
    the ids.
  \<^item> \<open>Browser\<close> (app.js 1-80, 528-546, 650-677, 771): the page as a state
    machine. Each handler is a definition on the page record, as the code
    has it: \<^const>\<open>showPreviewFromUrl\<close>, \<^const>\<open>showPreviewFromFile\<close>
    with the reader's callbacks, \<^const>\<open>detectFaces\<close> with its
    \<^verbatim>\<open>canvas.toBlob\<close> callback, \<^const>\<open>submit_form\<close>,
    \<^const>\<open>recognizeFace\<close>, and one continuation per answered request.
    \<^const>\<open>page_step\<close> dispatches the events (the user's actions and the
    completions: file reads, image loads, \<^verbatim>\<open>toBlob\<close> callbacks, answers,
    network failures), the completions arriving in any order. The inductive
    \<^const>\<open>reachable\<close> composes it with the server: every answer is the
    response of the server's handler to the request sent, a recognition
    request with the ids the route decodes from its address. Lemmas by rule
    induction (no tag row is ever shown; the upload message is shown only
    while an analysis is in flight), the termination of the asynchronous part
    (completions are well-founded, measured by the work in flight, in which a
    pending \<^verbatim>\<open>toBlob\<close> counts twice because it starts an upload), and
    runs showing a detection message that never clears, a stale analysis
    under a newer preview, and a failed image load wiping a newer preview.
  \<^item> This theory: properties that span the face endpoints and the
    synthesiser, and the order of validation across handlers.

  \<^bold>\<open>Modelling decisions.\<close> JavaScript numbers are exact reals: rounding of
  floating point is not modelled, so \<^verbatim>\<open>toFixed\<close> is rounding half up of the
  exact value. Strings are character lists; \<^verbatim>\<open>toLowerCase\<close> maps ASCII
  letters only, which is all the keyword tables use. The synthesiser's input is
  decoded on the shapes the Imagga API documents: a section that is not an
  array, a name that is not a string or a confidence that is not a number is
  read as absent (where the code would default, throw or concatenate instead);
  the face endpoints model every shape, errors included. In the browser,
  \<^verbatim>\<open>Number\<close> and \<^verbatim>\<open>parseFloat\<close> read a number as itself and a
  non-empty string as \<^verbatim>\<open>NaN\<close> (exact for the non-numeric strings),
  \<^verbatim>\<open>trim\<close> removes ASCII white space, the emoji of the labels are left
  out, and a file read, a request and its answer are events of their own; the
  field \<open>pg_shown_for\<close> of the page is a ghost recording whose answer the
  results show. No loop of the program is unbounded: each is a structural
  recursion or a fold over its input list, so no fuel is needed.

  \<^bold>\<open>Not modelled.\<close> The Express set-up, static files, multer and
  \<^verbatim>\<open>listen\<close> (server.js 1-16, 639-640), the Base64 encoding of the
  \<^verbatim>\<open>Authorization\<close> header, the multipart upload body and the timeouts of
  axios (transport only). In the browser: the DOM construction and styling
  beyond the values shown; the pixels the canvas of
  \<^verbatim>\<open>detectFaces\<close> copies (52-56): the blob is only present or
  \<^verbatim>\<open>null\<close>; the clipboard button of a face row (613). The page's HTML is
  not in the repository: \<^verbatim>\<open>showPreviewFromUrl\<close>,
  \<^verbatim>\<open>detectFaces\<close> and \<^verbatim>\<open>recognizeFace\<close>, which no code of
  \<^verbatim>\<open>app.js\<close> calls, are events the page may raise at any time.
  The repository has no \<^verbatim>\<open>package.json\<close>: the library behaviour modelled
  is that of Express 4 with its default \<^verbatim>\<open>qs\<close> query parser and of axios
  1.x, which parses addresses with the WHATWG \<^verbatim>\<open>URL\<close> class; the UTF-8
  check of \<^verbatim>\<open>decodeURIComponent\<close> and the nested keys of \<^verbatim>\<open>qs\<close> are
  not modelled. The answers of Imagga are modelled on the shapes its API
  documents (theory \<open>Json\<close>); for other shapes the code defaults, throws
  or concatenates at places that depend on the runtime's error messages and
  on string coercions through the whole synthesiser, so that boundary stays
  partly modelled.
\<close>

text \<open>C38: the face endpoints and the
  synthesiser classify a percentage score differently at the boundaries: for
  a score in (1, 100] the two levels agree exactly when the score is neither 50
  nor 80 (the face endpoint uses strict thresholds, getConfidenceLevel
  inclusive ones).\<close>

theorem face_level_vs_confidence_level:
  assumes "1 < s" "s \<le> 100"
  shows "face_level s = getConfidenceLevel s \<longleftrightarrow> s \<noteq> 50 \<and> s \<noteq> 80"
  using assms by (auto simp: face_level_def getConfidenceLevel_def)

theorem face_level_vs_confidence_level_witness:
  "face_level 80 \<noteq> getConfidenceLevel 80 \<and> face_level 90 = getConfidenceLevel 90"
  using face_level_vs_confidence_level [of 80] face_level_vs_confidence_level [of 90] by simp

text \<open>C36: without credentials, \<^verbatim>\<open>/api/analyze\<close> and
  \<^verbatim>\<open>/api/detect-faces\<close> answer 500 and call nothing even when the request
  itself is invalid, while \<^verbatim>\<open>/api/create-index\<close> and
  \<^verbatim>\<open>/api/recognize-face\<close> still answer 400 to a request missing its
  parameters: the first two check credentials before the request, the last two
  after.\<close>

theorem validation_order:
  assumes "js_falsy_str (env_key e)" "js_falsy_str (req_image_url req)" "\<not> req_file req"
    "js_falsy_str indexId" "js_falsy_str faceId"
  shows "api_analyze e u req = (analyze_error (Thrown ''Missing IMAGGA_API_KEY/IMAGGA_API_SECRET env vars''), []) \<and>
         status (fst (api_detect_faces e u req)) = 500 \<and> snd (api_detect_faces e u req) = [] \<and>
         status (fst (api_create_index e u indexId people)) = 400 \<and>
         status (fst (api_recognize_face e u i faceId)) = 400"
  using assms
  by (simp add: api_analyze_def api_detect_faces_def api_create_index_def api_recognize_face_def
                getAuthHeader_def detection_failed_def)

theorem validation_order_witness:
  "api_analyze \<lparr>env_key = None, env_secret = Some ''s''\<rparr> \<lparr>up_tags = (\<lambda>_. Inl (Network ''-'')), up_colors = (\<lambda>_. Inl (Network ''-'')),
        up_objects = (\<lambda>_. Inl (Network ''-'')), up_upload = Inl (Network ''-''), up_faces = Inl (Network ''-''),
        up_index_put = Inl (Network ''-''), up_recognition = Inl (Network ''-'')\<rparr> \<lparr>req_image_url = None, req_file = False\<rparr>
     = (analyze_error (Thrown ''Missing IMAGGA_API_KEY/IMAGGA_API_SECRET env vars''), []) \<and>
   status (fst (api_create_index \<lparr>env_key = None, env_secret = Some ''s''\<rparr> \<lparr>up_tags = (\<lambda>_. Inl (Network ''-'')), up_colors = (\<lambda>_. Inl (Network ''-'')),
        up_objects = (\<lambda>_. Inl (Network ''-'')), up_upload = Inl (Network ''-''), up_faces = Inl (Network ''-''),
        up_index_put = Inl (Network ''-''), up_recognition = Inl (Network ''-'')\<rparr> None None)) = 400"
  using validation_order [of "\<lparr>env_key = None, env_secret = Some ''s''\<rparr>"
      "\<lparr>req_image_url = None, req_file = False\<rparr>" None None "\<lparr>up_tags = (\<lambda>_. Inl (Network ''-'')), up_colors = (\<lambda>_. Inl (Network ''-'')),
        up_objects = (\<lambda>_. Inl (Network ''-'')), up_upload = Inl (Network ''-''), up_faces = Inl (Network ''-''),
        up_index_put = Inl (Network ''-''), up_recognition = Inl (Network ''-'')\<rparr>" None "''idx''"]
  by (simp add: js_falsy_str_def)

end
